(* ===== verification/Prelude.thy ===== *)
theory Prelude
  imports Complex_Main
begin

text \<open>
  Shared vocabulary of the development. The controller of \<^verbatim>\<open>src/vm_simulation1\<close>
  keeps its state in two Python dictionaries; a Python \<^verbatim>\<open>dict\<close> remembers the order
  in which its keys were first inserted, and that order is visible (\<^verbatim>\<open>ListFiles\<close>
  and the fan-out loop iterate in it). A dictionary is therefore modelled as an
  association list \<open>('k, 'v) pydict\<close> with the Python semantics of assignment
  (\<open>dict_set\<close>: an existing key keeps its position, a new key is appended) and of
  \<^verbatim>\<open>del\<close> (\<open>dict_del\<close>). Its abstraction is \<open>map_of\<close>; the lemmas below say that
  the operations refine map update and map deletion, and that they keep the keys
  distinct, which every dictionary of a run satisfies.
  Python's \<^verbatim>\<open>set\<close> of owner triples is a duplicate-free list updated by
  \<open>List.insert\<close>; its iteration order is unspecified in Python, and no theorem
  depends on it.
  The theory also names the primitive types shared by the components.
\<close>

named_theorems dict_simps "equations of the dictionary model"
named_theorems wf_intros "preservation of the well-formedness of the state"

type_synonym node_id = string
type_synonym timestamp = int
type_synonym endpoint = "string \<times> int"
type_synonym ('k, 'v) pydict = "('k \<times> 'v) list"

text \<open>\<^verbatim>\<open>d[k] = v\<close>\<close>

fun dict_set :: "'k \<Rightarrow> 'v \<Rightarrow> ('k, 'v) pydict \<Rightarrow> ('k, 'v) pydict" where
  "dict_set k v [] = [(k, v)]"
| "dict_set k v ((k', v') # d) =
     (if k = k' then (k, v) # d else (k', v') # dict_set k v d)"

text \<open>\<^verbatim>\<open>del d[k]\<close>; every caller in the source guards it with \<^verbatim>\<open>k in d\<close>.\<close>

fun dict_del :: "'k \<Rightarrow> ('k, 'v) pydict \<Rightarrow> ('k, 'v) pydict" where
  "dict_del k [] = []"
| "dict_del k ((k', v') # d) = (if k = k' then d else (k', v') # dict_del k d)"

abbreviation dict_keys :: "('k, 'v) pydict \<Rightarrow> 'k list" where
  "dict_keys d \<equiv> map fst d"

abbreviation dict_wf :: "('k, 'v) pydict \<Rightarrow> bool" where
  "dict_wf d \<equiv> distinct (dict_keys d)"

subsection \<open>Wire messages\<close>

text \<open>
  Every handler of \<^verbatim>\<open>StorageController\<close> answers with a
  \<^verbatim>\<open>storage_pb2.Response\<close> whose text is one of a fixed set of templates, or
  with a list message. One constructor per template, carrying the values the
  template interpolates.
\<close>

type_synonym location = "node_id \<times> string \<times> int"

datatype response =
    R_SetOffline node_id timestamp      \<comment> \<open>\<^verbatim>\<open>Node {id} set offline at {now}\<close>\<close>
  | R_NodeNotFound                      \<comment> \<open>\<^verbatim>\<open>Node not found\<close>\<close>
  | R_Registered node_id timestamp      \<comment> \<open>\<^verbatim>\<open>Node {id} registered successfully at {now}\<close>\<close>
  | R_HeartbeatReceived                 \<comment> \<open>\<^verbatim>\<open>Heartbeat received\<close>\<close>
  | R_NodeNotRegistered                 \<comment> \<open>\<^verbatim>\<open>Node not registered\<close>\<close>
  | R_Announced string node_id timestamp \<comment> \<open>\<^verbatim>\<open>File {f} announced by {id} at {now}\<close>\<close>
  | R_Locations "location list"         \<comment> \<open>\<^verbatim>\<open>NodeLocationList\<close>\<close>
  | R_CreateNoop string                 \<comment> \<open>\<^verbatim>\<open>File {f} create requested (noop)\<close>\<close>
  | R_Deleted string                    \<comment> \<open>\<^verbatim>\<open>Deleted {f}\<close>\<close>
  | R_FileNotFound                      \<comment> \<open>\<^verbatim>\<open>File not found\<close>\<close>
  | R_ModifyNotSupported                \<comment> \<open>\<^verbatim>\<open>Modify not supported at controller\<close>\<close>
  | R_Files "string list"               \<comment> \<open>\<^verbatim>\<open>FileList\<close>\<close>

subsection \<open>Dictionary lemmas\<close>

lemma map_of_SomeD_keys: "map_of d k = Some v \<Longrightarrow> k \<in> fst ` set d"
  by (induction d) (auto split: if_splits)

lemma map_of_None_keys:
  "(map_of d k = None) = (k \<notin> fst ` set d)"
  by (simp add: map_of_eq_None_iff)

lemma map_of_wf_iff:
  "dict_wf d \<Longrightarrow> (map_of d k = Some v) = ((k, v) \<in> set d)"
  by (auto dest: map_of_SomeD)

lemma map_of_dict_set [simp, dict_simps]:
  "map_of (dict_set k v d) = (map_of d)(k \<mapsto> v)"
  by (induction d) (auto simp: fun_eq_iff)

lemma set_keys_dict_set [simp, dict_simps]:
  "fst ` set (dict_set k v d) = insert k (fst ` set d)"
  by (induction k v d rule: dict_set.induct) auto

lemma keys_dict_set [dict_simps]:
  "dict_keys (dict_set k v d) =
     (if k \<in> set (dict_keys d) then dict_keys d else dict_keys d @ [k])"
  by (induction k v d rule: dict_set.induct) (auto simp: image_iff)

lemma set_dict_set_subset: "set (dict_set k v d) \<subseteq> insert (k, v) (set d)"
  by (induction d) (auto split: if_splits)

lemma dict_wf_dict_set [simp, wf_intros]:
  "dict_wf d \<Longrightarrow> dict_wf (dict_set k v d)"
  by (simp add: keys_dict_set)

lemma dict_set_dict_set [simp, dict_simps]:
  "dict_set k v2 (dict_set k v1 d) = dict_set k v2 d"
  by (induction k v1 d rule: dict_set.induct) auto

lemma list_insert_not_Nil [simp]: "List.insert x xs \<noteq> []"
  by (auto simp: List.insert_def)

lemma count_list_distinct:
  "distinct xs \<Longrightarrow> count_list xs x = (if x \<in> set xs then 1 else 0)"
  by (induction xs) auto

lemma map_of_dict_del [simp, dict_simps]:
  "dict_wf d \<Longrightarrow> map_of (dict_del k d) = (map_of d)(k := None)"
  by (induction k d rule: dict_del.induct)
    (auto simp: fun_eq_iff map_of_eq_None_iff image_iff)

lemma dict_del_subset: "set (dict_del k d) \<subseteq> set d"
  by (induction d) (auto split: if_splits)

lemma dict_del_filter:
  "dict_wf d \<Longrightarrow> dict_del k d = filter (\<lambda>(k', _). k' \<noteq> k) d"
  by (induction k d rule: dict_del.induct)
    (auto simp: image_iff intro!: filter_True [symmetric])

lemma set_keys_dict_del [simp, dict_simps]:
  "dict_wf d \<Longrightarrow> fst ` set (dict_del k d) = fst ` set d - {k}"
  by (auto simp: dict_del_filter image_iff)

lemma dict_wf_dict_del [simp, wf_intros]:
  "dict_wf d \<Longrightarrow> dict_wf (dict_del k d)"
  by (simp add: dict_del_filter distinct_map_filter)

lemma dict_set_middle [dict_simps]:
  "k \<notin> fst ` set d1 \<Longrightarrow> dict_set k v (d1 @ (k, v0) # d2) = d1 @ (k, v) # d2"
  by (induction d1) auto

lemma fold_dict_del [dict_simps]:
  "dict_wf d \<Longrightarrow> fold dict_del ks d = filter (\<lambda>(k, _). k \<notin> set ks) d"
proof (induction ks arbitrary: d)
  case Nil
  then show ?case by (simp add: filter_True split_def)
next
  case (Cons k ks)
  then show ?case by (simp add: dict_del_filter distinct_map_filter filter_filter conj_commute split_def)
qed

lemma key_in_filter_wf [dict_simps]:
  "dict_wf d \<Longrightarrow> (k, v) \<in> set d \<Longrightarrow> (k \<in> fst ` set (filter P d)) = P (k, v)"
  by (induction d) (auto simp: image_iff)

lemma count_keys_filter_wf:
  "dict_wf d \<Longrightarrow> (k, v) \<in> set d \<Longrightarrow>
   count_list (map fst (filter P d)) k = (if P (k, v) then 1 else 0)"
proof -
  assume wf: "dict_wf d" and kv: "(k, v) \<in> set d"
  have "distinct (map fst (filter P d))"
    using wf by (simp add: distinct_map_filter)
  moreover have "(k \<in> set (map fst (filter P d))) = P (k, v)"
    using key_in_filter_wf [OF wf kv] by simp
  ultimately show ?thesis
    by (simp only: count_list_distinct)
qed

lemma filter_key_wf:
  "(k, v) \<in> set d \<Longrightarrow> dict_wf d \<Longrightarrow> filter (\<lambda>(k', _). k' = k) d = [(k, v)]"
proof (induction d)
  case Nil
  then show ?case by simp
next
  case (Cons p d)
  then show ?case
    by (cases p) (auto simp: image_iff intro!: filter_False)
qed

end
