(* ===== verification/Registry.thy ===== *)
theory Registry
  imports Prelude
begin

text \<open>
  The membership registry: the dictionary \<^verbatim>\<open>registered_nodes\<close> of
  \<^verbatim>\<open>controller.py\<close> (id \<open>\<mapsto>\<close> \<^verbatim>\<open>(address, port, online, last_seen)\<close>) and the three
  handlers of \<^verbatim>\<open>StorageController\<close> that write it: \<^verbatim>\<open>RegisterNode\<close>,
  \<^verbatim>\<open>Heartbeat\<close> and \<^verbatim>\<open>SetOffline\<close>. Each handler takes the controller's clock
  reading \<open>now\<close>, the whole seconds that \<^verbatim>\<open>time.strftime\<close> prints, and returns its
  response with the new registry. \<open>node_online\<close> is the liveness test
  \<^verbatim>\<open>nid in registered_nodes and registered_nodes[nid][2]\<close> that the directory
  and the reaper repeat.
\<close>

record node_entry =
  address :: string
  port :: int
  online :: bool
  last_seen :: timestamp

type_synonym registry = "(node_id, node_entry) pydict"

definition node_online :: "registry \<Rightarrow> node_id \<Rightarrow> bool" where
  "node_online regs nid = (case map_of regs nid of None \<Rightarrow> False | Some e \<Rightarrow> online e)"

definition SetOffline :: "node_id \<Rightarrow> timestamp \<Rightarrow> registry \<Rightarrow> response \<times> registry" where
  "SetOffline nid now regs =
     (case map_of regs nid of
        Some e \<Rightarrow> (R_SetOffline nid now, dict_set nid (e\<lparr>online := False\<rparr>) regs)
      | None \<Rightarrow> (R_NodeNotFound, regs))"

definition RegisterNode ::
  "node_id \<Rightarrow> string \<Rightarrow> int \<Rightarrow> timestamp \<Rightarrow> registry \<Rightarrow> response \<times> registry" where
  "RegisterNode nid addr p now regs =
     (R_Registered nid now,
      dict_set nid \<lparr>address = addr, port = p, online = True, last_seen = now\<rparr> regs)"

definition Heartbeat :: "node_id \<Rightarrow> timestamp \<Rightarrow> registry \<Rightarrow> response \<times> registry" where
  "Heartbeat nid now regs =
     (R_HeartbeatReceived,
      case map_of regs nid of
        Some e \<Rightarrow> dict_set nid (e\<lparr>online := True, last_seen := now\<rparr>) regs
      | None \<Rightarrow> regs)"

text \<open>Example registry used by the witnesses: node \<^verbatim>\<open>vm1\<close> of the spec's
  scenario, online, and node \<^verbatim>\<open>vm2\<close>, offline.\<close>

abbreviation ex_vm1 :: node_entry where
  "ex_vm1 \<equiv> \<lparr>address = ''127.0.0.1'', port = 5001, online = True, last_seen = 100\<rparr>"

abbreviation ex_regs :: registry where
  "ex_regs \<equiv> [(''vm1'', ex_vm1),
     (''vm2'', \<lparr>address = ''127.0.0.1'', port = 5002, online = False, last_seen = 80\<rparr>)]"

subsection \<open>Basic facts\<close>

lemma node_online_iff:
  "node_online regs nid = (\<exists>e. map_of regs nid = Some e \<and> online e)"
  by (auto simp: node_online_def split: option.splits)

lemma node_online_dict_set [simp]:
  "node_online (dict_set k e regs) nid = (if nid = k then online e else node_online regs nid)"
  by (simp add: node_online_def)

lemma node_online_registered: "node_online regs nid \<Longrightarrow> nid \<in> fst ` set regs"
  by (metis map_of_SomeD_keys node_online_iff)

lemma registry_ops_wf [wf_intros]:
  "dict_wf regs \<Longrightarrow> dict_wf (snd (RegisterNode nid a p now regs))"
  "dict_wf regs \<Longrightarrow> dict_wf (snd (Heartbeat nid now regs))"
  "dict_wf regs \<Longrightarrow> dict_wf (snd (SetOffline nid now regs))"
  by (auto simp: RegisterNode_def Heartbeat_def SetOffline_def split: option.splits)

lemma registry_ops_keys:
  "fst ` set (snd (RegisterNode nid a p now regs)) = insert nid (fst ` set regs)"
  "fst ` set (snd (Heartbeat nid now regs)) = fst ` set regs"
  "fst ` set (snd (SetOffline nid now regs)) = fst ` set regs"
  by (auto simp: RegisterNode_def Heartbeat_def SetOffline_def
      split: option.splits dest: map_of_SomeD_keys)

end
