(* ===== verification/Directory.thy ===== *)
theory Directory
  imports Registry
begin

text \<open>
  The file directory: the dictionary \<^verbatim>\<open>file_locations\<close> of \<^verbatim>\<open>controller.py\<close>
  (filename \<open>\<mapsto>\<close> \<^verbatim>\<open>{'owners': set of (id, address, port), 'upload_time': str}\<close>)
  and the handlers that read or write it. \<open>announce_entry\<close> is the directory write
  of \<^verbatim>\<open>AnnounceFile\<close> (its registration guard and its fan-out are in theory
  \<open>Controller\<close>); \<open>GetFileLocations\<close> and \<open>ListFiles\<close> filter by the liveness
  test of the registry; \<open>DeleteFile\<close> removes an entry unconditionally;
  \<open>CreateFile\<close> and \<open>ModifyFile\<close> are the two stubs.
  The lemmas show that visibility follows liveness (a file is listed iff it has a
  location iff one of its owners is online), that announcing is idempotent up to the
  timestamp, and that every operation keeps the dictionary well formed.
\<close>

record file_entry =
  owners :: "location list"
  upload_time :: timestamp

type_synonym directory = "(string, file_entry) pydict"

definition announce_entry :: "string \<Rightarrow> location \<Rightarrow> timestamp \<Rightarrow> directory \<Rightarrow> directory" where
  "announce_entry fname loc now files =
     (let e = (case map_of files fname of
                 None \<Rightarrow> \<lparr>owners = [], upload_time = now\<rparr>
               | Some e \<Rightarrow> e)
      in dict_set fname (e\<lparr>owners := List.insert loc (owners e), upload_time := now\<rparr>) files)"

definition GetFileLocations :: "registry \<Rightarrow> directory \<Rightarrow> string \<Rightarrow> location list" where
  "GetFileLocations regs files fname =
     (case map_of files fname of
        None \<Rightarrow> []
      | Some info \<Rightarrow> filter (\<lambda>(nid, _, _). node_online regs nid) (owners info))"

text \<open>The inner loop of \<^verbatim>\<open>ListFiles\<close>, with its \<^verbatim>\<open>break\<close>.\<close>

fun any_owner_online :: "registry \<Rightarrow> location list \<Rightarrow> bool" where
  "any_owner_online regs [] = False"
| "any_owner_online regs ((nid, _, _) # os) =
     (if node_online regs nid then True else any_owner_online regs os)"

fun ListFiles :: "registry \<Rightarrow> directory \<Rightarrow> string list" where
  "ListFiles regs [] = []"
| "ListFiles regs ((fname, info) # fs) =
     (if any_owner_online regs (owners info) then fname # ListFiles regs fs
      else ListFiles regs fs)"

definition DeleteFile :: "string \<Rightarrow> directory \<Rightarrow> response \<times> directory" where
  "DeleteFile fname files =
     (if fname \<in> fst ` set files then (R_Deleted fname, dict_del fname files)
      else (R_FileNotFound, files))"

definition CreateFile :: "string \<Rightarrow> response" where
  "CreateFile fname = R_CreateNoop fname"

definition ModifyFile :: "string \<Rightarrow> response" where
  "ModifyFile fname = R_ModifyNotSupported"

text \<open>The abstract notion the three readers share: an owner of the entry is online.\<close>

definition has_online_owner :: "registry \<Rightarrow> file_entry \<Rightarrow> bool" where
  "has_online_owner regs info = (\<exists>(nid, a, p) \<in> set (owners info). node_online regs nid)"

abbreviation ex_files :: directory where
  "ex_files \<equiv> [(''notes.txt'', \<lparr>owners = [(''vm1'', ''127.0.0.1'', 5001)], upload_time = 100\<rparr>),
     (''old.txt'', \<lparr>owners = [(''vm2'', ''127.0.0.1'', 5002)], upload_time = 80\<rparr>)]"

subsection \<open>Readers agree with the abstract notion\<close>

lemma any_owner_online_iff [simp]:
  "any_owner_online regs os = (\<exists>(nid, a, p) \<in> set os. node_online regs nid)"
  by (induction regs os rule: any_owner_online.induct) auto

lemma ListFiles_filter:
  "ListFiles regs files = map fst (filter (\<lambda>(f, info). has_online_owner regs info) files)"
  by (induction regs files rule: ListFiles.induct) (auto simp: has_online_owner_def)

lemma GetFileLocations_nonempty:
  "(GetFileLocations regs files fname \<noteq> []) =
     (\<exists>info. map_of files fname = Some info \<and> has_online_owner regs info)"
  by (auto simp: GetFileLocations_def has_online_owner_def filter_empty_conv
      split: option.splits)

lemma set_ListFiles:
  "set (ListFiles regs files) = {f. \<exists>info. (f, info) \<in> set files \<and> has_online_owner regs info}"
  by (force simp: ListFiles_filter)

subsection \<open>Announcing\<close>

lemma map_of_announce_entry:
  "map_of (announce_entry fname loc now files) =
     (map_of files)(fname \<mapsto>
        (case map_of files fname of
           None \<Rightarrow> \<lparr>owners = [loc], upload_time = now\<rparr>
         | Some e \<Rightarrow> e\<lparr>owners := List.insert loc (owners e), upload_time := now\<rparr>))"
  by (auto simp: announce_entry_def split: option.splits)

lemma keys_announce_entry [simp]:
  "fst ` set (announce_entry fname loc now files) = insert fname (fst ` set files)"
  by (simp add: announce_entry_def Let_def)

lemma announce_entry_owner:
  "\<exists>e. map_of (announce_entry fname loc now files) fname = Some e \<and> loc \<in> set (owners e)"
  by (simp add: map_of_announce_entry split: option.split)

lemma announce_entry_wf [wf_intros]:
  "dict_wf files \<Longrightarrow> dict_wf (announce_entry fname loc now files)"
  by (simp add: announce_entry_def Let_def)

lemma DeleteFile_wf [wf_intros]:
  "dict_wf files \<Longrightarrow> dict_wf (snd (DeleteFile fname files))"
  by (simp add: DeleteFile_def)

subsection \<open>Properties of the directory\<close>

text \<open>
  C1. Directory visibility follows liveness: a filename is returned by
  \<^verbatim>\<open>ListFiles\<close> iff \<^verbatim>\<open>GetFileLocations\<close> returns a non-empty list for it, iff
  the directory has an entry for it with at least one owner whose id is a registered
  node marked online.
\<close>

theorem visibility_follows_liveness:
  assumes "dict_wf files"
  shows "(fname \<in> set (ListFiles regs files)) = (GetFileLocations regs files fname \<noteq> []) \<and>
         (GetFileLocations regs files fname \<noteq> []) =
           (\<exists>info. map_of files fname = Some info \<and>
              (\<exists>(nid, a, p) \<in> set (owners info). node_online regs nid))"
  using assms by (auto simp: set_ListFiles GetFileLocations_nonempty map_of_wf_iff
      has_online_owner_def)

theorem visibility_follows_liveness_witness:
  "dict_wf ex_files \<and>
   (''notes.txt'' \<in> set (ListFiles ex_regs ex_files)) =
     (GetFileLocations ex_regs ex_files ''notes.txt'' \<noteq> []) \<and>
   (''old.txt'' \<in> set (ListFiles ex_regs ex_files)) =
     (GetFileLocations ex_regs ex_files ''old.txt'' \<noteq> []) \<and>
   ''notes.txt'' \<in> set (ListFiles ex_regs ex_files) \<and>
   ''old.txt'' \<notin> set (ListFiles ex_regs ex_files)"
  using visibility_follows_liveness [of ex_files "''notes.txt''" ex_regs]
    visibility_follows_liveness [of ex_files "''old.txt''" ex_regs]
  by (simp add: node_online_def)

text \<open>
  C2. Owner deduplication: announcing the same filename twice from the same
  \<^verbatim>\<open>(id, address, port)\<close> triple is the same as announcing it once at the later
  time, and leaves the triple exactly once among the owners, with the later time as
  \<^verbatim>\<open>upload_time\<close> (provided the owner lists were duplicate-free, as every reachable
  state's are).
\<close>

theorem announce_owner_dedup:
  assumes "\<forall>(f, e0) \<in> set files. distinct (owners e0)"
  shows "announce_entry fname loc t2 (announce_entry fname loc t1 files) =
           announce_entry fname loc t2 files \<and>
         (\<exists>e. map_of (announce_entry fname loc t2 files) fname = Some e \<and>
              count_list (owners e) loc = 1 \<and> upload_time e = t2)"
proof
  show "announce_entry fname loc t2 (announce_entry fname loc t1 files) =
          announce_entry fname loc t2 files"
    by (simp add: announce_entry_def split: option.split)
next
  have "count_list (List.insert loc (owners e0)) loc = 1"
    if "map_of files fname = Some e0" for e0
  proof -
    from that have "(fname, e0) \<in> set files" by (rule map_of_SomeD)
    with assms have "distinct (owners e0)" by auto
    then show ?thesis by (simp add: count_list_distinct)
  qed
  then show "\<exists>e. map_of (announce_entry fname loc t2 files) fname = Some e \<and>
              count_list (owners e) loc = 1 \<and> upload_time e = t2"
    by (simp add: map_of_announce_entry split: option.split)
qed

theorem announce_owner_dedup_witness:
  "announce_entry ''notes.txt'' (''vm1'', ''127.0.0.1'', 5001) 130
     (announce_entry ''notes.txt'' (''vm1'', ''127.0.0.1'', 5001) 120 ex_files) =
   announce_entry ''notes.txt'' (''vm1'', ''127.0.0.1'', 5001) 130 ex_files \<and>
   map_of (announce_entry ''notes.txt'' (''vm1'', ''127.0.0.1'', 5001) 130 ex_files) ''notes.txt'' =
     Some \<lparr>owners = [(''vm1'', ''127.0.0.1'', 5001)], upload_time = 130\<rparr>"
  using announce_owner_dedup [of ex_files "''notes.txt''" "(''vm1'', ''127.0.0.1'', 5001)" 130 120]
  by (simp add: announce_entry_def)

end
