(* ===== verification/Reaper.thy ===== *)
theory Reaper
  imports Directory
begin

text \<open>
  The liveness reaper: one iteration of the \<^verbatim>\<open>while True\<close> loop of
  \<^verbatim>\<open>serve_controller\<close> (\<^verbatim>\<open>controller.py\<close>, lines 105--125). It first marks
  offline every online node whose \<^verbatim>\<open>last_seen\<close> is more than 15 seconds older
  than \<^verbatim>\<open>time.time()\<close> (\<open>reap_nodes\<close>), then collects every file entry without an
  online owner and deletes those entries (\<open>evict_orphans\<close>); \<open>reaper_pass\<close> runs
  both in this order. The clock reading \<open>now\<close> is a real number (a float in the
  source), while \<^verbatim>\<open>last_seen\<close> holds whole seconds, because it was printed by
  \<^verbatim>\<open>strftime\<close> and parsed back by \<^verbatim>\<open>strptime\<close>/\<^verbatim>\<open>mktime\<close>.
  The lemmas show that the in-place marking loop equals a map over the registry,
  that the two-phase eviction equals a filter, that a pass evicts exactly the
  orphans of the registry it has just updated (no one-cycle lag), that a stale node
  is reported once, and how the whole-second truncation moves the effective timeout.
\<close>

text \<open>The marking condition of the loop, \<^verbatim>\<open>online and now - last_seen_time > 15\<close>.\<close>

definition stale :: "real \<Rightarrow> node_entry \<Rightarrow> bool" where
  "stale now e \<longleftrightarrow> online e \<and> now - real_of_int (last_seen e) > 15"

text \<open>
  The first loop. It iterates over \<^verbatim>\<open>registered_nodes.items()\<close> (the first argument,
  the entries not yet visited) while it assigns into the same dictionary (the second
  argument) and appends to \<^verbatim>\<open>offline_nodes\<close> (the third).
\<close>

fun reap_loop :: "real \<Rightarrow> registry \<Rightarrow> registry \<Rightarrow> node_id list \<Rightarrow> registry \<times> node_id list" where
  "reap_loop now [] regs offs = (regs, offs)"
| "reap_loop now ((nid, e) # items) regs offs =
     (if online e \<and> now - real_of_int (last_seen e) > 15
      then reap_loop now items (dict_set nid (e\<lparr>online := False\<rparr>) regs) (offs @ [nid])
      else reap_loop now items regs offs)"

definition reap_nodes :: "real \<Rightarrow> registry \<Rightarrow> registry \<times> node_id list" where
  "reap_nodes now regs = reap_loop now regs regs []"

text \<open>The second loop: the online owners of an entry, and the names to remove.\<close>

definition online_owners :: "registry \<Rightarrow> location list \<Rightarrow> node_id list" where
  "online_owners regs os = [nid. (nid, a, p) \<leftarrow> os, node_online regs nid]"

fun orphan_files :: "registry \<Rightarrow> directory \<Rightarrow> string list" where
  "orphan_files regs [] = []"
| "orphan_files regs ((fname, info) # fs) =
     (if online_owners regs (owners info) = []
      then fname # orphan_files regs fs else orphan_files regs fs)"

text \<open>The third loop deletes the collected names in order.\<close>

definition evict_orphans :: "registry \<Rightarrow> directory \<Rightarrow> directory \<times> string list" where
  "evict_orphans regs files =
     (let to_remove = orphan_files regs files in (fold dict_del to_remove files, to_remove))"

definition reaper_pass ::
  "real \<Rightarrow> registry \<Rightarrow> directory \<Rightarrow> registry \<times> directory \<times> node_id list \<times> string list" where
  "reaper_pass now regs files =
     (let (regs', offline_nodes) = reap_nodes now regs;
          (files', to_remove) = evict_orphans regs' files
      in (regs', files', offline_nodes, to_remove))"

text \<open>The reference semantics of one marking step, for the equivalence proof.\<close>

definition reap_entry :: "real \<Rightarrow> node_id \<times> node_entry \<Rightarrow> node_id \<times> node_entry" where
  "reap_entry now = (\<lambda>(nid, e). (nid, if stale now e then e\<lparr>online := False\<rparr> else e))"

subsection \<open>The marking loop is a map\<close>

lemma fst_reap_entry [simp]: "fst (reap_entry now p) = fst p"
  by (simp add: reap_entry_def split: prod.split)

lemma keys_map_reap_entry [simp]: "fst ` reap_entry now ` S = fst ` S"
  by (simp add: image_image)

lemma online_owners_empty:
  "(online_owners regs os = []) = (\<not> (\<exists>(nid, a, p) \<in> set os. node_online regs nid))"
  by (induction os) (auto simp: online_owners_def)

lemma reap_loop_eq:
  "dict_wf (pre @ items) \<Longrightarrow>
   reap_loop now items (map (reap_entry now) pre @ items) offs =
     (map (reap_entry now) (pre @ items), offs @ map fst (filter (\<lambda>(nid, e). stale now e) items))"
proof (induction items arbitrary: pre offs)
  case Nil
  then show ?case by simp
next
  case (Cons p items)
  obtain nid e where p: "p = (nid, e)" by fastforce
  have fresh: "nid \<notin> fst ` set (map (reap_entry now) pre)"
    using Cons.prems p by simp
  have wf: "dict_wf ((pre @ [(nid, e)]) @ items)" using Cons.prems p by simp
  show ?case
  proof (cases "stale now e")
    case True
    have "dict_set nid (e\<lparr>online := False\<rparr>) (map (reap_entry now) pre @ (nid, e) # items) =
          map (reap_entry now) (pre @ [(nid, e)]) @ items"
      using fresh True by (simp add: dict_set_middle reap_entry_def)
    with Cons.IH [OF wf] True p show ?thesis by (simp add: stale_def [symmetric])
  next
    case False
    have "map (reap_entry now) pre @ (nid, e) # items = map (reap_entry now) (pre @ [(nid, e)]) @ items"
      using False by (simp add: reap_entry_def)
    with Cons.IH [OF wf] False p show ?thesis by (simp add: stale_def [symmetric])
  qed
qed

lemma reap_nodes_eq:
  "dict_wf regs \<Longrightarrow>
   reap_nodes now regs = (map (reap_entry now) regs, map fst (filter (\<lambda>(nid, e). stale now e) regs))"
  using reap_loop_eq [of "[]" regs now "[]"] by (simp add: reap_nodes_def)

lemma orphan_files_eq:
  "orphan_files regs files = map fst (filter (\<lambda>(f, info). \<not> has_online_owner regs info) files)"
proof (induction files)
  case Nil
  then show ?case by simp
next
  case (Cons p fs)
  then show ?case by (cases p) (simp add: online_owners_empty has_online_owner_def)
qed

lemma evict_orphans_eq:
  "dict_wf files \<Longrightarrow>
   fst (evict_orphans regs files) = filter (\<lambda>(f, info). has_online_owner regs info) files"
proof -
  let ?Q = "\<lambda>(f, info). \<not> has_online_owner regs info"
  assume wf: "dict_wf files"
  have "(k \<notin> set (map fst (filter ?Q files))) = has_online_owner regs v"
    if "(k, v) \<in> set files" for k v
    using key_in_filter_wf [OF wf that, of ?Q] by simp
  then have "filter (\<lambda>(k, _). k \<notin> set (map fst (filter ?Q files))) files =
             filter (\<lambda>(f, info). has_online_owner regs info) files"
    by (auto intro!: filter_cong)
  with wf show ?thesis
    by (simp add: evict_orphans_def orphan_files_eq fold_dict_del)
qed
subsection \<open>Facts the properties share\<close>

lemma fst_comp_reap_entry [simp]: "fst \<circ> reap_entry now = fst"
  by (simp add: fun_eq_iff)

lemma map_of_map_reap_entry:
  "map_of (map (reap_entry now) d) k =
     map_option (\<lambda>e. if stale now e then e\<lparr>online := False\<rparr> else e) (map_of d k)"
  by (induction d) (auto simp: reap_entry_def)

lemma reap_nodes_wf [wf_intros]:
  "dict_wf regs \<Longrightarrow> dict_wf (fst (reap_nodes now regs))"
  by (simp add: reap_nodes_eq)

lemma keys_reap_nodes:
  "dict_wf regs \<Longrightarrow> fst ` set (fst (reap_nodes now regs)) = fst ` set regs"
  by (simp add: reap_nodes_eq)

lemma node_online_reap_nodes:
  "dict_wf regs \<Longrightarrow>
   node_online (fst (reap_nodes now regs)) nid =
     (\<exists>e. map_of regs nid = Some e \<and> online e \<and> \<not> stale now e)"
  by (cases "map_of regs nid") (simp_all add: reap_nodes_eq node_online_def map_of_map_reap_entry)

lemma map_of_filter_wf:
  "dict_wf d \<Longrightarrow>
   map_of (filter P d) k = (case map_of d k of None \<Rightarrow> None | Some v \<Rightarrow> if P (k, v) then Some v else None)"
  by (induction d) (auto simp: image_iff split: option.splits)

lemma evict_orphans_wf [wf_intros]:
  "dict_wf files \<Longrightarrow> dict_wf (fst (evict_orphans regs files))"
  by (simp add: evict_orphans_eq distinct_map_filter)

lemma reaper_pass_eq:
  "dict_wf regs \<Longrightarrow> dict_wf files \<Longrightarrow>
   reaper_pass now regs files =
     (fst (reap_nodes now regs),
      filter (\<lambda>(f, info). has_online_owner (fst (reap_nodes now regs)) info) files,
      snd (reap_nodes now regs),
      snd (evict_orphans (fst (reap_nodes now regs)) files))"
  by (simp add: reaper_pass_def split_def Let_def evict_orphans_eq)

subsection \<open>Properties of the reaper\<close>

text \<open>
  C3. Orphan eviction in the same pass: one pass of the reaper first marks stale nodes
  offline and then keeps exactly the file entries that still have an online owner in
  the registry it has just updated, so a node that timed out in this pass has its
  exclusively owned files evicted in the same pass. Eviction changes no answer of
  \<^verbatim>\<open>GetFileLocations\<close>: an evicted name answered the empty list already.
\<close>

theorem reaper_pass_evicts_orphans:
  assumes "dict_wf regs" and "dict_wf files"
    and "reaper_pass now regs files = (regs', files', offs, removed)"
  shows "regs' = fst (reap_nodes now regs) \<and>
         files' = filter (\<lambda>(f, info). has_online_owner regs' info) files \<and>
         (\<forall>f. GetFileLocations regs' files' f = GetFileLocations regs' files f)"
proof -
  from assms(3) have "(regs', files', offs, removed) = reaper_pass now regs files"
    by simp
  also have "\<dots> = (fst (reap_nodes now regs),
      filter (\<lambda>(f, info). has_online_owner (fst (reap_nodes now regs)) info) files,
      snd (reap_nodes now regs), snd (evict_orphans (fst (reap_nodes now regs)) files))"
    using assms(1,2) by (rule reaper_pass_eq)
  finally have regs': "regs' = fst (reap_nodes now regs)"
    and "files' = filter (\<lambda>(f, info). has_online_owner (fst (reap_nodes now regs)) info) files"
    by simp_all
  then have files': "files' = filter (\<lambda>(f, info). has_online_owner regs' info) files"
    by simp
  have "GetFileLocations regs' files' f = GetFileLocations regs' files f" for f
    using assms(2) unfolding files'
    by (auto simp: GetFileLocations_def map_of_filter_wf has_online_owner_def filter_empty_conv
        split: option.splits)
  with regs' files' show ?thesis by blast
qed

theorem reaper_pass_evicts_orphans_witness:
  "reaper_pass 200 ex_regs ex_files =
     ([(''vm1'', ex_vm1\<lparr>online := False\<rparr>),
       (''vm2'', \<lparr>address = ''127.0.0.1'', port = 5002, online = False, last_seen = 80\<rparr>)],
      [], [''vm1''], [''notes.txt'', ''old.txt'']) \<and>
   GetFileLocations
     [(''vm1'', ex_vm1\<lparr>online := False\<rparr>),
      (''vm2'', \<lparr>address = ''127.0.0.1'', port = 5002, online = False, last_seen = 80\<rparr>)]
     ex_files ''notes.txt'' = []"
proof -
  have pass: "reaper_pass 200 ex_regs ex_files =
     ([(''vm1'', ex_vm1\<lparr>online := False\<rparr>),
       (''vm2'', \<lparr>address = ''127.0.0.1'', port = 5002, online = False, last_seen = 80\<rparr>)],
      [], [''vm1''], [''notes.txt'', ''old.txt''])"
    by (simp add: reaper_pass_def reap_nodes_def evict_orphans_def online_owners_def node_online_def)
  show ?thesis
    using reaper_pass_evicts_orphans [OF _ _ pass] pass
    by (simp add: GetFileLocations_def node_online_def reap_nodes_def)
qed

text \<open>
  C4. Liveness timeout: a node that is online and whose \<^verbatim>\<open>last_seen\<close> is more than
  15 seconds older than the clock is set offline by the next pass and reported in
  \<^verbatim>\<open>offline_nodes\<close> exactly once; a later pass without an intervening heartbeat
  neither reports it again nor brings it back online.
\<close>

theorem reaper_timeout_once:
  assumes "dict_wf regs" and "map_of regs nid = Some e" and "online e"
    and "now - real_of_int (last_seen e) > 15"
    and "reap_nodes now regs = (regs1, offs1)" and "reap_nodes now' regs1 = (regs2, offs2)"
  shows "\<not> node_online regs1 nid \<and> count_list offs1 nid = 1 \<and>
         nid \<notin> set offs2 \<and> \<not> node_online regs2 nid"
proof -
  have st: "stale now e" using assms(3,4) by (simp add: stale_def)
  have kv: "(nid, e) \<in> set regs" using assms(2) by (rule map_of_SomeD)
  have r1: "regs1 = map (reap_entry now) regs" and o1: "offs1 = map fst (filter (\<lambda>(nid, e). stale now e) regs)"
    using assms(1,5) by (simp_all add: reap_nodes_eq)
  have wf1: "dict_wf regs1" using assms(1) r1 by simp
  have m1: "map_of regs1 nid = Some (e\<lparr>online := False\<rparr>)"
    using assms(2) st r1 by (simp add: map_of_map_reap_entry)
  have "count_list offs1 nid = 1"
    using count_keys_filter_wf [OF assms(1) kv, of "\<lambda>(nid, e). stale now e"] st o1 by simp
  moreover have "nid \<notin> set offs2"
  proof -
    have "offs2 = map fst (filter (\<lambda>(nid, e). stale now' e) regs1)"
      using wf1 assms(6) by (simp add: reap_nodes_eq)
    moreover have "(nid, e\<lparr>online := False\<rparr>) \<in> set regs1" using m1 by (rule map_of_SomeD)
    ultimately show ?thesis
      using key_in_filter_wf [OF wf1, of nid "e\<lparr>online := False\<rparr>" "\<lambda>(nid, e). stale now' e"]
      by (simp add: stale_def)
  qed
  moreover have "\<not> node_online regs2 nid"
    using node_online_reap_nodes [OF wf1, of now' nid] assms(6) m1 by simp
  ultimately show ?thesis using m1 by (simp add: node_online_def)
qed

theorem reaper_timeout_once_witness:
  "reap_nodes 200 ex_regs = ([(''vm1'', ex_vm1\<lparr>online := False\<rparr>),
       (''vm2'', \<lparr>address = ''127.0.0.1'', port = 5002, online = False, last_seen = 80\<rparr>)], [''vm1'']) \<and>
   reap_nodes 300 [(''vm1'', ex_vm1\<lparr>online := False\<rparr>),
       (''vm2'', \<lparr>address = ''127.0.0.1'', port = 5002, online = False, last_seen = 80\<rparr>)] =
     ([(''vm1'', ex_vm1\<lparr>online := False\<rparr>),
       (''vm2'', \<lparr>address = ''127.0.0.1'', port = 5002, online = False, last_seen = 80\<rparr>)], []) \<and>
   count_list [''vm1''] ''vm1'' = 1"
proof -
  have p1: "reap_nodes 200 ex_regs = ([(''vm1'', ex_vm1\<lparr>online := False\<rparr>),
       (''vm2'', \<lparr>address = ''127.0.0.1'', port = 5002, online = False, last_seen = 80\<rparr>)], [''vm1''])"
    by (simp add: reap_nodes_def)
  have p2: "reap_nodes 300 [(''vm1'', ex_vm1\<lparr>online := False\<rparr>),
       (''vm2'', \<lparr>address = ''127.0.0.1'', port = 5002, online = False, last_seen = 80\<rparr>)] =
     ([(''vm1'', ex_vm1\<lparr>online := False\<rparr>),
       (''vm2'', \<lparr>address = ''127.0.0.1'', port = 5002, online = False, last_seen = 80\<rparr>)], [])"
    by (simp add: reap_nodes_def)
  have "count_list [''vm1''] ''vm1'' = 1"
    using reaper_timeout_once [OF _ _ _ _ p1 p2, of "''vm1''" ex_vm1] by simp
  with p1 p2 show ?thesis by simp
qed

text \<open>
  C5. Refinement of the marking loop: on a registry with distinct keys, the loop that
  assigns into the dictionary it iterates over implements, as a map, the pointwise
  update "mark every stale entry offline", and its \<^verbatim>\<open>offline_nodes\<close> list holds
  exactly the stale ids, each once.
\<close>

theorem reap_nodes_refines:
  assumes "dict_wf regs"
  shows "map_of (fst (reap_nodes now regs)) =
           (\<lambda>nid. map_option (\<lambda>e. if stale now e then e\<lparr>online := False\<rparr> else e) (map_of regs nid)) \<and>
         set (snd (reap_nodes now regs)) = {nid. \<exists>e. map_of regs nid = Some e \<and> stale now e} \<and>
         distinct (snd (reap_nodes now regs))"
proof (intro conjI)
  show "map_of (fst (reap_nodes now regs)) =
          (\<lambda>nid. map_option (\<lambda>e. if stale now e then e\<lparr>online := False\<rparr> else e) (map_of regs nid))"
    using assms by (simp add: reap_nodes_eq map_of_map_reap_entry fun_eq_iff)
  show "set (snd (reap_nodes now regs)) = {nid. \<exists>e. map_of regs nid = Some e \<and> stale now e}"
    using assms by (force simp: reap_nodes_eq map_of_wf_iff image_iff)
  show "distinct (snd (reap_nodes now regs))"
    using assms by (simp add: reap_nodes_eq distinct_map_filter)
qed

theorem reap_nodes_refines_witness:
  "map_of (fst (reap_nodes 200 ex_regs)) ''vm1'' = Some (ex_vm1\<lparr>online := False\<rparr>) \<and>
   set (snd (reap_nodes 200 ex_regs)) = {''vm1''} \<and> distinct (snd (reap_nodes 200 ex_regs))"
proof -
  have "set (snd (reap_nodes 200 ex_regs)) = {''vm1''}"
    by (simp add: reap_nodes_def)
  then show ?thesis
    using reap_nodes_refines [of ex_regs 200] by (simp add: stale_def)
qed

text \<open>
  C6. Whole-second truncation of \<^verbatim>\<open>last_seen\<close>: if the heartbeat that set
  \<^verbatim>\<open>last_seen\<close> arrived at real time \<open>t\<close> (so \<^verbatim>\<open>last_seen\<close> is \<open>\<lfloor>t\<rfloor>\<close>),
  a pass at \<open>now\<close> surely marks the node offline once \<open>now - t > 15\<close>, and it may
  already do so when \<open>now - t\<close> is only above 14: the effective timeout is between 14
  and 15 seconds of real time, not the 15 the code's comment states.
\<close>

theorem reaper_timeout_bounds:
  assumes "dict_wf regs" and "map_of regs nid = Some e" and "online e"
    and "last_seen e = \<lfloor>t\<rfloor>"
  shows "(now - t > 15 \<longrightarrow> \<not> node_online (fst (reap_nodes now regs)) nid) \<and>
         (\<not> node_online (fst (reap_nodes now regs)) nid \<longrightarrow> now - t > 14)"
proof -
  have fl: "real_of_int (last_seen e) \<le> t \<and> t < real_of_int (last_seen e) + 1"
    using assms(4) floor_correct [of t] by simp
  have "node_online (fst (reap_nodes now regs)) nid = (\<not> stale now e)"
    using node_online_reap_nodes [OF assms(1)] assms(2,3) by simp
  then show ?thesis using fl assms(3) by (auto simp: stale_def)
qed

theorem reaper_timeout_bounds_witness:
  "\<not> node_online (fst (reap_nodes (231 / 2) ex_regs)) ''vm1'' \<and>
   (231 / 2 :: real) - 1009 / 10 < 15 \<and> (231 / 2 :: real) - 1009 / 10 > 14"
proof -
  have "\<lfloor>(1009 / 10 :: real)\<rfloor> = 100" by (simp add: floor_eq_iff)
  then have "(231 / 2 :: real) - 1009 / 10 > 14 \<or> node_online (fst (reap_nodes (231 / 2) ex_regs)) ''vm1''"
    using reaper_timeout_bounds [of ex_regs "''vm1''" ex_vm1 "1009 / 10" "231 / 2"] by auto
  moreover have "\<not> node_online (fst (reap_nodes (231 / 2) ex_regs)) ''vm1''"
    by (simp add: reap_nodes_def node_online_def)
  ultimately show ?thesis by simp
qed

end
