(* ===== verification/NodeService.thy ===== *)
theory NodeService
  imports Prelude
begin

text \<open>
  The peer service every node runs (\<^verbatim>\<open>NodeFileService\<close> in \<^verbatim>\<open>node.py\<close>): the
  controller's fan-out calls \<^verbatim>\<open>NotifyDuplicate\<close>, other nodes call
  \<^verbatim>\<open>DownloadFile\<close>. Its state is the node's working directory, a map from file
  names to contents (\<open>node_fs\<close>). The class body defines \<^verbatim>\<open>NotifyDuplicate\<close>
  twice; Python binds the name to the second definition (lines 31--37), which writes
  the placeholder \<^verbatim>\<open>Replicated_<name>\<close>; the first one (lines 23--29) is dead code
  and is not modelled. \<^verbatim>\<open>DownloadFile\<close> serves a file that exists and otherwise sets
  the status \<^verbatim>\<open>NOT_FOUND\<close>, which the calling stub raises as an \<^verbatim>\<open>RpcError\<close>:
  the error branch of a sum.
  The lemmas show that a notification never makes the announced name itself
  downloadable (the spec's \<open>Unknown \<rightarrow> Ghosted\<close> machine); theory \<open>FanOut\<close>
  shows that the fan-out overwrites whatever a peer held under the placeholder name.
\<close>

type_synonym node_fs = "string \<rightharpoonup> string"

datatype peer_error = NOT_FOUND

datatype replica_state = Unknown | Ghosted | Materialized

definition placeholder_name :: "string \<Rightarrow> string" where
  "placeholder_name fname = ''Replicated_'' @ fname"

definition NotifyDuplicate :: "string \<Rightarrow> node_id \<Rightarrow> node_fs \<Rightarrow> string \<times> node_fs" where
  "NotifyDuplicate fname rid fs =
     (''Replicated file '' @ fname @ '' stored.'',
      fs(placeholder_name fname \<mapsto> ''Replicate file: '' @ fname @ '' from '' @ rid @ [CHR 0x0A]))"

definition DownloadFile :: "node_fs \<Rightarrow> string \<Rightarrow> peer_error + string \<times> string" where
  "DownloadFile fs fname =
     (case fs fname of
        Some data \<Rightarrow> Inr (fname, data)
      | None \<Rightarrow> Inl NOT_FOUND)"

text \<open>The spec's per-file replication state at a peer (its section 4.6).\<close>

definition replica_state :: "node_fs \<Rightarrow> string \<Rightarrow> replica_state" where
  "replica_state fs fname =
     (if fs fname \<noteq> None then Materialized
      else if fs (placeholder_name fname) \<noteq> None then Ghosted
      else Unknown)"

subsection \<open>Lemmas\<close>

lemma placeholder_name_neq [simp]: "placeholder_name fname \<noteq> fname"
proof
  assume "placeholder_name fname = fname"
  then have "length (placeholder_name fname) = length fname" by simp
  then show False by (simp add: placeholder_name_def)
qed

lemma placeholder_name_neq' [simp]: "fname \<noteq> placeholder_name fname"
  using placeholder_name_neq [of fname] by metis

lemma placeholder_name_inj [simp]:
  "(placeholder_name f = placeholder_name g) = (f = g)"
  by (simp add: placeholder_name_def)

lemma DownloadFile_Inr:
  "(DownloadFile fs fname = Inr r) = (\<exists>data. fs fname = Some data \<and> r = (fname, data))"
  by (auto simp: DownloadFile_def split: option.splits)

lemma DownloadFile_Inl:
  "(DownloadFile fs fname = Inl err) = (fs fname = None \<and> err = NOT_FOUND)"
  by (auto simp: DownloadFile_def split: option.splits)

subsection \<open>Properties of the peer service\<close>

text \<open>
  C7. A notification only ghosts: after \<^verbatim>\<open>NotifyDuplicate f\<close> the peer's state for
  \<open>f\<close> is \<open>Ghosted\<close> unless the peer already held \<open>f\<close> itself, and
  \<^verbatim>\<open>DownloadFile f\<close> at the peer answers exactly as before (the placeholder does
  not make \<open>f\<close> downloadable).
\<close>

theorem notify_only_ghosts:
  "replica_state (snd (NotifyDuplicate f rid fs)) f =
     (if replica_state fs f = Materialized then Materialized else Ghosted) \<and>
   DownloadFile (snd (NotifyDuplicate f rid fs)) f = DownloadFile fs f"
  by (simp add: replica_state_def NotifyDuplicate_def DownloadFile_def)

end
