(* ===== verification/FanOut.thy ===== *)
theory FanOut
  imports Registry NodeService
begin

text \<open>
  Replication fan-out: the loop at the end of \<^verbatim>\<open>AnnounceFile\<close>
  (\<^verbatim>\<open>controller.py\<close>, lines 47--56). \<open>fanout_targets\<close> is its iteration and guard:
  every registered node other than the announcer that is online, in the dictionary's
  order, reached at the address and port the registry holds for it. \<open>notify_peers\<close>
  makes the calls one after another. Each call goes through a network whose state
  towards an endpoint is a \<open>link\<close>: \<open>Up\<close> (the call reaches whatever listens there),
  \<open>Down\<close> (the call fails and the \<^verbatim>\<open>except\<close> branch logs it) or \<open>Hung\<close>
  (the peer accepts but never answers: the source sets no timeout, so the call, and
  with it the handler, never returns; that is the value \<open>None\<close>). A call to an
  endpoint where no node serves fails like a \<open>Down\<close> link. A successful call runs
  the peer's \<open>NotifyDuplicate\<close> on that peer's files.
  The lemmas show that the targets are exactly the other online nodes, each once;
  that every target gets one log line, in order; that only notified peers change;
  and that the loop returns iff no target's link is hung.
\<close>

datatype link = Up | Down | Hung

datatype notify_outcome = Notified node_id | NotifyFailed node_id

type_synonym peers = "endpoint \<rightharpoonup> node_fs"

fun fanout_targets :: "node_id \<Rightarrow> registry \<Rightarrow> (node_id \<times> endpoint) list" where
  "fanout_targets rid [] = []"
| "fanout_targets rid ((nid, e) # rs) =
     (if nid \<noteq> rid \<and> online e then (nid, (address e, port e)) # fanout_targets rid rs
      else fanout_targets rid rs)"

fun notify_peers ::
  "(endpoint \<Rightarrow> link) \<Rightarrow> string \<Rightarrow> node_id \<Rightarrow> (node_id \<times> endpoint) list \<Rightarrow> peers \<Rightarrow>
   (peers \<times> notify_outcome list) option" where
  "notify_peers net fname rid [] ps = Some (ps, [])"
| "notify_peers net fname rid ((nid, ep) # cs) ps =
     (case net ep of
        Hung \<Rightarrow> None
      | Down \<Rightarrow> map_option (\<lambda>(ps', out). (ps', NotifyFailed nid # out))
                 (notify_peers net fname rid cs ps)
      | Up \<Rightarrow>
          (case ps ep of
             None \<Rightarrow> map_option (\<lambda>(ps', out). (ps', NotifyFailed nid # out))
                       (notify_peers net fname rid cs ps)
           | Some fs \<Rightarrow> map_option (\<lambda>(ps', out). (ps', Notified nid # out))
                          (notify_peers net fname rid cs (ps(ep \<mapsto> snd (NotifyDuplicate fname rid fs))))))"

fun outcome_id :: "notify_outcome \<Rightarrow> node_id" where
  "outcome_id (Notified nid) = nid"
| "outcome_id (NotifyFailed nid) = nid"

text \<open>The spec's fan-out scenario: A announces while B and C are online and D is not.\<close>

abbreviation ex_node :: "int \<Rightarrow> bool \<Rightarrow> node_entry" where
  "ex_node p up \<equiv> \<lparr>address = ''127.0.0.1'', port = p, online = up, last_seen = 100\<rparr>"

abbreviation ex_abcd :: registry where
  "ex_abcd \<equiv> [(''A'', ex_node 5001 True), (''B'', ex_node 5002 True),
               (''C'', ex_node 5003 True), (''D'', ex_node 5004 False)]"

subsection \<open>Lemmas\<close>

lemma fanout_targets_filter:
  "fanout_targets rid regs =
     map (\<lambda>(nid, e). (nid, (address e, port e))) (filter (\<lambda>(nid, e). nid \<noteq> rid \<and> online e) regs)"
  by (induction rid regs rule: fanout_targets.induct) auto

lemma notify_peers_Some_iff:
  "(notify_peers net fname rid cs ps \<noteq> None) = (\<forall>(nid, ep) \<in> set cs. net ep \<noteq> Hung)"
proof (induction cs arbitrary: ps)
  case Nil
  then show ?case by simp
next
  case (Cons c cs)
  obtain nid ep where c: "c = (nid, ep)" by (cases c) auto
  show ?case
    using Cons.IH by (cases "net ep"; cases "ps ep") (auto simp: c)
qed

lemma notify_peers_log:
  "notify_peers net fname rid cs ps = Some (ps', out) \<Longrightarrow> map outcome_id out = map fst cs"
  by (induction net fname rid cs ps arbitrary: ps' out rule: notify_peers.induct)
    (auto split: link.splits option.splits)

lemma notify_peers_frame:
  "notify_peers net fname rid cs ps = Some (ps', out) \<Longrightarrow> ep \<notin> snd ` set cs \<Longrightarrow> ps' ep = ps ep"
  by (induction net fname rid cs ps arbitrary: ps' out rule: notify_peers.induct)
    (auto split: link.splits option.splits if_splits)

lemma NotifyDuplicate_idem [simp]:
  "snd (NotifyDuplicate f rid (snd (NotifyDuplicate f rid fs))) = snd (NotifyDuplicate f rid fs)"
  by (simp add: NotifyDuplicate_def)

lemma notify_peers_at:
  assumes "notify_peers net f rid cs ps = Some (ps', out)" and "ep \<in> snd ` set cs"
    and "net ep = Up" and "ps ep = Some fs"
  shows "ps' ep = Some (snd (NotifyDuplicate f rid fs))"
  using assms
proof (induction cs arbitrary: ps ps' out fs)
  case Nil
  then show ?case by simp
next
  case (Cons c cs)
  obtain nid' ep' where c: "c = (nid', ep')" by (cases c) auto
  show ?case
  proof (cases "ep' = ep")
    case True
    then obtain ps1 out1 where r: "notify_peers net f rid cs (ps(ep \<mapsto> snd (NotifyDuplicate f rid fs))) = Some (ps1, out1)"
      and ps': "ps' = ps1"
      using Cons.prems by (auto simp: c)
    show ?thesis
    proof (cases "ep \<in> snd ` set cs")
      case True
      from Cons.IH [OF r True Cons.prems(3)] ps' show ?thesis by simp
    next
      case False
      from notify_peers_frame [OF r False] ps' show ?thesis by simp
    qed
  next
    case False
    then have rest: "ep \<in> snd ` set cs" using Cons.prems(2) c by auto
    have "\<exists>ps1 out1. notify_peers net f rid cs ps1 = Some (ps1', out1) \<and> ps1 ep = Some fs"
      if "ps1' = ps'" for ps1'
      using Cons.prems(1,4) False that
      by (cases "net ep'"; cases "ps ep'") (auto simp: c)
    then obtain ps1 out1 where "notify_peers net f rid cs ps1 = Some (ps', out1)" and "ps1 ep = Some fs"
      by blast
    from Cons.IH [OF this(1) rest Cons.prems(3) this(2)] show ?thesis .
  qed
qed

subsection \<open>Properties of the fan-out\<close>

text \<open>
  C9. Fan-out exclusion: the notification calls of an announcement by \<open>rid\<close> go to
  exactly the registered nodes other than \<open>rid\<close> that are online, each once, at the
  address and port the registry currently holds for it; an offline node is never
  called.
\<close>

theorem fanout_exclusion:
  assumes "dict_wf regs"
  shows "set (fanout_targets rid regs) =
           {(nid, (address e, port e)) | nid e. map_of regs nid = Some e \<and> online e \<and> nid \<noteq> rid} \<and>
         distinct (map fst (fanout_targets rid regs))"
  using assms
  by (auto simp: fanout_targets_filter map_of_wf_iff distinct_map_filter comp_def split_def image_iff)

theorem fanout_exclusion_witness:
  "fanout_targets ''A'' ex_abcd = [(''B'', (''127.0.0.1'', 5002)), (''C'', (''127.0.0.1'', 5003))] \<and>
   (''D'', (''127.0.0.1'', 5004)) \<notin> set (fanout_targets ''A'' ex_abcd)"
proof -
  have wf: "dict_wf ex_abcd" by simp
  have "(''D'', (''127.0.0.1'', 5004)) \<notin> set (fanout_targets ''A'' ex_abcd)"
    unfolding conjunct1 [OF fanout_exclusion [OF wf, of "''A''"]] by simp
  then show ?thesis by simp
qed

text \<open>
  C10. Best-effort delivery without a timeout: the notification loop returns iff no
  target's link hangs (a single hung peer blocks the announcing handler forever, the
  spec's documented fix target); when it returns, every target has exactly one
  outcome, in the order of the calls, and no peer outside the targets is touched.
\<close>

theorem notify_peers_best_effort:
  "(notify_peers net fname rid cs ps \<noteq> None) = (\<forall>(nid, ep) \<in> set cs. net ep \<noteq> Hung) \<and>
   (notify_peers net fname rid cs ps = Some (ps', out) \<longrightarrow>
      map outcome_id out = map fst cs \<and> (\<forall>ep. ep \<notin> snd ` set cs \<longrightarrow> ps' ep = ps ep))"
proof (intro conjI impI)
  show "(notify_peers net fname rid cs ps \<noteq> None) = (\<forall>(nid, ep) \<in> set cs. net ep \<noteq> Hung)"
    by (rule notify_peers_Some_iff)
next
  assume h: "notify_peers net fname rid cs ps = Some (ps', out)"
  show "map outcome_id out = map fst cs" using h by (rule notify_peers_log)
  show "\<forall>ep. ep \<notin> snd ` set cs \<longrightarrow> ps' ep = ps ep"
    using notify_peers_frame [OF h] by simp
qed

theorem notify_peers_best_effort_witness:
  "notify_peers (\<lambda>ep. if ep = (''127.0.0.1'', 5003) then Hung else Up) ''f'' ''A''
     (fanout_targets ''A'' ex_abcd) Map.empty = None \<and>
   notify_peers (\<lambda>ep. if ep = (''127.0.0.1'', 5003) then Down else Up) ''f'' ''A''
     (fanout_targets ''A'' ex_abcd) Map.empty = Some (Map.empty, [NotifyFailed ''B'', NotifyFailed ''C''])"
proof -
  have targets: "fanout_targets ''A'' ex_abcd = [(''B'', (''127.0.0.1'', 5002)), (''C'', (''127.0.0.1'', 5003))]"
    by simp
  note iff = conjunct1 [OF notify_peers_best_effort [of "\<lambda>ep. if ep = (''127.0.0.1'', 5003) then Hung else Up"
        "''f''" "''A''" "fanout_targets ''A'' ex_abcd" Map.empty]]
  have "notify_peers (\<lambda>ep. if ep = (''127.0.0.1'', 5003) then Hung else Up) ''f'' ''A''
          (fanout_targets ''A'' ex_abcd) Map.empty = None"
    using iff unfolding targets by simp
  moreover have "notify_peers (\<lambda>ep. if ep = (''127.0.0.1'', 5003) then Down else Up) ''f'' ''A''
     (fanout_targets ''A'' ex_abcd) Map.empty = Some (Map.empty, [NotifyFailed ''B'', NotifyFailed ''C''])"
    by (simp add: targets)
  ultimately show ?thesis by (rule conjI)
qed

text \<open>
  C8. The fan-out overwrites a peer's file: when the notification loop of an
  announcement of \<open>f\<close> returns, every notified peer whose link is up holds exactly
  its former files with \<^verbatim>\<open>Replicated_f\<close> set to the placeholder text, whatever it
  held under that name before (a file the operator created or downloaded with that
  name is lost), and nothing else of it changes.
\<close>

theorem fanout_overwrites_peer_file:
  assumes "(nid, ep) \<in> set (fanout_targets rid regs)" and "net ep = Up" and "ps ep = Some fs"
    and "notify_peers net f rid (fanout_targets rid regs) ps = Some (ps', out)"
  shows "ps' ep = Some (fs(placeholder_name f \<mapsto> ''Replicate file: '' @ f @ '' from '' @ rid @ [CHR 0x0A]))"
proof -
  have "ep \<in> snd ` set (fanout_targets rid regs)" using assms(1) by force
  from notify_peers_at [OF assms(4) this assms(2,3)] show ?thesis by (simp add: NotifyDuplicate_def)
qed

theorem fanout_overwrites_peer_file_witness:
  "\<exists>ps' out. notify_peers (\<lambda>_. Up) ''notes.txt'' ''A'' (fanout_targets ''A'' ex_abcd)
       [(''127.0.0.1'', 5002) \<mapsto> [''Replicated_notes.txt'' \<mapsto> ''my own notes'']] = Some (ps', out) \<and>
     ps' (''127.0.0.1'', 5002) =
       Some [''Replicated_notes.txt'' \<mapsto> ''Replicate file: notes.txt from A'' @ [CHR 0x0A]]"
proof -
  let ?ps = "[(''127.0.0.1'', 5002) \<mapsto> [''Replicated_notes.txt'' \<mapsto> ''my own notes'']]"
  have t: "(''B'', (''127.0.0.1'', 5002)) \<in> set (fanout_targets ''A'' ex_abcd)" by simp
  obtain ps' out where r: "notify_peers (\<lambda>_. Up) ''notes.txt'' ''A'' (fanout_targets ''A'' ex_abcd) ?ps = Some (ps', out)"
    by (simp add: NotifyDuplicate_def)
  from fanout_overwrites_peer_file [OF t _ _ r]
  have "ps' (''127.0.0.1'', 5002) = Some [''Replicated_notes.txt'' \<mapsto> ''Replicate file: notes.txt from A'' @ [CHR 0x0A]]"
    by (simp add: placeholder_name_def)
  with r show ?thesis by blast
qed

end
