(* ===== verification/Controller.thy ===== *)
theory Controller
  imports Reaper FanOut
begin

text \<open>
  The directory control service and the system around it. \<open>controller\<close> is the
  pair of module-level dictionaries of \<^verbatim>\<open>controller.py\<close>; \<open>rpc\<close> has one
  constructor per method of \<^verbatim>\<open>StorageController\<close> with the request fields the
  method reads; \<open>handle\<close> dispatches a request to the handler of its method and
  returns the response, the new state and the notification calls the handler makes.
  \<open>AnnounceFile\<close> composes the registration guard, the directory write
  (\<open>announce_entry\<close>) and the fan-out (\<open>fanout_targets\<close>) in the source's order.

  The system state adds the peer services of the nodes (by endpoint) and the
  controller's clock. \<open>sys_step\<close> is one event: a request handled completely at the
  current clock, with its notifications delivered through a network whose links the
  environment chooses per call (the calls before the first hung link complete; a
  hung link leaves the handler blocked, its state changes committed); one reaper pass;
  time passing; a node's peer service starting, stopping or changing its local files.
  Requests are handled one at a time here; the interleavings of concurrent handlers
  and the reaper are the subject of theory \<open>Interleaving\<close>.
  The lemmas show that every event keeps the well-formedness invariant
  \<open>ctrl_inv\<close>, so it holds in every reachable state, and describe each handler's
  branches.
\<close>

record controller =
  registered_nodes :: registry
  file_locations :: directory

datatype rpc =
    Req_SetOffline node_id
  | Req_RegisterNode node_id string int
  | Req_Heartbeat node_id string int
  | Req_AnnounceFile node_id string int string
  | Req_GetFileLocations string
  | Req_CreateFile string
  | Req_DeleteFile string
  | Req_ModifyFile string
  | Req_ListFiles

definition AnnounceFile ::
  "node_id \<Rightarrow> string \<Rightarrow> int \<Rightarrow> string \<Rightarrow> timestamp \<Rightarrow> controller \<Rightarrow>
   response \<times> controller \<times> (node_id \<times> endpoint) list" where
  "AnnounceFile rid addr p fname now c =
     (if rid \<notin> fst ` set (registered_nodes c) then (R_NodeNotRegistered, c, [])
      else
        (let c' = c\<lparr>file_locations := announce_entry fname (rid, addr, p) now (file_locations c)\<rparr>
         in (R_Announced fname rid now, c', fanout_targets rid (registered_nodes c'))))"

primrec handle :: "rpc \<Rightarrow> timestamp \<Rightarrow> controller \<Rightarrow> response \<times> controller \<times> (node_id \<times> endpoint) list" where
  "handle (Req_SetOffline nid) now c =
     (let (r, regs) = SetOffline nid now (registered_nodes c) in (r, c\<lparr>registered_nodes := regs\<rparr>, []))"
| "handle (Req_RegisterNode nid addr p) now c =
     (let (r, regs) = RegisterNode nid addr p now (registered_nodes c)
      in (r, c\<lparr>registered_nodes := regs\<rparr>, []))"
| "handle (Req_Heartbeat nid addr p) now c =
     (let (r, regs) = Heartbeat nid now (registered_nodes c) in (r, c\<lparr>registered_nodes := regs\<rparr>, []))"
| "handle (Req_AnnounceFile nid addr p fname) now c = AnnounceFile nid addr p fname now c"
| "handle (Req_GetFileLocations fname) now c =
     (R_Locations (GetFileLocations (registered_nodes c) (file_locations c) fname), c, [])"
| "handle (Req_CreateFile fname) now c = (CreateFile fname, c, [])"
| "handle (Req_DeleteFile fname) now c =
     (let (r, files) = DeleteFile fname (file_locations c) in (r, c\<lparr>file_locations := files\<rparr>, []))"
| "handle (Req_ModifyFile fname) now c = (ModifyFile fname, c, [])"
| "handle Req_ListFiles now c = (R_Files (ListFiles (registered_nodes c) (file_locations c)), c, [])"

text \<open>The notification payload: the announcement request itself is forwarded.\<close>

fun notify_payload :: "rpc \<Rightarrow> string \<times> node_id" where
  "notify_payload (Req_AnnounceFile nid addr p fname) = (fname, nid)"
| "notify_payload _ = ([], [])"

definition controller_pass :: "real \<Rightarrow> controller \<Rightarrow> controller" where
  "controller_pass now c =
     (let (regs', files', offs, removed) = reaper_pass now (registered_nodes c) (file_locations c)
      in \<lparr>registered_nodes = regs', file_locations = files'\<rparr>)"

record system =
  ctrl :: controller
  peers :: peers
  clock :: real

definition init_system :: system where
  "init_system = \<lparr>ctrl = \<lparr>registered_nodes = [], file_locations = []\<rparr>, peers = Map.empty, clock = 0\<rparr>"

inductive sys_step :: "system \<Rightarrow> system \<Rightarrow> bool" where
  rpc: "handle req \<lfloor>clock s\<rfloor> (ctrl s) = (r, c', cs) \<Longrightarrow>
        notify_peers net (fst (notify_payload req)) (snd (notify_payload req))
          (takeWhile (\<lambda>(nid, ep). net ep \<noteq> Hung) cs) (peers s) = Some (ps', out) \<Longrightarrow>
        sys_step s (s\<lparr>ctrl := c', peers := ps'\<rparr>)"
| reap: "sys_step s (s\<lparr>ctrl := controller_pass (clock s) (ctrl s)\<rparr>)"
| tick: "0 \<le> d \<Longrightarrow> sys_step s (s\<lparr>clock := clock s + d\<rparr>)"
| peer_start: "peers s ep = None \<Longrightarrow> sys_step s (s\<lparr>peers := (peers s)(ep \<mapsto> fs)\<rparr>)"
| peer_stop: "sys_step s (s\<lparr>peers := (peers s)(ep := None)\<rparr>)"
| peer_local: "peers s ep = Some fs \<Longrightarrow> sys_step s (s\<lparr>peers := (peers s)(ep \<mapsto> fs')\<rparr>)"

inductive reachable :: "system \<Rightarrow> bool" where
  init: "reachable init_system"
| step: "reachable s \<Longrightarrow> sys_step s s' \<Longrightarrow> reachable s'"

definition entry_ok :: "registry \<Rightarrow> file_entry \<Rightarrow> bool" where
  "entry_ok regs info \<longleftrightarrow>
     owners info \<noteq> [] \<and> distinct (owners info) \<and>
     (\<forall>(nid, a, p) \<in> set (owners info). nid \<in> fst ` set regs)"

definition owners_ok :: "registry \<Rightarrow> directory \<Rightarrow> bool" where
  "owners_ok regs files \<longleftrightarrow> (\<forall>x \<in> set files. entry_ok regs (snd x))"

definition ctrl_inv :: "controller \<Rightarrow> bool" where
  "ctrl_inv c \<longleftrightarrow> dict_wf (registered_nodes c) \<and> dict_wf (file_locations c) \<and>
     owners_ok (registered_nodes c) (file_locations c)"

subsection \<open>The invariant is kept by every event\<close>

lemma entry_ok_regs_mono:
  "entry_ok regs info \<Longrightarrow> fst ` set regs \<subseteq> fst ` set regs' \<Longrightarrow> entry_ok regs' info"
  unfolding entry_ok_def by blast

lemma owners_ok_regs_mono:
  "owners_ok regs files \<Longrightarrow> fst ` set regs \<subseteq> fst ` set regs' \<Longrightarrow> owners_ok regs' files"
  unfolding owners_ok_def using entry_ok_regs_mono by blast

lemma owners_ok_subset:
  "owners_ok regs files \<Longrightarrow> set files' \<subseteq> set files \<Longrightarrow> owners_ok regs files'"
  unfolding owners_ok_def by blast

lemma owners_ok_cong_keys:
  "fst ` set regs' = fst ` set regs \<Longrightarrow> owners_ok regs' files = owners_ok regs files"
  by (simp add: owners_ok_def entry_ok_def)

lemma entry_ok_insert:
  assumes "entry_ok regs e \<or> owners e = []" and "fst loc \<in> fst ` set regs"
  shows "entry_ok regs (e\<lparr>owners := List.insert loc (owners e), upload_time := now\<rparr>)"
  using assms by (cases loc) (auto simp: entry_ok_def)

lemma owners_ok_announce:
  assumes ok: "owners_ok regs files" and reg: "rid \<in> fst ` set regs"
  shows "owners_ok regs (announce_entry fname (rid, a, p) now files)"
proof -
  let ?e = "case map_of files fname of None \<Rightarrow> \<lparr>owners = [], upload_time = now\<rparr> | Some e \<Rightarrow> e"
  let ?e' = "?e\<lparr>owners := List.insert (rid, a, p) (owners ?e), upload_time := now\<rparr>"
  have "entry_ok regs ?e \<or> owners ?e = []"
  proof (cases "map_of files fname")
    case None
    then show ?thesis by simp
  next
    case (Some e)
    then have "(fname, e) \<in> set files" by (rule map_of_SomeD)
    with ok Some show ?thesis by (auto simp: owners_ok_def)
  qed
  then have "entry_ok regs ?e'"
    using reg by (intro entry_ok_insert) simp_all
  moreover have "set (announce_entry fname (rid, a, p) now files) \<subseteq> insert (fname, ?e') (set files)"
    unfolding announce_entry_def Let_def by (rule set_dict_set_subset)
  ultimately show ?thesis
    using ok unfolding owners_ok_def by auto
qed

lemma ctrl_inv_registry:
  assumes "ctrl_inv c" and "dict_wf regs'" and "fst ` set (registered_nodes c) \<subseteq> fst ` set regs'"
  shows "ctrl_inv (c\<lparr>registered_nodes := regs'\<rparr>)"
  using assms owners_ok_regs_mono [of "registered_nodes c" "file_locations c" regs']
  by (simp add: ctrl_inv_def)

lemma ctrl_inv_directory:
  assumes "ctrl_inv c" and "dict_wf files'" and "owners_ok (registered_nodes c) files'"
  shows "ctrl_inv (c\<lparr>file_locations := files'\<rparr>)"
  using assms by (simp add: ctrl_inv_def)

lemma handle_inv [wf_intros]:
  assumes inv: "ctrl_inv c"
  shows "ctrl_inv (fst (snd (handle req now c)))"
proof (cases req)
  case (Req_SetOffline nid)
  have "ctrl_inv (c\<lparr>registered_nodes := snd (SetOffline nid now (registered_nodes c))\<rparr>)"
    using inv registry_ops_wf(3) registry_ops_keys(3)
    by (intro ctrl_inv_registry) (simp_all add: ctrl_inv_def)
  with Req_SetOffline show ?thesis by (simp add: split_def Let_def)
next
  case (Req_Heartbeat nid a p)
  have "ctrl_inv (c\<lparr>registered_nodes := snd (Heartbeat nid now (registered_nodes c))\<rparr>)"
    using inv registry_ops_wf(2) registry_ops_keys(2)
    by (intro ctrl_inv_registry) (simp_all add: ctrl_inv_def)
  with Req_Heartbeat show ?thesis by (simp add: split_def Let_def)
next
  case (Req_RegisterNode nid a p)
  have "ctrl_inv (c\<lparr>registered_nodes := snd (RegisterNode nid a p now (registered_nodes c))\<rparr>)"
    using inv registry_ops_wf(1) registry_ops_keys(1)
    by (intro ctrl_inv_registry) (auto simp add: ctrl_inv_def)
  with Req_RegisterNode show ?thesis by (simp add: split_def Let_def)
next
  case (Req_AnnounceFile nid a p fname)
  show ?thesis
  proof (cases "nid \<in> fst ` set (registered_nodes c)")
    case True
    have "ctrl_inv (c\<lparr>file_locations := announce_entry fname (nid, a, p) now (file_locations c)\<rparr>)"
      using inv True by (intro ctrl_inv_directory) (simp_all add: ctrl_inv_def announce_entry_wf owners_ok_announce)
    with Req_AnnounceFile True show ?thesis by (simp add: AnnounceFile_def Let_def)
  next
    case False
    with Req_AnnounceFile inv show ?thesis by (simp add: AnnounceFile_def)
  qed
next
  case (Req_DeleteFile fname)
  have "set (snd (DeleteFile fname (file_locations c))) \<subseteq> set (file_locations c)"
    by (simp add: DeleteFile_def dict_del_subset)
  then have "ctrl_inv (c\<lparr>file_locations := snd (DeleteFile fname (file_locations c))\<rparr>)"
    using inv DeleteFile_wf owners_ok_subset [of "registered_nodes c" "file_locations c"]
    by (intro ctrl_inv_directory) (simp_all add: ctrl_inv_def)
  with Req_DeleteFile show ?thesis by (simp add: split_def Let_def)
qed (use inv in simp_all)

lemma controller_pass_inv [wf_intros]:
  assumes "ctrl_inv c"
  shows "ctrl_inv (controller_pass now c)"
proof -
  let ?regs = "registered_nodes c" and ?files = "file_locations c"
  have wf: "dict_wf ?regs" "dict_wf ?files" using assms by (simp_all add: ctrl_inv_def)
  let ?regs' = "fst (reap_nodes now ?regs)"
  let ?files' = "filter (\<lambda>(f, info). has_online_owner ?regs' info) ?files"
  have eq: "controller_pass now c = \<lparr>registered_nodes = ?regs', file_locations = ?files'\<rparr>"
    by (simp add: controller_pass_def reaper_pass_eq [OF wf])
  have "set ?files' \<subseteq> set ?files" by auto
  then have "owners_ok ?regs ?files'"
    using assms owners_ok_subset [of ?regs ?files] by (simp add: ctrl_inv_def)
  then have "owners_ok ?regs' ?files'"
    using owners_ok_cong_keys [OF keys_reap_nodes [OF wf(1)], of now ?files'] by simp
  then show ?thesis
    using wf by (simp add: eq ctrl_inv_def reap_nodes_wf distinct_map_filter)
qed

lemma sys_step_inv:
  "sys_step s s' \<Longrightarrow> ctrl_inv (ctrl s) \<Longrightarrow> ctrl_inv (ctrl s')"
proof (induction rule: sys_step.induct)
  case (rpc req s r c' cs net ps' out)
  then show ?case using handle_inv [of "ctrl s" req "\<lfloor>clock s\<rfloor>"] by simp
next
  case (reap s)
  then show ?case by (simp add: controller_pass_inv)
qed simp_all

lemma ctrl_inv_init: "ctrl_inv (ctrl init_system)"
  by (simp add: init_system_def ctrl_inv_def owners_ok_def)

lemma reachable_inv: "reachable s \<Longrightarrow> ctrl_inv (ctrl s)"
proof (induction rule: reachable.induct)
  case init
  show ?case by (rule ctrl_inv_init)
next
  case (step s s')
  from step.hyps(2) step.IH show ?case by (rule sys_step_inv)
qed

lemma rpc_step_no_calls:
  "handle req \<lfloor>clock s\<rfloor> (ctrl s) = (r, c', []) \<Longrightarrow> sys_step s (s\<lparr>ctrl := c'\<rparr>)"
  using sys_step.rpc [of req s r c' "[]" "\<lambda>_. Up" "peers s" "[]"] by simp

lemma handle_keys_mono:
  "fst ` set (registered_nodes c) \<subseteq> fst ` set (registered_nodes (fst (snd (handle req now c))))"
  by (cases req) (simp_all add: split_def Let_def AnnounceFile_def registry_ops_keys subset_insertI)

lemma sys_step_keys_mono:
  assumes "sys_step s s'" and "ctrl_inv (ctrl s)"
  shows "fst ` set (registered_nodes (ctrl s)) \<subseteq> fst ` set (registered_nodes (ctrl s'))"
  using assms
proof (induction rule: sys_step.induct)
  case (rpc req s r c' cs net ps' out)
  from rpc.hyps(1) have "c' = fst (snd (handle req \<lfloor>clock s\<rfloor> (ctrl s)))" by simp
  then show ?case using handle_keys_mono [of "ctrl s" req "\<lfloor>clock s\<rfloor>"] by simp
next
  case (reap s)
  then show ?case
    by (simp add: controller_pass_def reaper_pass_eq ctrl_inv_def keys_reap_nodes)
qed simp_all

subsection \<open>Properties of the control service\<close>

text \<open>
  C11. Well-formedness of every reachable state: in every state reachable by requests,
  reaper passes, time and peer-service events, both dictionaries have distinct keys,
  every file entry has at least one owner, its owners are duplicate-free, and every
  owner's id is a registered node (the registration guard of \<^verbatim>\<open>AnnounceFile\<close>
  and the fact that nodes are never removed keep it).
\<close>

theorem reachable_ctrl_wf:
  assumes "reachable s"
  shows "dict_wf (registered_nodes (ctrl s)) \<and> dict_wf (file_locations (ctrl s)) \<and>
         (\<forall>(f, info) \<in> set (file_locations (ctrl s)).
            owners info \<noteq> [] \<and> distinct (owners info) \<and>
            (\<forall>(nid, a, p) \<in> set (owners info). nid \<in> fst ` set (registered_nodes (ctrl s))))"
  using reachable_inv [OF assms]
  by (simp add: ctrl_inv_def owners_ok_def entry_ok_def case_prod_unfold)

abbreviation ex_after_register :: system where
  "ex_after_register \<equiv> init_system\<lparr>ctrl := \<lparr>registered_nodes =
     [(''vm1'', \<lparr>address = ''127.0.0.1'', port = 5001, online = True, last_seen = 0\<rparr>)],
     file_locations = []\<rparr>\<rparr>"

abbreviation ex_after_announce :: system where
  "ex_after_announce \<equiv> init_system\<lparr>ctrl := \<lparr>registered_nodes =
     [(''vm1'', \<lparr>address = ''127.0.0.1'', port = 5001, online = True, last_seen = 0\<rparr>)],
     file_locations = [(''notes.txt'', \<lparr>owners = [(''vm1'', ''127.0.0.1'', 5001)], upload_time = 0\<rparr>)]\<rparr>\<rparr>"

lemma reachable_ex_after_announce: "reachable ex_after_announce"
proof -
  have r1: "reachable ex_after_register"
  proof (rule reachable.step [OF reachable.init])
    have "handle (Req_RegisterNode ''vm1'' ''127.0.0.1'' 5001) \<lfloor>clock init_system\<rfloor> (ctrl init_system) =
            (R_Registered ''vm1'' 0, ctrl ex_after_register, [])"
      by (simp add: init_system_def RegisterNode_def)
    from rpc_step_no_calls [OF this] show "sys_step init_system ex_after_register"
      by (simp add: init_system_def)
  qed
  have "handle (Req_AnnounceFile ''vm1'' ''127.0.0.1'' 5001 ''notes.txt'') \<lfloor>clock ex_after_register\<rfloor>
          (ctrl ex_after_register) = (R_Announced ''notes.txt'' ''vm1'' 0, ctrl ex_after_announce, [])"
    by (simp add: init_system_def AnnounceFile_def announce_entry_def)
  from rpc_step_no_calls [OF this] have "sys_step ex_after_register ex_after_announce"
    by (simp add: init_system_def)
  with r1 show ?thesis by (rule reachable.step)
qed

theorem reachable_ctrl_wf_witness:
  "distinct (map fst (file_locations (ctrl ex_after_announce))) \<and>
   owners (snd (hd (file_locations (ctrl ex_after_announce)))) \<noteq> []"
  using reachable_ctrl_wf [OF reachable_ex_after_announce] by simp

text \<open>
  C12. The registration guard of \<^verbatim>\<open>AnnounceFile\<close>: a request from an id that is not
  registered answers \<^verbatim>\<open>Node not registered\<close>, changes nothing and notifies nobody.
\<close>

theorem announce_unregistered_rejected:
  assumes "rid \<notin> fst ` set (registered_nodes c)"
  shows "handle (Req_AnnounceFile rid addr p fname) now c = (R_NodeNotRegistered, c, [])"
  using assms by (simp add: AnnounceFile_def)

theorem announce_unregistered_rejected_witness:
  "handle (Req_AnnounceFile ''vm9'' ''127.0.0.1'' 5009 ''x.txt'') 5 (ctrl ex_after_announce) =
     (R_NodeNotRegistered, ctrl ex_after_announce, [])"
  by (rule announce_unregistered_rejected) (simp add: init_system_def)

text \<open>
  C13. Idempotent registration: registering the same id twice with the same address
  and port leaves exactly one record for the id, online, carrying the later timestamp;
  the records of other ids are those before.
\<close>

theorem register_idempotent:
  assumes "dict_wf (registered_nodes c)"
  shows "let c2 = fst (snd (handle (Req_RegisterNode nid a p) t2
                      (fst (snd (handle (Req_RegisterNode nid a p) t1 c)))))
         in filter (\<lambda>(k, _). k = nid) (registered_nodes c2) =
              [(nid, \<lparr>address = a, port = p, online = True, last_seen = t2\<rparr>)] \<and>
            (\<forall>k. k \<noteq> nid \<longrightarrow> map_of (registered_nodes c2) k = map_of (registered_nodes c) k)"
proof -
  let ?e = "\<lparr>address = a, port = p, online = True, last_seen = t2\<rparr>"
  let ?regs2 = "dict_set nid ?e (registered_nodes c)"
  have eq: "fst (snd (handle (Req_RegisterNode nid a p) t2
              (fst (snd (handle (Req_RegisterNode nid a p) t1 c))))) = c\<lparr>registered_nodes := ?regs2\<rparr>"
    by (simp add: split_def Let_def RegisterNode_def)
  have wf2: "dict_wf ?regs2" using assms by simp
  have "(nid, ?e) \<in> set ?regs2"
    using map_of_SomeD [of ?regs2 nid ?e] by simp
  then have "filter (\<lambda>(k, _). k = nid) ?regs2 = [(nid, ?e)]"
    using wf2 by (rule filter_key_wf)
  then show ?thesis unfolding Let_def eq by simp
qed

theorem register_idempotent_witness:
  "filter (\<lambda>(k, _). k = ''vm1'')
     (registered_nodes (fst (snd (handle (Req_RegisterNode ''vm1'' ''127.0.0.1'' 5001) 9
        (fst (snd (handle (Req_RegisterNode ''vm1'' ''127.0.0.1'' 5001) 7 (ctrl ex_after_announce)))))))) =
   [(''vm1'', \<lparr>address = ''127.0.0.1'', port = 5001, online = True, last_seen = 9\<rparr>)]"
  using register_idempotent [of "ctrl ex_after_announce" "''vm1''" "''127.0.0.1''" 5001 9 7]
  by (simp add: init_system_def Let_def)

text \<open>
  C14. Going offline and coming back: \<^verbatim>\<open>SetOffline nid\<close> of an online node hides
  exactly its locations from \<^verbatim>\<open>GetFileLocations\<close> and leaves the directory as it is; a
  \<^verbatim>\<open>Heartbeat nid\<close> before any reaper pass brings every reader's answer back as it
  was, \<^verbatim>\<open>GetFileLocations\<close> and \<^verbatim>\<open>ListFiles\<close> alike, without a new announcement,
  and keeps the node's registered address whatever address the heartbeat carries.
\<close>

theorem offline_heartbeat_roundtrip:
  assumes "map_of (registered_nodes c) nid = Some e" and "online e"
    and "handle (Req_SetOffline nid) t1 c = (r1, c1, cs1)"
    and "handle (Req_Heartbeat nid a p) t2 c1 = (r2, c2, cs2)"
  shows "file_locations c1 = file_locations c \<and>
         (\<forall>f. GetFileLocations (registered_nodes c1) (file_locations c1) f =
               filter (\<lambda>(n, _, _). n \<noteq> nid) (GetFileLocations (registered_nodes c) (file_locations c) f)) \<and>
         (\<forall>f. GetFileLocations (registered_nodes c2) (file_locations c2) f =
               GetFileLocations (registered_nodes c) (file_locations c) f) \<and>
         ListFiles (registered_nodes c2) (file_locations c2) = ListFiles (registered_nodes c) (file_locations c) \<and>
         map_of (registered_nodes c2) nid = Some (e\<lparr>last_seen := t2\<rparr>)"
proof -
  let ?regs1 = "dict_set nid (e\<lparr>online := False\<rparr>) (registered_nodes c)"
  have c1: "c1 = c\<lparr>registered_nodes := ?regs1\<rparr>"
    using assms(1,3) by (simp add: SetOffline_def)
  have m1: "map_of ?regs1 nid = Some (e\<lparr>online := False\<rparr>)" by simp
  have c2: "c2 = c\<lparr>registered_nodes := dict_set nid (e\<lparr>online := False\<rparr>\<lparr>online := True, last_seen := t2\<rparr>) ?regs1\<rparr>"
    using assms(4) c1 m1 by (simp add: Heartbeat_def)
  have on1: "node_online ?regs1 n = (n \<noteq> nid \<and> node_online (registered_nodes c) n)" for n
    using assms(1) by (simp add: node_online_def)
  have on2: "node_online (registered_nodes c2) = node_online (registered_nodes c)"
  proof
    fix n
    show "node_online (registered_nodes c2) n = node_online (registered_nodes c) n"
      using on1 [of n] assms(1,2) c2 by (auto simp: node_online_def)
  qed
  have "GetFileLocations ?regs1 (file_locations c) f =
        filter (\<lambda>(n, _, _). n \<noteq> nid) (GetFileLocations (registered_nodes c) (file_locations c) f)" for f
    unfolding GetFileLocations_def on1
    by (cases "map_of (file_locations c) f") (simp_all add: filter_filter split_def conj_commute del: node_online_dict_set)
  moreover have "GetFileLocations (registered_nodes c2) (file_locations c2) f =
                 GetFileLocations (registered_nodes c) (file_locations c) f" for f
    unfolding GetFileLocations_def on2 using c2 by simp
  moreover have "ListFiles (registered_nodes c2) (file_locations c2) = ListFiles (registered_nodes c) (file_locations c)"
    unfolding ListFiles_filter has_online_owner_def on2 using c2 by simp
  moreover have "e\<lparr>online := True, last_seen := t2\<rparr> = e\<lparr>last_seen := t2\<rparr>"
    using assms(2) by (cases e) simp
  ultimately show ?thesis using c1 c2 by simp
qed

theorem offline_heartbeat_roundtrip_witness:
  "GetFileLocations (registered_nodes (fst (snd (handle (Req_SetOffline ''vm1'') 40 (ctrl ex_after_announce)))))
      (file_locations (fst (snd (handle (Req_SetOffline ''vm1'') 40 (ctrl ex_after_announce))))) ''notes.txt'' = [] \<and>
   GetFileLocations
      (registered_nodes (fst (snd (handle (Req_Heartbeat ''vm1'' ''10.9.9.9'' 7) 50
         (fst (snd (handle (Req_SetOffline ''vm1'') 40 (ctrl ex_after_announce))))))))
      (file_locations (fst (snd (handle (Req_Heartbeat ''vm1'' ''10.9.9.9'' 7) 50
         (fst (snd (handle (Req_SetOffline ''vm1'') 40 (ctrl ex_after_announce))))))))
      ''notes.txt'' = [(''vm1'', ''127.0.0.1'', 5001)]"
proof -
  obtain r1 c1 cs1 where h1: "handle (Req_SetOffline ''vm1'') 40 (ctrl ex_after_announce) = (r1, c1, cs1)"
    by (cases "handle (Req_SetOffline ''vm1'') 40 (ctrl ex_after_announce)") auto
  obtain r2 c2 cs2 where h2: "handle (Req_Heartbeat ''vm1'' ''10.9.9.9'' 7) 50 c1 = (r2, c2, cs2)"
    by (cases "handle (Req_Heartbeat ''vm1'' ''10.9.9.9'' 7) 50 c1") auto
  have e: "map_of (registered_nodes (ctrl ex_after_announce)) ''vm1'' =
           Some \<lparr>address = ''127.0.0.1'', port = 5001, online = True, last_seen = 0\<rparr>"
    by (simp add: init_system_def)
  have on: "online \<lparr>address = ''127.0.0.1'', port = 5001, online = True, last_seen = (0::int)\<rparr>" by simp
  note rt = offline_heartbeat_roundtrip [OF e on h1 h2]
  have g: "GetFileLocations (registered_nodes (ctrl ex_after_announce)) (file_locations (ctrl ex_after_announce))
             ''notes.txt'' = [(''vm1'', ''127.0.0.1'', 5001)]"
    by (simp add: init_system_def GetFileLocations_def node_online_def)
  have "GetFileLocations (registered_nodes c1) (file_locations c1) ''notes.txt'' =
        filter (\<lambda>(n, _, _). n \<noteq> ''vm1'') (GetFileLocations (registered_nodes (ctrl ex_after_announce))
          (file_locations (ctrl ex_after_announce)) ''notes.txt'')"
    using rt by blast
  then have a: "GetFileLocations (registered_nodes c1) (file_locations c1) ''notes.txt'' = []"
    unfolding g by simp
  have "GetFileLocations (registered_nodes c2) (file_locations c2) ''notes.txt'' =
        GetFileLocations (registered_nodes (ctrl ex_after_announce)) (file_locations (ctrl ex_after_announce)) ''notes.txt''"
    using rt by blast
  then have b: "GetFileLocations (registered_nodes c2) (file_locations c2) ''notes.txt'' = [(''vm1'', ''127.0.0.1'', 5001)]"
    unfolding g .
  have f1: "fst (snd (handle (Req_SetOffline ''vm1'') 40 (ctrl ex_after_announce))) = c1" using h1 by simp
  have f2: "fst (snd (handle (Req_Heartbeat ''vm1'' ''10.9.9.9'' 7) 50 c1)) = c2" using h2 by simp
  show ?thesis unfolding f1 f2 using a b by (rule conjI)
qed

text \<open>
  C15. The read-only requests and the two stubs: \<^verbatim>\<open>GetFileLocations\<close>,
  \<^verbatim>\<open>ListFiles\<close>, \<^verbatim>\<open>CreateFile\<close> and \<^verbatim>\<open>ModifyFile\<close> leave both tables
  unchanged and notify nobody; \<^verbatim>\<open>ModifyFile\<close> is always rejected and
  \<^verbatim>\<open>CreateFile\<close> is a no-op acknowledgement. \<^verbatim>\<open>DeleteFile\<close> removes a known entry
  whatever its owners' liveness, and answers \<^verbatim>\<open>File not found\<close> otherwise.
\<close>

theorem readonly_and_delete_requests:
  assumes "dict_wf (file_locations c)"
  shows "fst (snd (handle (Req_GetFileLocations f) now c)) = c \<and>
         fst (snd (handle Req_ListFiles now c)) = c \<and>
         handle (Req_CreateFile f) now c = (R_CreateNoop f, c, []) \<and>
         handle (Req_ModifyFile f) now c = (R_ModifyNotSupported, c, []) \<and>
         (f \<in> fst ` set (file_locations c) \<longrightarrow>
            fst (handle (Req_DeleteFile f) now c) = R_Deleted f \<and>
            map_of (file_locations (fst (snd (handle (Req_DeleteFile f) now c)))) =
              (map_of (file_locations c))(f := None)) \<and>
         (f \<notin> fst ` set (file_locations c) \<longrightarrow> handle (Req_DeleteFile f) now c = (R_FileNotFound, c, []))"
  using assms by (simp add: CreateFile_def ModifyFile_def DeleteFile_def split_def Let_def)

theorem readonly_and_delete_requests_witness:
  "handle (Req_DeleteFile ''notes.txt'') 3 (ctrl ex_after_announce) =
     (R_Deleted ''notes.txt'', (ctrl ex_after_announce)\<lparr>file_locations := []\<rparr>, []) \<and>
   handle (Req_DeleteFile ''nope'') 3 (ctrl ex_after_announce) = (R_FileNotFound, ctrl ex_after_announce, [])"
proof -
  have "''nope'' \<notin> fst ` set (file_locations (ctrl ex_after_announce)) \<longrightarrow>
          handle (Req_DeleteFile ''nope'') 3 (ctrl ex_after_announce) = (R_FileNotFound, ctrl ex_after_announce, [])"
    using readonly_and_delete_requests [of "ctrl ex_after_announce" "''nope''" 3] by (simp add: init_system_def)
  moreover have "handle (Req_DeleteFile ''notes.txt'') 3 (ctrl ex_after_announce) =
     (R_Deleted ''notes.txt'', (ctrl ex_after_announce)\<lparr>file_locations := []\<rparr>, [])"
    by (simp add: init_system_def DeleteFile_def)
  ultimately show ?thesis by (simp add: init_system_def)
qed

text \<open>
  C16. Nodes are never deleted: along every event from a reachable state, the set of
  registered ids only grows (records go offline but persist, as the spec's data model
  says).
\<close>

theorem nodes_never_deleted:
  assumes "reachable s" and "sys_step s s'"
  shows "fst ` set (registered_nodes (ctrl s)) \<subseteq> fst ` set (registered_nodes (ctrl s'))"
  using sys_step_keys_mono [OF assms(2) reachable_inv [OF assms(1)]] .

theorem nodes_never_deleted_witness:
  "fst ` set (registered_nodes (ctrl ex_after_announce)) \<subseteq>
   fst ` set (registered_nodes (ctrl (ex_after_announce\<lparr>ctrl := controller_pass 0 (ctrl ex_after_announce)\<rparr>)))"
  using nodes_never_deleted [OF reachable_ex_after_announce sys_step.reap [of ex_after_announce]]
  by (simp add: init_system_def)

end
