(* ===== verification/Dashboard.thy ===== *)
theory Dashboard
  imports Controller
begin

text \<open>
  The administrative web console (\<^verbatim>\<open>dashboard.py\<close>). It imports the controller's
  two module-level dictionaries and writes them directly, from Flask's threads, not
  through the RPCs. \<open>register_node\<close> is the POST endpoint of the same name,
  \<open>upload_file\<close> the upload form (its body is the directory write of
  \<^verbatim>\<open>AnnounceFile\<close>, without the registration guard and without the fan-out, and with
  the owner's location taken from the registry or defaulted to
  \<^verbatim>\<open>127.0.0.1:5001\<close>), \<open>download_file\<close> the download form, which serves dummy
  content for any filename the directory holds. The form fields arrive as strings;
  \<^verbatim>\<open>int(request.form['port'])\<close> is taken as already parsed (a malformed port makes
  Flask answer 500 and changes nothing; theory \<open>Console\<close> models the parse). The page
  that renders the tables, and the forms, are in theory \<open>Console\<close>. \<open>dash_step\<close> adds the three endpoints to the system's
  events.
  The lemmas show that an upload by a registered owner at its registered location is
  exactly the directory write of \<^verbatim>\<open>AnnounceFile\<close>, that the upload form breaks the
  invariant every RPC keeps (an owner that is no registered node), and that the download
  form ignores liveness.
\<close>

datatype dash_reply =
    D_Registered node_id string int     \<comment> \<open>\<^verbatim>\<open>Node {id} registered at {address}:{port} (ONLINE)\<close>\<close>
  | D_NoFile                            \<comment> \<open>\<^verbatim>\<open>No file uploaded!\<close>\<close>
  | D_Uploaded string node_id           \<comment> \<open>\<^verbatim>\<open>File '{f}' uploaded and owned by {owner}\<close>\<close>
  | D_NotFound string                   \<comment> \<open>\<^verbatim>\<open>File '{f}' not found!\<close>\<close>
  | D_Attachment string string          \<comment> \<open>\<^verbatim>\<open>send_file\<close> of the dummy content\<close>

definition register_node :: "node_id \<Rightarrow> string \<Rightarrow> int \<Rightarrow> timestamp \<Rightarrow> controller \<Rightarrow> dash_reply \<times> controller" where
  "register_node nid addr p now c =
     (D_Registered nid addr p,
      c\<lparr>registered_nodes :=
          dict_set nid \<lparr>address = addr, port = p, online = True, last_seen = now\<rparr> (registered_nodes c)\<rparr>)"

definition upload_file :: "string \<Rightarrow> node_id \<Rightarrow> bool \<Rightarrow> timestamp \<Rightarrow> controller \<Rightarrow> dash_reply \<times> controller" where
  "upload_file fname owner_id has_file now c =
     (if \<not> has_file then (D_NoFile, c)
      else
        (let (addr, p) = (case map_of (registered_nodes c) owner_id of
                            Some e \<Rightarrow> (address e, port e)
                          | None \<Rightarrow> (''127.0.0.1'', 5001))
         in (D_Uploaded fname owner_id,
             c\<lparr>file_locations := announce_entry fname (owner_id, addr, p) now (file_locations c)\<rparr>)))"

definition download_file :: "string \<Rightarrow> controller \<Rightarrow> dash_reply" where
  "download_file fname c =
     (if fname \<notin> fst ` set (file_locations c) then D_NotFound fname
      else D_Attachment fname (''Dummy content of '' @ fname @ '' (not actual file data)''))"

inductive dash_step :: "system \<Rightarrow> system \<Rightarrow> bool" where
  core: "sys_step s s' \<Longrightarrow> dash_step s s'"
| register: "dash_step s (s\<lparr>ctrl := snd (register_node nid addr p \<lfloor>clock s\<rfloor> (ctrl s))\<rparr>)"
| upload: "dash_step s (s\<lparr>ctrl := snd (upload_file fname owner has_file \<lfloor>clock s\<rfloor> (ctrl s))\<rparr>)"

inductive dash_reachable :: "system \<Rightarrow> bool" where
  init: "dash_reachable init_system"
| step: "dash_reachable s \<Longrightarrow> dash_step s s' \<Longrightarrow> dash_reachable s'"

subsection \<open>Lemmas\<close>

lemma register_node_is_RegisterNode:
  "snd (register_node nid addr p now c) = fst (snd (handle (Req_RegisterNode nid addr p) now c))"
  by (simp add: register_node_def RegisterNode_def)

lemma reachable_dash_reachable: "reachable s \<Longrightarrow> dash_reachable s"
proof (induction rule: reachable.induct)
  case init
  show ?case by (rule dash_reachable.init)
next
  case (step s s')
  then show ?case by (blast intro: dash_reachable.step dash_step.core)
qed

lemma ctrl_inv_owner_registered:
  assumes "ctrl_inv c" and "map_of (file_locations c) fname = Some e" and "(nid, a, p) \<in> set (owners e)"
  shows "nid \<in> fst ` set (registered_nodes c)"
proof -
  have "(fname, e) \<in> set (file_locations c)" using assms(2) by (rule map_of_SomeD)
  then have "entry_ok (registered_nodes c) e" using assms(1) by (auto simp: ctrl_inv_def owners_ok_def)
  then show ?thesis using assms(3) by (auto simp: entry_ok_def)
qed

subsection \<open>Properties of the console\<close>

text \<open>
  C17. The console's upload is the controller's announcement without its fan-out:
  when the owner is a registered node, the upload form leaves the controller in
  exactly the state \<^verbatim>\<open>AnnounceFile\<close> leaves it in, for an announcement from the
  address and port the registry holds for the owner.
\<close>

theorem upload_matches_announce:
  assumes "map_of (registered_nodes c) owner = Some e"
  shows "snd (upload_file fname owner True now c) =
           fst (snd (AnnounceFile owner (address e) (port e) fname now c))"
proof -
  have "owner \<in> fst ` set (registered_nodes c)" using assms by (rule map_of_SomeD_keys)
  then show ?thesis using assms by (simp add: upload_file_def AnnounceFile_def Let_def)
qed

theorem upload_matches_announce_witness:
  "snd (upload_file ''notes.txt'' ''vm2'' True 200 \<lparr>registered_nodes = ex_regs, file_locations = ex_files\<rparr>) =
     fst (snd (AnnounceFile ''vm2'' ''127.0.0.1'' 5002 ''notes.txt'' 200
                 \<lparr>registered_nodes = ex_regs, file_locations = ex_files\<rparr>))"
  using upload_matches_announce [of "\<lparr>registered_nodes = ex_regs, file_locations = ex_files\<rparr>" "''vm2''"
      "\<lparr>address = ''127.0.0.1'', port = 5002, online = False, last_seen = 80\<rparr>" "''notes.txt''" 200]
  by simp

text \<open>
  C18. The console bypasses the registration guard: an upload naming an owner that
  is no registered node records that owner at the dummy location
  \<^verbatim>\<open>127.0.0.1:5001\<close>, and the resulting controller state violates the invariant
  that every RPC keeps (C11), so the console is a back door into states the
  controller's own handlers never reach.
\<close>

theorem upload_unregistered_breaks_invariant:
  assumes "owner \<notin> fst ` set (registered_nodes c)"
  shows "snd (upload_file fname owner True now c) =
           c\<lparr>file_locations := announce_entry fname (owner, ''127.0.0.1'', 5001) now (file_locations c)\<rparr> \<and>
         \<not> ctrl_inv (snd (upload_file fname owner True now c))"
proof -
  have eq: "snd (upload_file fname owner True now c) =
           c\<lparr>file_locations := announce_entry fname (owner, ''127.0.0.1'', 5001) now (file_locations c)\<rparr>"
  proof -
    have "map_of (registered_nodes c) owner = None" using assms by (simp add: map_of_None_keys)
    then show ?thesis by (simp add: upload_file_def)
  qed
  obtain e where e: "map_of (announce_entry fname (owner, ''127.0.0.1'', 5001) now (file_locations c)) fname = Some e"
    and o: "(owner, ''127.0.0.1'', 5001) \<in> set (owners e)"
    using announce_entry_owner by blast
  have "\<not> ctrl_inv (c\<lparr>file_locations := announce_entry fname (owner, ''127.0.0.1'', 5001) now (file_locations c)\<rparr>)"
  proof
    assume "ctrl_inv (c\<lparr>file_locations := announce_entry fname (owner, ''127.0.0.1'', 5001) now (file_locations c)\<rparr>)"
    from ctrl_inv_owner_registered [OF this _ o] e
    show False using assms by simp
  qed
  with eq show ?thesis by simp
qed

theorem upload_unregistered_breaks_invariant_witness:
  "dash_reachable (init_system\<lparr>ctrl := snd (upload_file ''f'' ''ghost'' True 0 (ctrl init_system))\<rparr>) \<and>
   \<not> ctrl_inv (snd (upload_file ''f'' ''ghost'' True 0 (ctrl init_system)))"
proof
  have "dash_step init_system
          (init_system\<lparr>ctrl := snd (upload_file ''f'' ''ghost'' True \<lfloor>clock init_system\<rfloor> (ctrl init_system))\<rparr>)"
    by (rule dash_step.upload)
  then show "dash_reachable (init_system\<lparr>ctrl := snd (upload_file ''f'' ''ghost'' True 0 (ctrl init_system))\<rparr>)"
    by (auto simp: init_system_def intro: dash_reachable.step dash_reachable.init)
  show "\<not> ctrl_inv (snd (upload_file ''f'' ''ghost'' True 0 (ctrl init_system)))"
  proof -
    have "''ghost'' \<notin> fst ` set (registered_nodes (ctrl init_system))" by (simp add: init_system_def)
    from conjunct2 [OF upload_unregistered_breaks_invariant [OF this, of "''f''" 0]] show ?thesis .
  qed
qed

text \<open>
  C19. The console's download ignores liveness: whether it serves a file depends on
  the directory's keys alone, not on the registry, so it serves a file that
  \<^verbatim>\<open>ListFiles\<close> hides because every owner is offline; and what it serves is
  the dummy text, never an owner's bytes.
\<close>

theorem download_ignores_liveness:
  assumes "dict_wf (file_locations c)"
    and "map_of (file_locations c) fname = Some info"
    and "\<not> has_online_owner (registered_nodes c) info"
  shows "fname \<notin> set (ListFiles (registered_nodes c) (file_locations c)) \<and>
         GetFileLocations (registered_nodes c) (file_locations c) fname = [] \<and>
         download_file fname c =
           D_Attachment fname (''Dummy content of '' @ fname @ '' (not actual file data)'')"
proof (intro conjI)
  have mem: "(fname, info) \<in> set (file_locations c)" using assms(2) by (rule map_of_SomeD)
  show "fname \<notin> set (ListFiles (registered_nodes c) (file_locations c))"
  proof
    assume "fname \<in> set (ListFiles (registered_nodes c) (file_locations c))"
    then obtain info' where "(fname, info') \<in> set (file_locations c)"
      and on: "has_online_owner (registered_nodes c) info'"
      by (auto simp: set_ListFiles)
    then have "info' = info" using mem assms(1) by (metis eq_key_imp_eq_value)
    then show False using on assms(3) by simp
  qed
  show "GetFileLocations (registered_nodes c) (file_locations c) fname = []"
    using GetFileLocations_nonempty [of "registered_nodes c" "file_locations c" fname] assms(2,3)
    by simp
  show "download_file fname c =
           D_Attachment fname (''Dummy content of '' @ fname @ '' (not actual file data)'')"
    using mem by (force simp: download_file_def)
qed

theorem download_ignores_liveness_witness:
  "download_file ''old.txt'' \<lparr>registered_nodes = ex_regs, file_locations = ex_files\<rparr> =
     D_Attachment ''old.txt'' (''Dummy content of old.txt (not actual file data)'') \<and>
   ListFiles ex_regs ex_files = [''notes.txt'']"
proof -
  have "dict_wf (file_locations \<lparr>registered_nodes = ex_regs, file_locations = ex_files\<rparr>)" by simp
  moreover have "map_of (file_locations \<lparr>registered_nodes = ex_regs, file_locations = ex_files\<rparr>) ''old.txt'' =
      Some \<lparr>owners = [(''vm2'', ''127.0.0.1'', 5002)], upload_time = 80\<rparr>" by simp
  moreover have "\<not> has_online_owner (registered_nodes \<lparr>registered_nodes = ex_regs, file_locations = ex_files\<rparr>)
      \<lparr>owners = [(''vm2'', ''127.0.0.1'', 5002)], upload_time = 80\<rparr>"
    by (simp add: has_online_owner_def node_online_def)
  ultimately have "download_file ''old.txt'' \<lparr>registered_nodes = ex_regs, file_locations = ex_files\<rparr> =
     D_Attachment ''old.txt'' (''Dummy content of '' @ ''old.txt'' @ '' (not actual file data)'')"
    by (rule download_ignores_liveness [THEN conjunct2, THEN conjunct2])
  then show ?thesis by (simp add: node_online_def)
qed

end
