(* ===== verification/TermParse.thy ===== *)
theory TermParse
  imports Prelude
begin

text \<open>
  The command line of the node terminal (\<^verbatim>\<open>run_node\<close> in \<^verbatim>\<open>node.py\<close>,
  lines 92--95 and the tests of the \<^verbatim>\<open>if\<close>/\<^verbatim>\<open>elif\<close> chain): the line read by
  \<^verbatim>\<open>input()\<close> is cut into words by \<^verbatim>\<open>strip().split()\<close>, an empty line is skipped,
  and the first word, lowered, selects the command; a command that needs a file name
  and has none falls through to \<^verbatim>\<open>Unknown command\<close>, extra words are ignored.
  Python's \<^verbatim>\<open>str.split()\<close> and \<^verbatim>\<open>str.lower()\<close> are modelled on the code points
  below 256 (Isabelle's \<open>char\<close>): \<open>py_isspace\<close> is \<^verbatim>\<open>str.isspace\<close> there, including
  the separators \<^verbatim>\<open>\x1c\<close>--\<^verbatim>\<open>\x1f\<close>, \<^verbatim>\<open>\x85\<close> and \<^verbatim>\<open>\xa0\<close>, and
  \<open>py_lower_char\<close> lowers \<^verbatim>\<open>A\<close>--\<^verbatim>\<open>Z\<close> and the Latin-1 capitals.
  The lemmas show that joining words with blanks and splitting gives them back, and
  that every command line written as the help text shows it parses to its command
  whatever the case of the keyword.
\<close>

definition py_isspace :: "char \<Rightarrow> bool" where
  "py_isspace c \<longleftrightarrow>
     c \<in> set [CHR 0x09, CHR 0x0A, CHR 0x0B, CHR 0x0C, CHR 0x0D, CHR 0x1C, CHR 0x1D, CHR 0x1E,
              CHR 0x1F, CHR 0x20, CHR 0x85, CHR 0xA0]"

text \<open>\<^verbatim>\<open>str.split()\<close>: \<open>cur\<close> is the word being read, reversed.\<close>

fun split_acc :: "string \<Rightarrow> string \<Rightarrow> string list" where
  "split_acc cur [] = (if cur = [] then [] else [rev cur])"
| "split_acc cur (c # cs) =
     (if py_isspace c then (if cur = [] then split_acc [] cs else rev cur # split_acc [] cs)
      else split_acc (c # cur) cs)"

definition py_split :: "string \<Rightarrow> string list" where
  "py_split s = split_acc [] s"

definition py_strip :: "string \<Rightarrow> string" where
  "py_strip s = rev (dropWhile py_isspace (rev (dropWhile py_isspace s)))"

definition py_lower_char :: "char \<Rightarrow> char" where
  "py_lower_char c =
     (let n = of_char c :: nat
      in if (65 \<le> n \<and> n \<le> 90) \<or> (192 \<le> n \<and> n \<le> 222 \<and> n \<noteq> 215) then char_of (n + 32) else c)"

definition py_lower :: "string \<Rightarrow> string" where
  "py_lower s = map py_lower_char s"

datatype command =
    Cmd_Exit | Cmd_Help | Cmd_Ls
  | Cmd_Cat string | Cmd_Create string | Cmd_Modify string | Cmd_Delete string
  | Cmd_Upload string | Cmd_Download string
  | Cmd_List | Cmd_Unknown

text \<open>The dispatch on \<^verbatim>\<open>action = cmd[0].lower()\<close>; \<open>None\<close> is the \<^verbatim>\<open>continue\<close>
  on an empty line.\<close>

fun parse_command :: "string list \<Rightarrow> command option" where
  "parse_command [] = None"
| "parse_command (w # args) =
     (let action = py_lower w in
      Some (if action = ''exit'' then Cmd_Exit
            else if action = ''help'' then Cmd_Help
            else if action = ''ls'' then Cmd_Ls
            else if action = ''cat'' \<and> args \<noteq> [] then Cmd_Cat (hd args)
            else if action = ''create'' \<and> args \<noteq> [] then Cmd_Create (hd args)
            else if action = ''modify'' \<and> args \<noteq> [] then Cmd_Modify (hd args)
            else if action = ''delete'' \<and> args \<noteq> [] then Cmd_Delete (hd args)
            else if action = ''upload'' \<and> args \<noteq> [] then Cmd_Upload (hd args)
            else if action = ''download'' \<and> args \<noteq> [] then Cmd_Download (hd args)
            else if action = ''list'' then Cmd_List
            else Cmd_Unknown))"

definition read_command :: "string \<Rightarrow> command option" where
  "read_command line = parse_command (py_split (py_strip line))"

text \<open>The usage lines of the \<^verbatim>\<open>help\<close> text: the keyword and the file name.\<close>

fun command_words :: "command \<Rightarrow> string list" where
  "command_words Cmd_Exit = [''exit'']"
| "command_words Cmd_Help = [''help'']"
| "command_words Cmd_Ls = [''ls'']"
| "command_words (Cmd_Cat f) = [''cat'', f]"
| "command_words (Cmd_Create f) = [''create'', f]"
| "command_words (Cmd_Modify f) = [''modify'', f]"
| "command_words (Cmd_Delete f) = [''delete'', f]"
| "command_words (Cmd_Upload f) = [''upload'', f]"
| "command_words (Cmd_Download f) = [''download'', f]"
| "command_words Cmd_List = [''list'']"
| "command_words Cmd_Unknown = [''?'']"

fun command_arg :: "command \<Rightarrow> string option" where
  "command_arg (Cmd_Cat f) = Some f"
| "command_arg (Cmd_Create f) = Some f"
| "command_arg (Cmd_Modify f) = Some f"
| "command_arg (Cmd_Delete f) = Some f"
| "command_arg (Cmd_Upload f) = Some f"
| "command_arg (Cmd_Download f) = Some f"
| "command_arg _ = None"

text \<open>\<^verbatim>\<open>' '.join(words)\<close>.\<close>

fun join_words :: "string list \<Rightarrow> string" where
  "join_words [] = []"
| "join_words [w] = w"
| "join_words (w # ws) = w @ CHR '' '' # join_words ws"

definition is_word :: "string \<Rightarrow> bool" where
  "is_word w \<longleftrightarrow> w \<noteq> [] \<and> (\<forall>c \<in> set w. \<not> py_isspace c)"

subsection \<open>Lemmas\<close>

lemma split_acc_word:
  "\<forall>c \<in> set w. \<not> py_isspace c \<Longrightarrow> split_acc cur (w @ s) = split_acc (rev w @ cur) s"
  by (induction w arbitrary: cur) auto

lemma split_acc_spaces:
  "\<forall>c \<in> set t. py_isspace c \<Longrightarrow> split_acc cur (s @ t) = split_acc cur s"
proof (induction s arbitrary: cur)
  case Nil
  then show ?case by (induction t arbitrary: cur) auto
next
  case (Cons c s)
  then show ?case by (cases "py_isspace c") simp_all
qed

lemma split_acc_dropWhile: "split_acc [] (dropWhile py_isspace s) = split_acc [] s"
  by (induction s) auto

lemma split_acc_intercalate:
  "\<forall>w \<in> set ws. is_word w \<Longrightarrow> split_acc [] (join_words ws) = ws"
proof (induction ws rule: induct_list012)
  case 1
  then show ?case by simp
next
  case (2 w)
  then show ?case using split_acc_word [of w "[]" "[]"] by (simp add: is_word_def)
next
  case (3 w v ws)
  have sp: "py_isspace (CHR '' '')" by (simp add: py_isspace_def)
  have "split_acc [] (join_words (w # v # ws)) = split_acc (rev w) (CHR '' '' # join_words (v # ws))"
    using "3.prems" split_acc_word [of w "[]"] by (simp add: is_word_def)
  also have "\<dots> = w # split_acc [] (join_words (v # ws))"
    using "3.prems" sp by (simp add: is_word_def)
  finally show ?case using "3.IH"(2) "3.prems" by simp
qed

lemma dropWhile_rev_split:
  "u = rev (dropWhile P (rev u)) @ rev (takeWhile P (rev u))"
  by (metis rev_append rev_rev_ident takeWhile_dropWhile_id)

lemma py_split_strip_eq: "py_split (py_strip s) = py_split s"
proof -
  let ?u = "dropWhile py_isspace s"
  have sp: "\<forall>c \<in> set (rev (takeWhile py_isspace (rev ?u))). py_isspace c"
    by (auto dest: set_takeWhileD)
  have "split_acc [] (py_strip s) = split_acc [] (py_strip s @ rev (takeWhile py_isspace (rev ?u)))"
    using split_acc_spaces [OF sp] by simp
  also have "\<dots> = split_acc [] ?u"
    using dropWhile_rev_split [of ?u py_isspace] by (simp add: py_strip_def)
  also have "\<dots> = split_acc [] s" by (rule split_acc_dropWhile)
  finally show ?thesis by (simp add: py_split_def)
qed

lemma py_lower_char_space: "py_isspace c \<Longrightarrow> py_lower_char c = c"
  by (auto simp: py_isspace_def py_lower_char_def)

lemma py_lower_word:
  assumes "py_lower kw = w" and "is_word w"
  shows "is_word kw"
proof -
  have "kw \<noteq> []" using assms by (auto simp: py_lower_def is_word_def)
  moreover have "\<not> py_isspace c" if "c \<in> set kw" for c
  proof
    assume "py_isspace c"
    then have "py_lower_char c \<in> set w" using that assms(1) by (force simp: py_lower_def py_lower_char_space)
    then show False using \<open>py_isspace c\<close> assms(2) py_lower_char_space by (auto simp: is_word_def)
  qed
  ultimately show ?thesis by (simp add: is_word_def)
qed

lemma read_command_words:
  "\<forall>w \<in> set ws. is_word w \<Longrightarrow> read_command (join_words ws) = parse_command ws"
  unfolding read_command_def py_split_strip_eq by (simp add: py_split_def split_acc_intercalate)

subsection \<open>Properties of the command line\<close>

text \<open>
  C20. Command-line round trip: a line made of the keyword of a command, in any case,
  followed by its file name when it takes one, the words separated by blanks, is read
  back by \<^verbatim>\<open>strip().split()\<close> and the dispatch as exactly that command.
\<close>

theorem command_line_roundtrip:
  assumes "c \<noteq> Cmd_Unknown"
    and "\<forall>f. command_arg c = Some f \<longrightarrow> is_word f"
    and "py_lower kw = hd (command_words c)"
  shows "read_command (join_words (kw # tl (command_words c))) = Some c"
proof -
  have kw: "is_word (hd (command_words c))"
    by (cases c) (simp_all add: is_word_def py_isspace_def)
  have "is_word kw" using py_lower_word [OF assms(3) kw] .
  then have "\<forall>w \<in> set (kw # tl (command_words c)). is_word w"
    using assms(2) by (cases c) simp_all
  then have "read_command (join_words (kw # tl (command_words c))) = parse_command (kw # tl (command_words c))"
    by (rule read_command_words)
  also have "\<dots> = Some c"
    using assms(1,3) by (cases c) simp_all
  finally show ?thesis .
qed

theorem command_line_roundtrip_witness:
  "read_command (join_words [''DownLoad'', ''notes.txt'']) = Some (Cmd_Download ''notes.txt'')"
proof -
  have "py_lower ''DownLoad'' = hd (command_words (Cmd_Download ''notes.txt''))"
    by code_simp
  moreover have "\<forall>f. command_arg (Cmd_Download ''notes.txt'') = Some f \<longrightarrow> is_word f"
    by (simp add: is_word_def py_isspace_def)
  ultimately show ?thesis
    using command_line_roundtrip [of "Cmd_Download ''notes.txt''" "''DownLoad''"] by simp
qed

end
