(* ===== verification/NodeTerminal.thy ===== *)
theory NodeTerminal
  imports Controller TermParse
begin

text \<open>
  The node process (\<^verbatim>\<open>run_node\<close> in \<^verbatim>\<open>node.py\<close>, lines 58--224): it binds its
  peer service, registers with the controller, starts the heartbeat thread and runs
  the operator's command loop. The node's working directory is the file map its peer
  service serves, \<open>peers s (host, port)\<close>, so the terminal and the peer service share
  it as they share the directory on disk.
  \<open>rpc_call\<close> is a blocking stub call to the controller: the handler runs on the
  controller's tables, the fan-out calls of an announcement are made until the first
  hung link, and the caller gets the answer only when none hangs (\<open>None\<close>: the call
  never returns). \<open>node_boot\<close> is lines 60--74 with the bind failure as an error
  value, \<open>node_heartbeat\<close> one iteration of \<^verbatim>\<open>heartbeat_loop\<close>, \<open>node_cmd\<close> one
  iteration of the command loop for a parsed command: \<open>i\<close> is the index
  \<^verbatim>\<open>random.choice\<close> picks among the locations, \<open>text\<close> the line a second
  \<^verbatim>\<open>input()\<close> reads for \<^verbatim>\<open>create\<close> and \<^verbatim>\<open>modify\<close>; an output \<open>None\<close> means the
  terminal blocks forever in a call without timeout. Printing and \<^verbatim>\<open>time.sleep(1)\<close>
  change no state and are not modelled; the terminal's \<^verbatim>\<open>now\<close> only appears in
  messages. \<open>world_step\<close> runs terminals, heartbeat threads and the system's own
  events (\<open>sys_step\<close>) side by side.
  The lemmas show that every terminal action is a sequence of system steps (so the
  controller's invariant holds in every world), what each command does on each
  branch, that a successful download writes the bytes an online owner serves, and
  that an upload of a missing file makes no call.
\<close>

record node_term =
  term_id :: node_id
  term_host :: string
  term_port :: int
  created_files :: "string list"
  downloaded_files :: "string list"
  uploaded_files :: "string list"

definition node_endpoint :: "node_term \<Rightarrow> endpoint" where
  "node_endpoint t = (term_host t, term_port t)"

datatype term_out =
    O_Exiting                   \<comment> \<open>\<^verbatim>\<open>Exiting...\<close>, \<^verbatim>\<open>Node is offline!\<close>\<close>
  | O_Help
  | O_Ls "string list"          \<comment> \<open>\<^verbatim>\<open>Files created in this VM:\<close>\<close>
  | O_NoSuchFile string         \<comment> \<open>\<^verbatim>\<open>File '{f}' does not exist.\<close>\<close>
  | O_Cat string string         \<comment> \<open>\<^verbatim>\<open>--- {f} ---\<close> and the lines\<close>
  | O_AlreadyExists             \<comment> \<open>\<^verbatim>\<open>File already exists.\<close>\<close>
  | O_Created string
  | O_DoesNotExist              \<comment> \<open>\<^verbatim>\<open>File does not exist.\<close>\<close>
  | O_Modified string
  | O_Deleted string
  | O_Uploaded response         \<comment> \<open>\<^verbatim>\<open>Done in ...\<close> and the controller's message\<close>
  | O_NotFoundLocally
  | O_NoNodeHasFile
  | O_Downloaded string
  | O_PeerNotFound              \<comment> \<open>\<^verbatim>\<open>File not found on peer node.\<close>\<close>
  | O_DownloadFailed            \<comment> \<open>\<^verbatim>\<open>Download failed:\<close>, an \<^verbatim>\<open>RpcError\<close>\<close>
  | O_CloudFiles "string list"  \<comment> \<open>\<^verbatim>\<open>Files on cloud:\<close>\<close>
  | O_Unknown

datatype boot_error = BindFailed

definition rpc_call :: "(endpoint \<Rightarrow> link) \<Rightarrow> rpc \<Rightarrow> system \<Rightarrow> response option \<times> system" where
  "rpc_call net req s =
     (let (r, c', cs) = handle req \<lfloor>clock s\<rfloor> (ctrl s);
          made = takeWhile (\<lambda>(nid, ep). net ep \<noteq> Hung) cs
      in case notify_peers net (fst (notify_payload req)) (snd (notify_payload req)) made (peers s) of
           None \<Rightarrow> (None, s)
         | Some (ps', out) \<Rightarrow> (if made = cs then Some r else None, s\<lparr>ctrl := c', peers := ps'\<rparr>))"

definition serve_node_file_service :: "string \<Rightarrow> int \<Rightarrow> node_fs \<Rightarrow> system \<Rightarrow> boot_error + system" where
  "serve_node_file_service host p fs s =
     (if peers s (host, p) \<noteq> None then Inl BindFailed
      else Inr (s\<lparr>peers := (peers s)((host, p) \<mapsto> fs)\<rparr>))"

definition node_boot ::
  "(endpoint \<Rightarrow> link) \<Rightarrow> node_id \<Rightarrow> string \<Rightarrow> int \<Rightarrow> node_fs \<Rightarrow> system \<Rightarrow> boot_error + node_term \<times> system" where
  "node_boot net nid host p fs s =
     (case serve_node_file_service host p fs s of
        Inl err \<Rightarrow> Inl err
      | Inr s1 \<Rightarrow>
          (let (r, s2) = rpc_call net (Req_RegisterNode nid host p) s1
           in Inr (\<lparr>term_id = nid, term_host = host, term_port = p,
                    created_files = [], downloaded_files = [], uploaded_files = []\<rparr>, s2)))"

definition node_heartbeat :: "(endpoint \<Rightarrow> link) \<Rightarrow> node_term \<Rightarrow> system \<Rightarrow> system" where
  "node_heartbeat net t s = snd (rpc_call net (Req_Heartbeat (term_id t) (term_host t) (term_port t)) s)"

definition set_local :: "node_term \<Rightarrow> node_fs \<Rightarrow> system \<Rightarrow> system" where
  "set_local t fs s = s\<lparr>peers := (peers s)(node_endpoint t \<mapsto> fs)\<rparr>"

text \<open>The \<^verbatim>\<open>download\<close> branch after the locations are known.\<close>

definition fetch ::
  "(endpoint \<Rightarrow> link) \<Rightarrow> nat \<Rightarrow> string \<Rightarrow> location list \<Rightarrow> node_term \<Rightarrow> node_fs \<Rightarrow> system \<Rightarrow>
   term_out option \<times> node_term \<times> system" where
  "fetch net i fname locs t fs s =
     (if locs = [] then (Some O_NoNodeHasFile, t, s)
      else
        (let (nid, a, p) = locs ! (i mod length locs)
         in case net (a, p) of
              Hung \<Rightarrow> (None, t, s)
            | Down \<Rightarrow> (Some O_DownloadFailed, t, s)
            | Up \<Rightarrow>
                (case peers s (a, p) of
                   None \<Rightarrow> (Some O_DownloadFailed, t, s)
                 | Some pfs \<Rightarrow>
                     (case DownloadFile pfs fname of
                        Inl err \<Rightarrow> (Some O_DownloadFailed, t, s)
                      | Inr (lname, data) \<Rightarrow>
                          (if lname = [] then (Some O_PeerNotFound, t, s)
                           else (Some (O_Downloaded fname),
                                 t\<lparr>created_files := List.insert lname (created_files t)\<rparr>,
                                 set_local t (fs(lname \<mapsto> data)) s))))))"

primrec node_cmd ::
  "(endpoint \<Rightarrow> link) \<Rightarrow> nat \<Rightarrow> string \<Rightarrow> command \<Rightarrow> node_term \<Rightarrow> node_fs \<Rightarrow> system \<Rightarrow>
   term_out option \<times> node_term \<times> system" where
  "node_cmd net i text Cmd_Exit t fs s =
     (let (r, s') = rpc_call net (Req_SetOffline (term_id t)) s in (Some O_Exiting, t, s'))"
| "node_cmd net i text Cmd_Help t fs s = (Some O_Help, t, s)"
| "node_cmd net i text Cmd_Ls t fs s = (Some (O_Ls (created_files t)), t, s)"
| "node_cmd net i text (Cmd_Cat f) t fs s =
     (case fs f of None \<Rightarrow> (Some (O_NoSuchFile f), t, s) | Some d \<Rightarrow> (Some (O_Cat f d), t, s))"
| "node_cmd net i text (Cmd_Create f) t fs s =
     (if fs f \<noteq> None then (Some O_AlreadyExists, t, s)
      else (Some (O_Created f), t\<lparr>created_files := List.insert f (created_files t)\<rparr>,
            set_local t (fs(f \<mapsto> text)) s))"
| "node_cmd net i text (Cmd_Modify f) t fs s =
     (if fs f = None then (Some O_DoesNotExist, t, s)
      else (Some (O_Modified f), t, set_local t (fs(f \<mapsto> text)) s))"
| "node_cmd net i text (Cmd_Delete f) t fs s =
     (if fs f = None then (Some O_DoesNotExist, t, s)
      else (Some (O_Deleted f), t\<lparr>created_files := removeAll f (created_files t)\<rparr>,
            set_local t (fs(f := None)) s))"
| "node_cmd net i text (Cmd_Upload f) t fs s =
     (if fs f = None then (Some O_NotFoundLocally, t, s)
      else
        (let (r, s') = rpc_call net (Req_AnnounceFile (term_id t) (term_host t) (term_port t) f) s
         in case r of
              None \<Rightarrow> (None, t, s')
            | Some resp \<Rightarrow> (Some (O_Uploaded resp), t\<lparr>uploaded_files := List.insert f (uploaded_files t)\<rparr>, s')))"
| "node_cmd net i text (Cmd_Download f) t fs s =
     fetch net i f (GetFileLocations (registered_nodes (ctrl s)) (file_locations (ctrl s)) f) t fs s"
| "node_cmd net i text Cmd_List t fs s =
     (Some (O_CloudFiles (ListFiles (registered_nodes (ctrl s)) (file_locations (ctrl s)))), t, s)"
| "node_cmd net i text Cmd_Unknown t fs s = (Some O_Unknown, t, s)"

datatype term_state = Running node_term | Blocked node_term

fun term_of :: "term_state \<Rightarrow> node_term" where
  "term_of (Running t) = t"
| "term_of (Blocked t) = t"

text \<open>
  The end of a node process: on \<^verbatim>\<open>KeyboardInterrupt\<close> \<^verbatim>\<open>run_node\<close> stops its
  file server (lines 220--224); after \<^verbatim>\<open>exit\<close> it returns and the process ends, which
  stops the server as well. Either way the peer service and the terminal are gone.
\<close>

record world =
  wsys :: system
  terms :: "endpoint \<rightharpoonup> term_state"

definition node_shutdown :: "endpoint \<Rightarrow> world \<Rightarrow> world" where
  "node_shutdown ep w =
     \<lparr>wsys = (wsys w)\<lparr>peers := (peers (wsys w))(ep := None)\<rparr>, terms = (terms w)(ep := None)\<rparr>"

definition init_world :: world where
  "init_world = \<lparr>wsys = init_system, terms = Map.empty\<rparr>"

inductive world_step :: "world \<Rightarrow> world \<Rightarrow> bool" where
  env: "sys_step (wsys w) s' \<Longrightarrow> world_step w (w\<lparr>wsys := s'\<rparr>)"
| boot: "terms w (host, p) = None \<Longrightarrow> node_boot net nid host p fs (wsys w) = Inr (t, s') \<Longrightarrow>
         world_step w \<lparr>wsys = s', terms = (terms w)((host, p) \<mapsto> Running t)\<rparr>"
| cmd: "terms w ep = Some (Running t) \<Longrightarrow> peers (wsys w) ep = Some fs \<Longrightarrow> c \<noteq> Cmd_Exit \<Longrightarrow>
        node_cmd net i text c t fs (wsys w) = (out, t', s') \<Longrightarrow>
        world_step w \<lparr>wsys = s', terms = (terms w)(ep \<mapsto> (if out = None then Blocked t' else Running t'))\<rparr>"
| quit: "terms w ep = Some (Running t) \<Longrightarrow> peers (wsys w) ep = Some fs \<Longrightarrow>
         node_cmd net i text Cmd_Exit t fs (wsys w) = (out, t', s') \<Longrightarrow>
         world_step w (node_shutdown ep (w\<lparr>wsys := s'\<rparr>))"
| interrupt: "terms w ep = Some ts \<Longrightarrow>
              world_step w (node_shutdown ep w)"
| heartbeat: "terms w ep = Some ts \<Longrightarrow> world_step w (w\<lparr>wsys := node_heartbeat net (term_of ts) (wsys w)\<rparr>)"

inductive world_reachable :: "world \<Rightarrow> bool" where
  init: "world_reachable init_world"
| step: "world_reachable w \<Longrightarrow> world_step w w' \<Longrightarrow> world_reachable w'"

subsection \<open>Every terminal action is a sequence of system steps\<close>

lemmas node_boot_unfold = node_boot_def serve_node_file_service_def

lemma notify_peers_made:
  "notify_peers net fname rid (takeWhile (\<lambda>(nid, ep). net ep \<noteq> Hung) cs) ps \<noteq> None"
  unfolding notify_peers_Some_iff by (auto dest: set_takeWhileD)

lemma rpc_call_eq:
  obtains ps' out where
    "handle req \<lfloor>clock s\<rfloor> (ctrl s) = (fst (handle req \<lfloor>clock s\<rfloor> (ctrl s)),
       fst (snd (handle req \<lfloor>clock s\<rfloor> (ctrl s))), snd (snd (handle req \<lfloor>clock s\<rfloor> (ctrl s))))"
    "notify_peers net (fst (notify_payload req)) (snd (notify_payload req))
       (takeWhile (\<lambda>(nid, ep). net ep \<noteq> Hung) (snd (snd (handle req \<lfloor>clock s\<rfloor> (ctrl s))))) (peers s) =
       Some (ps', out)"
    "rpc_call net req s =
       (if takeWhile (\<lambda>(nid, ep). net ep \<noteq> Hung) (snd (snd (handle req \<lfloor>clock s\<rfloor> (ctrl s)))) =
           snd (snd (handle req \<lfloor>clock s\<rfloor> (ctrl s)))
        then Some (fst (handle req \<lfloor>clock s\<rfloor> (ctrl s))) else None,
        s\<lparr>ctrl := fst (snd (handle req \<lfloor>clock s\<rfloor> (ctrl s))), peers := ps'\<rparr>)"
proof -
  obtain r c' cs where h: "handle req \<lfloor>clock s\<rfloor> (ctrl s) = (r, c', cs)" by (metis prod_cases3)
  obtain ps' out where n: "notify_peers net (fst (notify_payload req)) (snd (notify_payload req))
       (takeWhile (\<lambda>(nid, ep). net ep \<noteq> Hung) cs) (peers s) = Some (ps', out)"
    using notify_peers_made by fastforce
  show ?thesis
    by (rule that [of ps' out]) (simp_all add: h n rpc_call_def)
qed

lemma rpc_call_step: "sys_step s (snd (rpc_call net req s))"
proof -
  obtain ps' out where h: "handle req \<lfloor>clock s\<rfloor> (ctrl s) = (fst (handle req \<lfloor>clock s\<rfloor> (ctrl s)),
       fst (snd (handle req \<lfloor>clock s\<rfloor> (ctrl s))), snd (snd (handle req \<lfloor>clock s\<rfloor> (ctrl s))))"
    and n: "notify_peers net (fst (notify_payload req)) (snd (notify_payload req))
       (takeWhile (\<lambda>(nid, ep). net ep \<noteq> Hung) (snd (snd (handle req \<lfloor>clock s\<rfloor> (ctrl s))))) (peers s) =
       Some (ps', out)"
    and r: "rpc_call net req s =
       (if takeWhile (\<lambda>(nid, ep). net ep \<noteq> Hung) (snd (snd (handle req \<lfloor>clock s\<rfloor> (ctrl s)))) =
           snd (snd (handle req \<lfloor>clock s\<rfloor> (ctrl s)))
        then Some (fst (handle req \<lfloor>clock s\<rfloor> (ctrl s))) else None,
        s\<lparr>ctrl := fst (snd (handle req \<lfloor>clock s\<rfloor> (ctrl s))), peers := ps'\<rparr>)"
    by (rule rpc_call_eq)
  show ?thesis unfolding r snd_conv by (rule sys_step.rpc [OF h n])
qed

lemma set_local_step:
  "peers s (node_endpoint t) = Some fs0 \<Longrightarrow> sys_step s (set_local t fs s)"
  unfolding set_local_def by (rule sys_step.peer_local)

lemma reachable_steps: "sys_step\<^sup>*\<^sup>* s s' \<Longrightarrow> reachable s \<Longrightarrow> reachable s'"
  by (induction rule: rtranclp_induct) (auto intro: reachable.step)

lemma fetch_steps:
  "peers s (node_endpoint t) = Some fs \<Longrightarrow> fetch net i f locs t fs s = (out, t', s') \<Longrightarrow>
   sys_step\<^sup>*\<^sup>* s s'"
  by (auto simp: fetch_def Let_def set_local_step split: if_splits prod.splits link.splits option.splits sum.splits)

lemma node_cmd_steps:
  assumes "peers s (node_endpoint t) = Some fs" and "node_cmd net i text c t fs s = (out, t', s')"
  shows "sys_step\<^sup>*\<^sup>* s s'"
proof (cases c)
  case Cmd_Exit
  then show ?thesis using assms(2) rpc_call_step [of s net "Req_SetOffline (term_id t)"]
    by (auto split: prod.splits)
next
  case (Cmd_Upload f)
  then show ?thesis using assms rpc_call_step [of s net "Req_AnnounceFile (term_id t) (term_host t) (term_port t) f"]
    by (auto split: if_splits prod.splits option.splits)
next
  case (Cmd_Download f)
  then show ?thesis using assms fetch_steps by simp
qed (use assms set_local_step in \<open>auto split: if_splits option.splits\<close>)

lemma node_cmd_endpoint:
  "node_cmd net i text c t fs s = (out, t', s') \<Longrightarrow> node_endpoint t' = node_endpoint t"
  by (cases c) (auto simp: node_endpoint_def fetch_def Let_def
      split: if_splits prod.splits option.splits link.splits sum.splits)

lemma node_boot_steps:
  assumes "node_boot net nid host p fs s = Inr (t, s')"
  shows "sys_step\<^sup>*\<^sup>* s s' \<and> node_endpoint t = (host, p)"
proof -
  have free: "peers s (host, p) = None" using assms by (auto simp: node_boot_unfold split: if_splits)
  let ?s1 = "s\<lparr>peers := (peers s)((host, p) \<mapsto> fs)\<rparr>"
  have s': "s' = snd (rpc_call net (Req_RegisterNode nid host p) ?s1)"
    and t: "node_endpoint t = (host, p)"
    using assms free by (auto simp: node_boot_unfold node_endpoint_def split: prod.splits)
  have "sys_step s ?s1" using free by (rule sys_step.peer_start)
  moreover have "sys_step ?s1 s'" unfolding s' by (rule rpc_call_step)
  ultimately show ?thesis using t by auto
qed

subsection \<open>Calls and commands\<close>

lemma rpc_call_no_fanout:
  assumes "snd (snd (handle req \<lfloor>clock s\<rfloor> (ctrl s))) = []"
  shows "rpc_call net req s =
           (Some (fst (handle req \<lfloor>clock s\<rfloor> (ctrl s))), s\<lparr>ctrl := fst (snd (handle req \<lfloor>clock s\<rfloor> (ctrl s)))\<rparr>)"
proof -
  obtain r c' where "handle req \<lfloor>clock s\<rfloor> (ctrl s) = (r, c', [])"
    using assms by (metis prod.collapse)
  then show ?thesis by (simp add: rpc_call_def)
qed

lemma rpc_call_blocks:
  "(fst (rpc_call net req s) = None) =
     (\<exists>(nid, ep) \<in> set (snd (snd (handle req \<lfloor>clock s\<rfloor> (ctrl s)))). net ep = Hung)"
proof -
  obtain ps' out where
    "rpc_call net req s =
       (if takeWhile (\<lambda>(nid, ep). net ep \<noteq> Hung) (snd (snd (handle req \<lfloor>clock s\<rfloor> (ctrl s)))) =
           snd (snd (handle req \<lfloor>clock s\<rfloor> (ctrl s)))
        then Some (fst (handle req \<lfloor>clock s\<rfloor> (ctrl s))) else None,
        s\<lparr>ctrl := fst (snd (handle req \<lfloor>clock s\<rfloor> (ctrl s))), peers := ps'\<rparr>)"
    by (rule rpc_call_eq)
  then show ?thesis by (auto simp: takeWhile_eq_all_conv)
qed

lemma GetFileLocations_online:
  "(nid, a, p) \<in> set (GetFileLocations regs files f) \<Longrightarrow> node_online regs nid"
  by (auto simp: GetFileLocations_def split: option.splits)

lemma announce_calls:
  "snd (snd (AnnounceFile rid a p f now c)) =
     (if rid \<in> fst ` set (registered_nodes c) then fanout_targets rid (registered_nodes c) else [])"
  by (simp add: AnnounceFile_def Let_def)

lemma nth_mod_mem: "xs \<noteq> [] \<Longrightarrow> xs ! (i mod length xs) \<in> set xs"
  by simp

subsection \<open>Properties of the node process\<close>

abbreviation ex_boot_sys :: system where
  "ex_boot_sys \<equiv> \<lparr>ctrl = \<lparr>registered_nodes = [(''vm1'', ex_node 5001 True\<lparr>last_seen := 0\<rparr>)], file_locations = []\<rparr>,
                  peers = [(''127.0.0.1'', 5001) \<mapsto> [''notes.txt'' \<mapsto> ''hi'']], clock = 0\<rparr>"

abbreviation ex_vm1_term :: node_term where
  "ex_vm1_term \<equiv> \<lparr>term_id = ''vm1'', term_host = ''127.0.0.1'', term_port = 5001,
                   created_files = [], downloaded_files = [], uploaded_files = []\<rparr>"

text \<open>
  C21. Download round trip: when \<^verbatim>\<open>download f\<close> reports success, the bytes written
  locally under \<open>f\<close> are exactly the bytes that an owner of \<open>f\<close>, online at the
  controller, holds under \<open>f\<close>; the local copy then serves \<open>f\<close> as that owner does,
  the file is counted as created in this VM, and the controller's tables are untouched.
\<close>

theorem download_roundtrip:
  assumes "node_cmd net i inp (Cmd_Download f) t fs s = (Some (O_Downloaded f), t', s')"
  shows "\<exists>nid a p pfs d.
           (nid, a, p) \<in> set (GetFileLocations (registered_nodes (ctrl s)) (file_locations (ctrl s)) f) \<and>
           node_online (registered_nodes (ctrl s)) nid \<and>
           peers s (a, p) = Some pfs \<and> pfs f = Some d \<and>
           peers s' (node_endpoint t) = Some (fs(f \<mapsto> d)) \<and>
           DownloadFile (fs(f \<mapsto> d)) f = DownloadFile pfs f \<and>
           f \<in> set (created_files t') \<and> ctrl s' = ctrl s"
proof -
  let ?locs = "GetFileLocations (registered_nodes (ctrl s)) (file_locations (ctrl s)) f"
  have fe: "fetch net i f ?locs t fs s = (Some (O_Downloaded f), t', s')" using assms by simp
  then have ne: "?locs \<noteq> []" by (auto simp: fetch_def)
  obtain nid a p where sel: "?locs ! (i mod length ?locs) = (nid, a, p)" by (metis prod_cases3)
  have mem: "(nid, a, p) \<in> set ?locs" using nth_mod_mem [OF ne, of i] sel by simp
  have on: "node_online (registered_nodes (ctrl s)) nid" using mem by (rule GetFileLocations_online)
  obtain pfs d where pfs: "peers s (a, p) = Some pfs" and d: "pfs f = Some d"
    and s': "s' = set_local t (fs(f \<mapsto> d)) s" and t': "t' = t\<lparr>created_files := List.insert f (created_files t)\<rparr>"
    using fe ne sel
    by (auto simp: fetch_def DownloadFile_def split: link.splits option.splits if_splits)
  show ?thesis
    using mem on pfs d
    by (intro exI [of _ nid] exI [of _ a] exI [of _ p] exI [of _ pfs] exI [of _ d])
      (simp add: s' t' set_local_def DownloadFile_def)
qed

abbreviation ex_net_sys :: system where
  "ex_net_sys \<equiv> \<lparr>ctrl = \<lparr>registered_nodes = ex_regs, file_locations = ex_files\<rparr>,
                  peers = [(''127.0.0.1'', 5001) \<mapsto> [''notes.txt'' \<mapsto> ''hello''], (''127.0.0.1'', 5003) \<mapsto> Map.empty],
                  clock = 200\<rparr>"

abbreviation ex_vm3_term :: node_term where
  "ex_vm3_term \<equiv> \<lparr>term_id = ''vm3'', term_host = ''127.0.0.1'', term_port = 5003,
                   created_files = [], downloaded_files = [], uploaded_files = []\<rparr>"

theorem download_roundtrip_witness:
  "\<exists>nid a p pfs d.
     (nid, a, p) \<in> set (GetFileLocations ex_regs ex_files ''notes.txt'') \<and>
     node_online ex_regs nid \<and>
     peers ex_net_sys (a, p) = Some pfs \<and> pfs ''notes.txt'' = Some d \<and>
     peers (set_local ex_vm3_term [''notes.txt'' \<mapsto> ''hello''] ex_net_sys) (node_endpoint ex_vm3_term) =
       Some [''notes.txt'' \<mapsto> d] \<and>
     DownloadFile [''notes.txt'' \<mapsto> d] ''notes.txt'' = DownloadFile pfs ''notes.txt'' \<and>
     ''notes.txt'' \<in> set (created_files (ex_vm3_term\<lparr>created_files := [''notes.txt'']\<rparr>)) \<and>
     ctrl (set_local ex_vm3_term [''notes.txt'' \<mapsto> ''hello''] ex_net_sys) = ctrl ex_net_sys"
proof -
  have run: "node_cmd (\<lambda>_. Up) 0 [] (Cmd_Download ''notes.txt'') ex_vm3_term Map.empty ex_net_sys =
      (Some (O_Downloaded ''notes.txt''), ex_vm3_term\<lparr>created_files := [''notes.txt'']\<rparr>,
       set_local ex_vm3_term [''notes.txt'' \<mapsto> ''hello''] ex_net_sys)"
    by (simp add: fetch_def GetFileLocations_def node_online_def DownloadFile_def)
  from download_roundtrip [OF run] show ?thesis by simp
qed

lemma upload_call:
  assumes "fs f = Some d"
  shows "node_cmd net i inp (Cmd_Upload f) t fs s =
           (case fst (rpc_call net (Req_AnnounceFile (term_id t) (term_host t) (term_port t) f) s) of
              None \<Rightarrow> (None, t, snd (rpc_call net (Req_AnnounceFile (term_id t) (term_host t) (term_port t) f) s))
            | Some resp \<Rightarrow> (Some (O_Uploaded resp), t\<lparr>uploaded_files := List.insert f (uploaded_files t)\<rparr>,
                           snd (rpc_call net (Req_AnnounceFile (term_id t) (term_host t) (term_port t) f) s)))"
  using assms by (simp add: split_def Let_def)

text \<open>
  C22. Upload of a local file: when the node's id is registered and no notified peer
  hangs, \<^verbatim>\<open>upload f\<close> prints the controller's \<^verbatim>\<open>File f announced\<close> answer, records
  \<open>f\<close> as uploaded, leaves the registry as it was, and the directory then lists the
  node's own id, host and port among the owners of \<open>f\<close>.
\<close>

theorem upload_announces:
  assumes "fs f = Some d" and "term_id t \<in> fst ` set (registered_nodes (ctrl s))"
    and "\<forall>(nid, ep) \<in> set (fanout_targets (term_id t) (registered_nodes (ctrl s))). net ep \<noteq> Hung"
  shows "\<exists>s' e. node_cmd net i inp (Cmd_Upload f) t fs s =
             (Some (O_Uploaded (R_Announced f (term_id t) \<lfloor>clock s\<rfloor>)),
              t\<lparr>uploaded_files := List.insert f (uploaded_files t)\<rparr>, s') \<and>
           registered_nodes (ctrl s') = registered_nodes (ctrl s) \<and>
           map_of (file_locations (ctrl s')) f = Some e \<and>
           (term_id t, term_host t, term_port t) \<in> set (owners e)"
proof -
  let ?req = "Req_AnnounceFile (term_id t) (term_host t) (term_port t) f"
  have calls: "snd (snd (handle ?req \<lfloor>clock s\<rfloor> (ctrl s))) = fanout_targets (term_id t) (registered_nodes (ctrl s))"
    using assms(2) by (simp add: announce_calls)
  have ans: "fst (rpc_call net ?req s) = Some (R_Announced f (term_id t) \<lfloor>clock s\<rfloor>)"
  proof -
    obtain ps' out where
      r: "rpc_call net ?req s =
         (if takeWhile (\<lambda>(nid, ep). net ep \<noteq> Hung) (snd (snd (handle ?req \<lfloor>clock s\<rfloor> (ctrl s)))) =
             snd (snd (handle ?req \<lfloor>clock s\<rfloor> (ctrl s)))
          then Some (fst (handle ?req \<lfloor>clock s\<rfloor> (ctrl s))) else None,
          s\<lparr>ctrl := fst (snd (handle ?req \<lfloor>clock s\<rfloor> (ctrl s))), peers := ps'\<rparr>)"
      by (rule rpc_call_eq)
    show ?thesis
      using assms(2,3) unfolding r calls by (simp add: takeWhile_eq_all_conv AnnounceFile_def)
  qed
  have c': "ctrl (snd (rpc_call net ?req s)) = fst (snd (handle ?req \<lfloor>clock s\<rfloor> (ctrl s)))"
    by (rule rpc_call_eq [of ?req s net]) simp
  obtain e where e: "map_of (announce_entry f (term_id t, term_host t, term_port t) \<lfloor>clock s\<rfloor> (file_locations (ctrl s))) f = Some e"
    and o: "(term_id t, term_host t, term_port t) \<in> set (owners e)"
    using announce_entry_owner by blast
  have run: "node_cmd net i inp (Cmd_Upload f) t fs s =
      (Some (O_Uploaded (R_Announced f (term_id t) \<lfloor>clock s\<rfloor>)),
       t\<lparr>uploaded_files := List.insert f (uploaded_files t)\<rparr>, snd (rpc_call net ?req s))"
    unfolding upload_call [of fs f d, OF assms(1)] ans by simp
  show ?thesis
    using assms(2) e o
    by (intro exI [of _ "snd (rpc_call net ?req s)"] exI [of _ e])
      (simp only: run c' handle.simps AnnounceFile_def Let_def if_False if_True, simp)
qed

theorem upload_announces_witness:
  "fst (node_cmd (\<lambda>_. Up) 0 [] (Cmd_Upload ''notes.txt'') ex_vm1_term [''notes.txt'' \<mapsto> ''hi''] ex_boot_sys) =
     Some (O_Uploaded (R_Announced ''notes.txt'' ''vm1'' 0))"
proof -
  have a: "[''notes.txt'' \<mapsto> ''hi''] ''notes.txt'' = Some ''hi''" by simp
  have b: "term_id ex_vm1_term \<in> fst ` set (registered_nodes (ctrl ex_boot_sys))" by simp
  have c: "\<forall>(nid, ep) \<in> set (fanout_targets (term_id ex_vm1_term) (registered_nodes (ctrl ex_boot_sys))).
             (\<lambda>_. Up) ep \<noteq> Hung" by simp
  from upload_announces [of "[''notes.txt'' \<mapsto> ''hi'']" "''notes.txt''" "''hi''" ex_vm1_term ex_boot_sys
      "\<lambda>_. Up" 0 "[]", OF a b c]
  show ?thesis by auto
qed

text \<open>
  C23. The error branches of \<^verbatim>\<open>upload\<close>: a file that is not in the working
  directory makes no call and changes nothing (\<^verbatim>\<open>File not found locally\<close>); a node
  whose id the controller does not know gets \<^verbatim>\<open>Node not registered\<close>, the
  controller's tables and all peers stay as they were, but the terminal still records
  the file as uploaded.
\<close>

theorem upload_errors:
  "(fs f = None \<longrightarrow> node_cmd net i inp (Cmd_Upload f) t fs s = (Some O_NotFoundLocally, t, s)) \<and>
   (fs f \<noteq> None \<and> term_id t \<notin> fst ` set (registered_nodes (ctrl s)) \<longrightarrow>
      node_cmd net i inp (Cmd_Upload f) t fs s =
        (Some (O_Uploaded R_NodeNotRegistered), t\<lparr>uploaded_files := List.insert f (uploaded_files t)\<rparr>, s))"
proof (intro conjI impI)
  assume "fs f = None"
  then show "node_cmd net i inp (Cmd_Upload f) t fs s = (Some O_NotFoundLocally, t, s)" by simp
next
  assume h: "fs f \<noteq> None \<and> term_id t \<notin> fst ` set (registered_nodes (ctrl s))"
  let ?req = "Req_AnnounceFile (term_id t) (term_host t) (term_port t) f"
  have "handle ?req \<lfloor>clock s\<rfloor> (ctrl s) = (R_NodeNotRegistered, ctrl s, [])"
    using h by (simp add: AnnounceFile_def)
  then have "rpc_call net ?req s = (Some R_NodeNotRegistered, s)"
    using rpc_call_no_fanout [of ?req s net] by simp
  then show "node_cmd net i inp (Cmd_Upload f) t fs s =
        (Some (O_Uploaded R_NodeNotRegistered), t\<lparr>uploaded_files := List.insert f (uploaded_files t)\<rparr>, s)"
    using h by auto
qed

theorem upload_errors_witness:
  "node_cmd (\<lambda>_. Up) 0 [] (Cmd_Upload ''a.txt'') ex_vm1_term Map.empty ex_boot_sys =
     (Some O_NotFoundLocally, ex_vm1_term, ex_boot_sys) \<and>
   node_cmd (\<lambda>_. Up) 0 [] (Cmd_Upload ''notes.txt'') ex_vm1_term [''notes.txt'' \<mapsto> ''hi''] init_system =
     (Some (O_Uploaded R_NodeNotRegistered), ex_vm1_term\<lparr>uploaded_files := [''notes.txt'']\<rparr>, init_system)"
proof
  show "node_cmd (\<lambda>_. Up) 0 [] (Cmd_Upload ''a.txt'') ex_vm1_term Map.empty ex_boot_sys =
     (Some O_NotFoundLocally, ex_vm1_term, ex_boot_sys)"
    using upload_errors [of "Map.empty" "''a.txt''" "\<lambda>_. Up" 0 "[]" ex_vm1_term ex_boot_sys] by simp
  have "term_id ex_vm1_term \<notin> fst ` set (registered_nodes (ctrl init_system))"
    by (simp add: init_system_def)
  then show "node_cmd (\<lambda>_. Up) 0 [] (Cmd_Upload ''notes.txt'') ex_vm1_term [''notes.txt'' \<mapsto> ''hi''] init_system =
     (Some (O_Uploaded R_NodeNotRegistered), ex_vm1_term\<lparr>uploaded_files := [''notes.txt'']\<rparr>, init_system)"
    using upload_errors [of "[''notes.txt'' \<mapsto> ''hi'']" "''notes.txt''" "\<lambda>_. Up" 0 "[]" ex_vm1_term init_system]
    by simp
qed

text \<open>
  C24. \<^verbatim>\<open>exit\<close> takes the node out of the readers at once: after the command the
  controller holds the node's id as offline (or never knew it), no registered id is
  dropped, the directory is untouched, and no \<^verbatim>\<open>GetFileLocations\<close> answer lists a
  location of that id.
\<close>

theorem exit_sets_offline:
  "\<not> node_online (registered_nodes (ctrl (snd (snd (node_cmd net i inp Cmd_Exit t fs s))))) (term_id t) \<and>
   fst ` set (registered_nodes (ctrl (snd (snd (node_cmd net i inp Cmd_Exit t fs s))))) =
     fst ` set (registered_nodes (ctrl s)) \<and>
   file_locations (ctrl (snd (snd (node_cmd net i inp Cmd_Exit t fs s)))) = file_locations (ctrl s) \<and>
   (term_id t, a, p) \<notin> set (GetFileLocations (registered_nodes (ctrl (snd (snd (node_cmd net i inp Cmd_Exit t fs s)))))
                                (file_locations (ctrl (snd (snd (node_cmd net i inp Cmd_Exit t fs s))))) f)"
proof -
  let ?req = "Req_SetOffline (term_id t)"
  have r: "rpc_call net ?req s = (Some (fst (handle ?req \<lfloor>clock s\<rfloor> (ctrl s))),
             s\<lparr>ctrl := fst (snd (handle ?req \<lfloor>clock s\<rfloor> (ctrl s)))\<rparr>)"
    by (rule rpc_call_no_fanout) (simp add: split_def Let_def)
  have ctl: "fst (snd (handle ?req \<lfloor>clock s\<rfloor> (ctrl s))) =
      ctrl s\<lparr>registered_nodes := snd (SetOffline (term_id t) \<lfloor>clock s\<rfloor> (registered_nodes (ctrl s)))\<rparr>"
    by (simp add: split_def Let_def)
  have s': "snd (snd (node_cmd net i inp Cmd_Exit t fs s)) =
      s\<lparr>ctrl := ctrl s\<lparr>registered_nodes := snd (SetOffline (term_id t) \<lfloor>clock s\<rfloor> (registered_nodes (ctrl s)))\<rparr>\<rparr>"
    by (simp add: r split_def Let_def)
  have off: "\<not> node_online (snd (SetOffline (term_id t) \<lfloor>clock s\<rfloor> (registered_nodes (ctrl s)))) (term_id t)"
    by (auto simp: SetOffline_def node_online_def split: option.splits)
  show ?thesis
    unfolding s' using off registry_ops_keys(3) [of "term_id t" "\<lfloor>clock s\<rfloor>" "registered_nodes (ctrl s)"]
    by (auto dest: GetFileLocations_online)
qed

text \<open>
  C25. When the terminal hangs: a command leaves the terminal blocked forever exactly
  when it is an \<^verbatim>\<open>upload\<close> of a local file by a registered node and one of the
  online peers the controller then notifies hangs, or a \<^verbatim>\<open>download\<close> whose randomly
  chosen location hangs; every other command, on every branch, returns.
\<close>

theorem terminal_blocks_iff:
  "(fst (node_cmd net i inp c t fs s) = None) =
     ((\<exists>f. c = Cmd_Upload f \<and> fs f \<noteq> None \<and> term_id t \<in> fst ` set (registered_nodes (ctrl s)) \<and>
          (\<exists>(nid, ep) \<in> set (fanout_targets (term_id t) (registered_nodes (ctrl s))). net ep = Hung)) \<or>
      (\<exists>f. c = Cmd_Download f \<and>
          GetFileLocations (registered_nodes (ctrl s)) (file_locations (ctrl s)) f \<noteq> [] \<and>
          net (snd (GetFileLocations (registered_nodes (ctrl s)) (file_locations (ctrl s)) f !
                    (i mod length (GetFileLocations (registered_nodes (ctrl s)) (file_locations (ctrl s)) f)))) = Hung))"
proof (cases c)
  case (Cmd_Upload f)
  let ?req = "Req_AnnounceFile (term_id t) (term_host t) (term_port t) f"
  show ?thesis
  proof (cases "fs f")
    case None
    then show ?thesis using Cmd_Upload by simp
  next
    case (Some d)
    have "(fst (node_cmd net i inp c t fs s) = None) = (fst (rpc_call net ?req s) = None)"
      unfolding Cmd_Upload upload_call [of fs f d, OF Some] by (simp split: option.split)
    also have "\<dots> = (term_id t \<in> fst ` set (registered_nodes (ctrl s)) \<and>
          (\<exists>(nid, ep) \<in> set (fanout_targets (term_id t) (registered_nodes (ctrl s))). net ep = Hung))"
      unfolding rpc_call_blocks by (auto simp: announce_calls)
    finally show ?thesis using Cmd_Upload Some by simp
  qed
next
  case (Cmd_Download f)
  then show ?thesis
    by (auto simp: fetch_def Let_def split: prod.splits link.splits option.splits sum.splits)
qed (auto simp: split_def Let_def split: option.splits)

theorem terminal_blocks_iff_witness:
  "fst (node_cmd (\<lambda>ep. if ep = (''127.0.0.1'', 5001) then Hung else Up) 0 [] (Cmd_Download ''notes.txt'')
          ex_vm3_term Map.empty ex_net_sys) = None \<and>
   fst (node_cmd (\<lambda>ep. if ep = (''127.0.0.1'', 5001) then Hung else Up) 0 [] Cmd_List
          ex_vm3_term Map.empty ex_net_sys) \<noteq> None"
proof
  show "fst (node_cmd (\<lambda>ep. if ep = (''127.0.0.1'', 5001) then Hung else Up) 0 [] (Cmd_Download ''notes.txt'')
          ex_vm3_term Map.empty ex_net_sys) = None"
    unfolding terminal_blocks_iff by (simp add: GetFileLocations_def node_online_def)
  show "fst (node_cmd (\<lambda>ep. if ep = (''127.0.0.1'', 5001) then Hung else Up) 0 [] Cmd_List
          ex_vm3_term Map.empty ex_net_sys) \<noteq> None"
    unfolding terminal_blocks_iff by simp
qed

text \<open>
  C26. Ctrl-C leaves a dangling location: when a node's terminal is interrupted,
  \<^verbatim>\<open>run_node\<close> stops its file server without telling the controller
  (lines 220--224), unlike \<^verbatim>\<open>exit\<close> (C24). Every location of the node that
  \<^verbatim>\<open>GetFileLocations\<close> returned before is still returned, and a \<^verbatim>\<open>download\<close> by
  any node that picks that location fails, until a reaper pass times the node out.
\<close>

theorem interrupt_keeps_location:
  assumes "terms w (a, p) = Some ts"
    and "(nid, a, p) \<in> set (GetFileLocations (registered_nodes (ctrl (wsys w))) (file_locations (ctrl (wsys w))) f)"
  shows "world_step w (node_shutdown (a, p) w) \<and>
         (nid, a, p) \<in> set (GetFileLocations (registered_nodes (ctrl (wsys (node_shutdown (a, p) w))))
                               (file_locations (ctrl (wsys (node_shutdown (a, p) w)))) f) \<and>
         (\<exists>i. fst (node_cmd (\<lambda>_. Up) i inp (Cmd_Download f) t fs (wsys (node_shutdown (a, p) w))) =
                Some O_DownloadFailed)"
proof (intro conjI)
  show "world_step w (node_shutdown (a, p) w)" by (rule world_step.interrupt [OF assms(1)])
  show "(nid, a, p) \<in> set (GetFileLocations (registered_nodes (ctrl (wsys (node_shutdown (a, p) w))))
                               (file_locations (ctrl (wsys (node_shutdown (a, p) w)))) f)"
    using assms(2) by (simp add: node_shutdown_def)
  let ?locs = "GetFileLocations (registered_nodes (ctrl (wsys w))) (file_locations (ctrl (wsys w))) f"
  obtain i where i: "i < length ?locs" and at: "?locs ! i = (nid, a, p)"
    using assms(2) by (meson in_set_conv_nth)
  have "fst (node_cmd (\<lambda>_. Up) i inp (Cmd_Download f) t fs (wsys (node_shutdown (a, p) w))) = Some O_DownloadFailed"
    using i at by (auto simp: node_shutdown_def fetch_def)
  then show "\<exists>i. fst (node_cmd (\<lambda>_. Up) i inp (Cmd_Download f) t fs (wsys (node_shutdown (a, p) w))) =
                Some O_DownloadFailed" by blast
qed

abbreviation ex_upload_world :: world where
  "ex_upload_world \<equiv> \<lparr>wsys = ex_boot_sys\<lparr>ctrl := \<lparr>registered_nodes = [(''vm1'', ex_node 5001 True\<lparr>last_seen := 0\<rparr>)],
       file_locations = [(''notes.txt'', \<lparr>owners = [(''vm1'', ''127.0.0.1'', 5001)], upload_time = 0\<rparr>)]\<rparr>\<rparr>,
     terms = [(''127.0.0.1'', 5001) \<mapsto> Running ex_vm1_term]\<rparr>"

theorem interrupt_keeps_location_witness:
  "\<exists>i. fst (node_cmd (\<lambda>_. Up) i [] (Cmd_Download ''notes.txt'') ex_vm1_term Map.empty
          (wsys (node_shutdown (''127.0.0.1'', 5001) ex_upload_world))) = Some O_DownloadFailed"
proof -
  have "terms ex_upload_world (''127.0.0.1'', 5001) = Some (Running ex_vm1_term)" by simp
  moreover have "(''vm1'', ''127.0.0.1'', 5001) \<in> set (GetFileLocations (registered_nodes (ctrl (wsys ex_upload_world)))
      (file_locations (ctrl (wsys ex_upload_world))) ''notes.txt'')"
    by (simp add: GetFileLocations_def node_online_def)
  ultimately show ?thesis
    using interrupt_keeps_location [of ex_upload_world "''127.0.0.1''" 5001 "Running ex_vm1_term" "''vm1''" "''notes.txt''"
        "[]" ex_vm1_term Map.empty] by blast
qed

end
