(* ===== verification/Bootstrap.thy ===== *)
theory Bootstrap
  imports NodeTerminal
begin

text \<open>
  Process start-up (\<^verbatim>\<open>main.py\<close>). The argument vector is parsed by
  \<^verbatim>\<open>argparse\<close> with seven options and \<^verbatim>\<open>--help\<close>; the first of \<^verbatim>\<open>--controller\<close>
  and \<^verbatim>\<open>--node\<close> that is set selects the process, and nothing runs when neither
  is. The parser is modelled as \<^verbatim>\<open>argparse\<close> processes a command line from left to
  right: an option is matched exactly or, failing that, by a unique prefix
  (\<^verbatim>\<open>allow_abbrev\<close>); \<^verbatim>\<open>--opt=value\<close> carries its value, otherwise the next word
  is the value unless it looks like an option (a word starting with \<^verbatim>\<open>-\<close> that is
  not \<^verbatim>\<open>-\<close> itself, not a negative number and has no blank); \<^verbatim>\<open>type=int\<close> is
  Python's \<^verbatim>\<open>int()\<close> (\<open>py_int\<close>: surrounding white space, a sign, decimal digits
  with single underscores between them); \<^verbatim>\<open>--help\<close> exits at once; words that
  match no option are collected and reported together at the end
  (\<^verbatim>\<open>unrecognized arguments\<close>). Every exit of the parser is a value of
  \<open>parse_exit\<close>. Two things are left out: the message texts, and \<^verbatim>\<open>-h\<close> written
  together with further letters.
  \<open>launch\<close> is what \<^verbatim>\<open>main.py\<close> then runs. A node started without
  \<^verbatim>\<open>--id\<close> passes \<^verbatim>\<open>None\<close>, which the protobuf constructor leaves unset, so
  the controller sees the empty id (\<open>wire_id\<close>). Theory \<open>Console\<close> uses
  \<open>py_int\<close> for the port field of the console's register form.
\<close>

record args =
  a_controller :: bool
  a_node :: bool
  a_id :: "string option"
  a_controller_host :: string
  a_controller_port :: int
  a_host :: string
  a_port :: int

definition default_args :: args where
  "default_args = \<lparr>a_controller = False, a_node = False, a_id = None,
     a_controller_host = ''127.0.0.1'', a_controller_port = 6000,
     a_host = ''127.0.0.1'', a_port = 5000\<rparr>"

datatype arg_error =
    Ambiguous string | Unrecognized "string list" | Expected_One string
  | Invalid_Int string | Ignored_Explicit string

datatype parse_exit = Exit_Help | Exit_Error arg_error

definition option_strings :: "string list" where
  "option_strings = [''-h'', ''--help'', ''--controller'', ''--node'', ''--id'', ''--controller-host'',
                     ''--controller-port'', ''--host'', ''--port'']"

definition is_digit :: "char \<Rightarrow> bool" where
  "is_digit c \<longleftrightarrow> 48 \<le> (of_char c :: nat) \<and> (of_char c :: nat) \<le> 57"

definition negative_number :: "string \<Rightarrow> bool" where
  "negative_number w =
     (case w of
        c # r \<Rightarrow> c = CHR ''-'' \<and>
          (let a = takeWhile (\<lambda>x. x \<noteq> CHR ''.'') r; b = dropWhile (\<lambda>x. x \<noteq> CHR ''.'') r
           in (b = [] \<and> a \<noteq> [] \<and> list_all is_digit a) \<or>
              (b \<noteq> [] \<and> list_all is_digit a \<and> tl b \<noteq> [] \<and> list_all is_digit (tl b)))
      | [] \<Rightarrow> False)"

definition looks_optional :: "string \<Rightarrow> bool" where
  "looks_optional w \<longleftrightarrow>
     w \<noteq> [] \<and> hd w = CHR ''-'' \<and> w \<noteq> ''-'' \<and> \<not> negative_number w \<and> CHR '' '' \<notin> set w"

text \<open>Decimal digits with single underscores between digits, as \<^verbatim>\<open>int()\<close> accepts them.\<close>

fun digits_ok :: "string \<Rightarrow> bool" where
  "digits_ok [] = False"
| "digits_ok [c] = is_digit c"
| "digits_ok (c # d # r) =
     (is_digit c \<and> (if d = CHR ''_'' then r \<noteq> [] \<and> is_digit (hd r) \<and> digits_ok r else digits_ok (d # r)))"

definition digits_val :: "string \<Rightarrow> nat" where
  "digits_val ds = foldl (\<lambda>n c. 10 * n + (of_char c - 48)) 0 ds"

definition py_int :: "string \<Rightarrow> int option" where
  "py_int s =
     (let t = py_strip s;
          (sg, ds) = (case t of
                        c # r \<Rightarrow> (if c = CHR ''-'' then (-1, r) else if c = CHR ''+'' then (1, r) else (1, t))
                      | [] \<Rightarrow> (1, []))
      in if digits_ok ds then Some (sg * int (digits_val (filter (\<lambda>c. c \<noteq> CHR ''_'') ds))) else None)"

text \<open>The option a word names: exactly, or by a unique prefix.\<close>

definition match_option :: "string \<Rightarrow> arg_error + string option" where
  "match_option name =
     (if name \<in> set option_strings then Inr (Some name)
      else (case filter (\<lambda>opt. take (length name) opt = name) option_strings of
              [] \<Rightarrow> Inr None
            | [opt] \<Rightarrow> Inr (Some opt)
            | _ \<Rightarrow> Inl (Ambiguous name)))"

definition split_explicit :: "string \<Rightarrow> string \<times> string option" where
  "split_explicit w =
     (if take 2 w = ''--'' \<and> CHR ''='' \<in> set w
      then (takeWhile (\<lambda>c. c \<noteq> CHR ''='') w, Some (tl (dropWhile (\<lambda>c. c \<noteq> CHR ''='') w)))
      else (w, None))"

definition store_value :: "string \<Rightarrow> string \<Rightarrow> args \<Rightarrow> arg_error + args" where
  "store_value opt v a =
     (if opt = ''--id'' then Inr (a\<lparr>a_id := Some v\<rparr>)
      else if opt = ''--controller-host'' then Inr (a\<lparr>a_controller_host := v\<rparr>)
      else if opt = ''--host'' then Inr (a\<lparr>a_host := v\<rparr>)
      else (case py_int v of
              None \<Rightarrow> Inl (Invalid_Int v)
            | Some n \<Rightarrow> Inr (if opt = ''--port'' then a\<lparr>a_port := n\<rparr> else a\<lparr>a_controller_port := n\<rparr>)))"

function parse_loop :: "string list \<Rightarrow> args \<Rightarrow> string list \<Rightarrow> parse_exit + args" where
  "parse_loop [] a extras = (if extras = [] then Inr a else Inl (Exit_Error (Unrecognized extras)))"
| "parse_loop (w # rest) a extras =
     (if w = ''--'' then parse_loop [] a (extras @ rest)
      else if \<not> looks_optional w then parse_loop rest a (extras @ [w])
      else
        (let (name, explicit) = split_explicit w in
         case match_option name of
           Inl err \<Rightarrow> Inl (Exit_Error err)
         | Inr None \<Rightarrow> parse_loop rest a (extras @ [w])
         | Inr (Some opt) \<Rightarrow>
             (if opt = ''-h'' \<or> opt = ''--help'' \<or> opt = ''--controller'' \<or> opt = ''--node'' then
                (if explicit \<noteq> None then Inl (Exit_Error (Ignored_Explicit w))
                 else if opt = ''-h'' \<or> opt = ''--help'' then Inl Exit_Help
                 else if opt = ''--controller'' then parse_loop rest (a\<lparr>a_controller := True\<rparr>) extras
                 else parse_loop rest (a\<lparr>a_node := True\<rparr>) extras)
              else
                (case explicit of
                   Some v \<Rightarrow> (case store_value opt v a of
                                 Inl err \<Rightarrow> Inl (Exit_Error err)
                               | Inr a' \<Rightarrow> parse_loop rest a' extras)
                 | None \<Rightarrow>
                     (if rest = [] \<or> looks_optional (hd rest) then Inl (Exit_Error (Expected_One opt))
                      else (case store_value opt (hd rest) a of
                              Inl err \<Rightarrow> Inl (Exit_Error err)
                            | Inr a' \<Rightarrow> parse_loop (tl rest) a' extras))))))"
  by pat_completeness auto
termination
  by (relation "measure (\<lambda>(ws, a, extras). length ws)") auto

definition parse_args :: "string list \<Rightarrow> parse_exit + args" where
  "parse_args argv = parse_loop argv default_args []"

datatype launch =
    Launch_Controller string int
  | Launch_Node "string option" string int string int
  | Launch_Nothing

definition main_dispatch :: "args \<Rightarrow> launch" where
  "main_dispatch a =
     (if a_controller a then Launch_Controller (a_host a) (a_port a)
      else if a_node a then Launch_Node (a_id a) (a_controller_host a) (a_controller_port a) (a_host a) (a_port a)
      else Launch_Nothing)"

definition main_py :: "string list \<Rightarrow> parse_exit + launch" where
  "main_py argv = map_sum id main_dispatch (parse_args argv)"

definition wire_id :: "string option \<Rightarrow> string" where
  "wire_id nid = (case nid of None \<Rightarrow> [] | Some i \<Rightarrow> i)"

end
