(* ===== verification/Console.thy ===== *)
theory Console
  imports Dashboard Bootstrap
begin

text \<open>
  The console as a browser sees it (\<^verbatim>\<open>dashboard.py\<close>): the three forms of the page
  \<^verbatim>\<open>TEMPLATE\<close> (lines 39--65), which post to the endpoints of theory \<open>Dashboard\<close>,
  and the two tables the index view \<^verbatim>\<open>dashboard()\<close> renders from the controller's
  dictionaries (lines 66--96). A submitted form is \<open>dash_form\<close>; its fields arrive as
  strings. \<open>dash_submit\<close> routes it: the port of the register form goes through
  \<^verbatim>\<open>int()\<close> (\<open>py_int\<close> of theory \<open>Bootstrap\<close>), whose \<^verbatim>\<open>ValueError\<close> Flask turns
  into the status 500 with nothing written; the download form is a GET whose
  \<^verbatim>\<open>request.args.get('filename')\<close> is \<^verbatim>\<open>None\<close> when the field is absent, and
  \<^verbatim>\<open>None not in file_locations\<close> then flashes \<^verbatim>\<open>File 'None' not found!\<close>. An
  HTTP status is the left branch of the result.
  The page is kept at the level of its cells: one row per registered node (id,
  address, port, \<^verbatim>\<open>Online\<close>/\<^verbatim>\<open>Offline\<close>, last seen) and one row per directory entry
  (name, owner triples, upload time), in dictionary order, with no filtering.
  The lemmas show that every form submission is a step of \<open>dash_step\<close> or changes
  nothing, and that the page shows the whole of both tables while the readers'
  \<^verbatim>\<open>ListFiles\<close> is exactly the part of the page's file table with an owner whose
  node row says \<^verbatim>\<open>Online\<close>.
\<close>

datatype dash_form =
    F_Register node_id string string  \<comment> \<open>\<^verbatim>\<open>node_id\<close>, \<^verbatim>\<open>address\<close>, \<^verbatim>\<open>port\<close>\<close>
  | F_Upload string node_id bool       \<comment> \<open>\<^verbatim>\<open>filename\<close>, \<^verbatim>\<open>owner_id\<close>, a file chosen\<close>
  | F_Download "string option"         \<comment> \<open>\<^verbatim>\<open>filename\<close> of the GET query, if present\<close>

definition dash_submit :: "dash_form \<Rightarrow> timestamp \<Rightarrow> controller \<Rightarrow> (nat + dash_reply) \<times> controller" where
  "dash_submit form now c =
     (case form of
        F_Register nid addr ptext \<Rightarrow>
          (case py_int ptext of
             None \<Rightarrow> (Inl 500, c)
           | Some p \<Rightarrow> (let (r, c') = register_node nid addr p now c in (Inr r, c')))
      | F_Upload fname owner has_file \<Rightarrow>
          (let (r, c') = upload_file fname owner has_file now c in (Inr r, c'))
      | F_Download None \<Rightarrow> (Inr (D_NotFound ''None''), c)
      | F_Download (Some fname) \<Rightarrow> (Inr (download_file fname c), c))"

type_synonym node_row = "node_id \<times> string \<times> int \<times> string \<times> timestamp"
type_synonym file_row = "string \<times> location list \<times> timestamp"

definition node_rows :: "registry \<Rightarrow> node_row list" where
  "node_rows regs =
     map (\<lambda>(nid, e). (nid, address e, port e, if online e then ''Online'' else ''Offline'', last_seen e)) regs"

definition file_rows :: "directory \<Rightarrow> file_row list" where
  "file_rows files = map (\<lambda>(fname, info). (fname, owners info, upload_time info)) files"

definition dashboard_page :: "controller \<Rightarrow> node_row list \<times> file_row list" where
  "dashboard_page c = (node_rows (registered_nodes c), file_rows (file_locations c))"

text \<open>What a reader of the page concludes about a node: the status cell of its row.\<close>

definition row_status :: "node_row list \<Rightarrow> node_id \<Rightarrow> string option" where
  "row_status rows nid = map_option (\<lambda>(a, p, st, t). st) (map_of rows nid)"

subsection \<open>Lemmas\<close>

lemma dash_submit_step:
  assumes "dash_submit form \<lfloor>clock s\<rfloor> (ctrl s) = (res, c')"
  shows "c' = ctrl s \<or> dash_step s (s\<lparr>ctrl := c'\<rparr>)"
proof (cases form)
  case (F_Register nid addr ptext)
  then show ?thesis
  proof (cases "py_int ptext")
    case (Some p)
    then have "c' = snd (register_node nid addr p \<lfloor>clock s\<rfloor> (ctrl s))"
      using assms F_Register by (simp add: dash_submit_def split: prod.splits)
    then show ?thesis by (simp add: dash_step.register)
  qed (use assms in \<open>simp add: dash_submit_def\<close>)
next
  case (F_Upload fname owner has_file)
  then have "c' = snd (upload_file fname owner has_file \<lfloor>clock s\<rfloor> (ctrl s))"
    using assms by (simp add: dash_submit_def split: prod.splits)
  then show ?thesis by (simp add: dash_step.upload)
next
  case (F_Download fopt)
  then show ?thesis using assms by (simp add: dash_submit_def split: option.splits)
qed

lemma map_of_node_rows:
  "map_of (node_rows regs) nid =
     map_option (\<lambda>e. (address e, port e, if online e then ''Online'' else ''Offline'', last_seen e))
       (map_of regs nid)"
  by (induction regs) (auto simp: node_rows_def)

lemma row_status_online:
  "(row_status (node_rows regs) nid = Some ''Online'') = node_online regs nid"
  by (cases "map_of regs nid") (simp_all add: row_status_def map_of_node_rows node_online_def)

lemma ListFiles_file_rows:
  "map fst (filter (\<lambda>(f, os, t). \<exists>(nid, a, p) \<in> set os. node_online regs nid) (file_rows files)) =
     ListFiles regs files"
  by (induction regs files rule: ListFiles.induct) (auto simp: file_rows_def)

subsection \<open>Properties of the page\<close>

text \<open>
  C33. The console's page shows both tables whole: a row for every registered node
  and for every directory entry, in dictionary order, offline nodes and files whose
  owners are all offline included. The readers' view is derived from it: the names
  \<^verbatim>\<open>ListFiles\<close> returns are exactly those of the page's file rows with an owner
  whose row in the node table says \<^verbatim>\<open>Online\<close>, in the page's order.
\<close>

theorem page_shows_tables:
  "map fst (fst (dashboard_page c)) = map fst (registered_nodes c) \<and>
   map fst (snd (dashboard_page c)) = map fst (file_locations c) \<and>
   ListFiles (registered_nodes c) (file_locations c) =
     map fst (filter (\<lambda>(f, os, t). \<exists>(nid, a, p) \<in> set os. row_status (fst (dashboard_page c)) nid = Some ''Online'')
       (snd (dashboard_page c)))"
proof (intro conjI)
  show "map fst (fst (dashboard_page c)) = map fst (registered_nodes c)"
    by (simp add: dashboard_page_def node_rows_def case_prod_beta)
  show "map fst (snd (dashboard_page c)) = map fst (file_locations c)"
    by (simp add: dashboard_page_def file_rows_def case_prod_beta)
  show "ListFiles (registered_nodes c) (file_locations c) =
     map fst (filter (\<lambda>(f, os, t). \<exists>(nid, a, p) \<in> set os. row_status (fst (dashboard_page c)) nid = Some ''Online'')
       (snd (dashboard_page c)))"
    by (simp add: dashboard_page_def row_status_online ListFiles_file_rows)
qed

end
