(* ===== verification/ControllerMain.thy ===== *)
theory ControllerMain
  imports Console
begin

text \<open>
  The controller process as Python runs it: which module objects exist, which copy
  of the two tables each thread uses, and how \<^verbatim>\<open>serve_controller\<close> ends.
  A module's body creates its globals when the module is executed, and
  \<^verbatim>\<open>import\<close> executes a module only when \<^verbatim>\<open>sys.modules\<close> has no entry for its
  name. \<^verbatim>\<open>controller.py\<close> creates \<^verbatim>\<open>registered_nodes\<close> and \<^verbatim>\<open>file_locations\<close>
  together (lines 9--10); here they are one object, a \<open>controller\<close> in a heap of
  such objects indexed by addresses, allocated with a counter. Run as a script the
  file is the module \<^verbatim>\<open>__main__\<close>; run through \<^verbatim>\<open>main.py\<close> it is imported as
  \<^verbatim>\<open>controller\<close> (\<^verbatim>\<open>main.py\<close> line 7).
  \<^item> \<open>import_controller\<close>: \<^verbatim>\<open>from controller import ...\<close>, in \<^verbatim>\<open>dashboard.py\<close>
    line 6 and \<^verbatim>\<open>main.py\<close> line 7.
  \<^item> \<open>start_dashboard\<close> (\<^verbatim>\<open>controller.py\<close> 135--141): importing \<^verbatim>\<open>dashboard\<close> first
    imports Flask (its line 2), then the controller's tables; an exception, such as a
    missing Flask, is printed and the console does not run. Its thread is a daemon.
  \<^item> \<open>serve_controller\<close> (96--104): the server binds and starts; a failed bind
    raises inside the \<^verbatim>\<open>try\<close> and the function returns.
  \<^item> \<open>proc_step\<close>: while \<^verbatim>\<open>serve_controller\<close> runs, RPC handlers and reaper passes act
    on the tables of the module that defines \<^verbatim>\<open>serve_controller\<close>, and console
    submissions on the tables \<^verbatim>\<open>dashboard.py\<close> imported. An exception out of the
    loop (the reaper's \<^verbatim>\<open>RuntimeError\<close> or \<^verbatim>\<open>KeyError\<close> of theory
    \<open>Interleaving\<close>) is printed and the function returns (126--129); a
    \<^verbatim>\<open>KeyboardInterrupt\<close> stops the server (130--132). Either way
    \<^verbatim>\<open>serve_controller\<close> was the last statement of the script
    (\<^verbatim>\<open>controller.py\<close> 143--145, \<^verbatim>\<open>main.py\<close> 22--24), so the process ends and
    with it the daemon console thread. The fan-out of a request and the peers are
    left out here (theory \<open>Controller\<close> has them).
  The lemmas show that no step moves a thread to other tables, and that the two
  launches differ: through \<^verbatim>\<open>main.py\<close> the console and the service share one object,
  while \<^verbatim>\<open>python controller.py\<close> gives the console a second, separate copy.
\<close>

type_synonym addr = nat

datatype srv_status = Srv_Starting | Srv_Serving | Srv_Returned string

record pyproc =
  heap :: "addr \<rightharpoonup> controller"
  lim :: addr
  sys_modules :: "string \<rightharpoonup> addr"
  svc_tables :: "addr option"
  dash_tables :: "addr option"
  srv :: srv_status
  pclock :: real

definition proc0 :: pyproc where
  "proc0 = \<lparr>heap = Map.empty, lim = 0, sys_modules = Map.empty, svc_tables = None,
            dash_tables = None, srv = Srv_Starting, pclock = 0\<rparr>"

definition exec_controller_module :: "string \<Rightarrow> pyproc \<Rightarrow> addr \<times> pyproc" where
  "exec_controller_module name p =
     (lim p, p\<lparr>heap := (heap p)(lim p \<mapsto> \<lparr>registered_nodes = [], file_locations = []\<rparr>),
              lim := Suc (lim p), sys_modules := (sys_modules p)(name \<mapsto> lim p)\<rparr>)"

definition import_controller :: "pyproc \<Rightarrow> addr \<times> pyproc" where
  "import_controller p =
     (case sys_modules p ''controller'' of
        Some a \<Rightarrow> (a, p)
      | None \<Rightarrow> exec_controller_module ''controller'' p)"

definition start_dashboard :: "bool \<Rightarrow> pyproc \<Rightarrow> pyproc" where
  "start_dashboard flask_ok p =
     (if \<not> flask_ok then p
      else (let (a, p') = import_controller p in p'\<lparr>dash_tables := Some a\<rparr>))"

definition serve_controller :: "bool \<Rightarrow> addr \<Rightarrow> pyproc \<Rightarrow> pyproc" where
  "serve_controller bind_ok a p =
     p\<lparr>svc_tables := Some a, srv := (if bind_ok then Srv_Serving else Srv_Returned ''bind failed'')\<rparr>"

definition run_controller_script :: "bool \<Rightarrow> bool \<Rightarrow> pyproc" where
  "run_controller_script flask_ok bind_ok =
     (let (a, p1) = exec_controller_module ''__main__'' proc0
      in serve_controller bind_ok a (start_dashboard flask_ok p1))"

definition run_main_controller :: "bool \<Rightarrow> bool \<Rightarrow> pyproc" where
  "run_main_controller flask_ok bind_ok =
     (let (a, p1) = import_controller proc0
      in serve_controller bind_ok a (start_dashboard flask_ok p1))"

definition table_update :: "addr \<Rightarrow> (controller \<Rightarrow> controller) \<Rightarrow> pyproc \<Rightarrow> pyproc" where
  "table_update a f p = p\<lparr>heap := (heap p)(a := map_option f (heap p a))\<rparr>"

definition svc_view :: "pyproc \<Rightarrow> controller option" where
  "svc_view p = (case svc_tables p of None \<Rightarrow> None | Some a \<Rightarrow> heap p a)"

definition console_submit :: "dash_form \<Rightarrow> pyproc \<Rightarrow> pyproc" where
  "console_submit form p =
     (case dash_tables p of
        None \<Rightarrow> p
      | Some a \<Rightarrow> table_update a (\<lambda>c. snd (dash_submit form \<lfloor>pclock p\<rfloor> c)) p)"

inductive proc_step :: "pyproc \<Rightarrow> pyproc \<Rightarrow> bool" where
  rpc: "srv p = Srv_Serving \<Longrightarrow> svc_tables p = Some a \<Longrightarrow>
        proc_step p (table_update a (\<lambda>c. fst (snd (handle req \<lfloor>pclock p\<rfloor> c))) p)"
| reap: "srv p = Srv_Serving \<Longrightarrow> svc_tables p = Some a \<Longrightarrow>
         proc_step p (table_update a (controller_pass (pclock p)) p)"
| console: "srv p = Srv_Serving \<Longrightarrow> proc_step p (console_submit form p)"
| tick: "0 \<le> d \<Longrightarrow> proc_step p (p\<lparr>pclock := pclock p + d\<rparr>)"
| loop_exception: "srv p = Srv_Serving \<Longrightarrow> proc_step p (p\<lparr>srv := Srv_Returned msg\<rparr>)"
| interrupt: "srv p = Srv_Serving \<Longrightarrow> proc_step p (p\<lparr>srv := Srv_Returned ''Shutting down''\<rparr>)"

inductive proc_reach :: "pyproc \<Rightarrow> pyproc \<Rightarrow> bool" where
  start: "proc_reach p0 p0"
| step: "proc_reach p0 p \<Longrightarrow> proc_step p p' \<Longrightarrow> proc_reach p0 p'"

subsection \<open>Lemmas\<close>

lemma proc_step_refs:
  assumes "proc_step p p'"
  shows "svc_tables p' = svc_tables p \<and> dash_tables p' = dash_tables p"
  using assms
  by cases (simp_all add: table_update_def console_submit_def split: option.splits)

lemma proc_reach_refs:
  assumes "proc_reach p0 p"
  shows "svc_tables p = svc_tables p0 \<and> dash_tables p = dash_tables p0"
  using assms
  by induction (auto dest: proc_step_refs)

lemma launch_refs:
  "svc_tables (run_main_controller True True) = Some 0 \<and> dash_tables (run_main_controller True True) = Some 0"
  "svc_tables (run_controller_script True True) = Some 0 \<and> dash_tables (run_controller_script True True) = Some 1"
  by (simp_all add: run_main_controller_def run_controller_script_def import_controller_def
      exec_controller_module_def start_dashboard_def serve_controller_def proc0_def)

lemma svc_view_console_other:
  "dash_tables p = Some b \<Longrightarrow> svc_tables p = Some a \<Longrightarrow> a \<noteq> b \<Longrightarrow>
   svc_view (console_submit form p) = svc_view p"
  by (simp add: svc_view_def console_submit_def table_update_def)

lemma svc_view_console_same:
  "dash_tables p = Some a \<Longrightarrow> svc_tables p = Some a \<Longrightarrow>
   svc_view (console_submit form p) = map_option (\<lambda>c. snd (dash_submit form \<lfloor>pclock p\<rfloor> c)) (svc_view p)"
  by (simp add: svc_view_def console_submit_def table_update_def)

subsection \<open>Which tables the console writes\<close>

text \<open>
  C34. Which tables the console edits depends on how the controller was started.
  Started through \<^verbatim>\<open>main.py --controller\<close>, in every state the process reaches the
  console and the service use the same object, so a console submission changes the
  service's tables exactly as \<open>dash_submit\<close> says. Started as
  \<^verbatim>\<open>python controller.py\<close>, the console's import executes \<^verbatim>\<open>controller.py\<close> a
  second time under the name \<^verbatim>\<open>controller\<close>: in every reachable state the console
  writes a separate copy and no submission changes what the RPCs see.
\<close>

theorem console_tables_by_launch:
  "(proc_reach (run_main_controller True True) p \<longrightarrow>
      dash_tables p = svc_tables p \<and>
      svc_view (console_submit form p) = map_option (\<lambda>c. snd (dash_submit form \<lfloor>pclock p\<rfloor> c)) (svc_view p)) \<and>
   (proc_reach (run_controller_script True True) q \<longrightarrow>
      dash_tables q \<noteq> None \<and> dash_tables q \<noteq> svc_tables q \<and>
      svc_view (console_submit form q) = svc_view q)"
proof (intro conjI impI)
  assume "proc_reach (run_main_controller True True) p"
  then have r: "svc_tables p = Some 0" "dash_tables p = Some 0"
    using proc_reach_refs launch_refs(1) by simp_all
  then show "dash_tables p = svc_tables p" by simp
  show "svc_view (console_submit form p) = map_option (\<lambda>c. snd (dash_submit form \<lfloor>pclock p\<rfloor> c)) (svc_view p)"
    using svc_view_console_same [OF r(2) r(1)] by simp
next
  assume "proc_reach (run_controller_script True True) q"
  then have r: "svc_tables q = Some 0" "dash_tables q = Some 1"
    using proc_reach_refs launch_refs(2) by simp_all
  then show "dash_tables q \<noteq> None" "dash_tables q \<noteq> svc_tables q" by simp_all
  show "svc_view (console_submit form q) = svc_view q"
    using svc_view_console_other [OF r(2) r(1)] by simp
qed

theorem console_tables_by_launch_witness:
  "svc_view (console_submit (F_Register ''vm9'' ''10.0.0.9'' ''5009'') (run_main_controller True True)) =
     Some \<lparr>registered_nodes = [(''vm9'', \<lparr>address = ''10.0.0.9'', port = 5009, online = True, last_seen = 0\<rparr>)],
           file_locations = []\<rparr> \<and>
   svc_view (console_submit (F_Register ''vm9'' ''10.0.0.9'' ''5009'') (run_controller_script True True)) =
     Some \<lparr>registered_nodes = [], file_locations = []\<rparr>"
proof -
  have p: "py_int ''5009'' = Some 5009"
    by (simp add: py_int_def py_strip_def py_isspace_def is_digit_def digits_val_def)
  have m: "svc_view (run_main_controller True True) = Some \<lparr>registered_nodes = [], file_locations = []\<rparr>"
    and pc: "pclock (run_main_controller True True) = 0"
    and s: "svc_view (run_controller_script True True) = Some \<lparr>registered_nodes = [], file_locations = []\<rparr>"
    by (simp_all add: svc_view_def run_main_controller_def run_controller_script_def import_controller_def
        exec_controller_module_def start_dashboard_def serve_controller_def proc0_def)
  from console_tables_by_launch [of "run_main_controller True True" "F_Register ''vm9'' ''10.0.0.9'' ''5009''"
      "run_controller_script True True"]
  show ?thesis
    using p m pc s proc_reach.start by (simp add: dash_submit_def register_node_def)
qed

end
