(* ===== verification/Interleaving.thy ===== *)
theory Interleaving
  imports Controller
begin

text \<open>
  The reaper of \<^verbatim>\<open>serve_controller\<close> (\<^verbatim>\<open>controller.py\<close>, lines 105--125) runs in
  the main thread while the gRPC handlers run on the server's thread pool, on the same
  two dictionaries and without a lock. Theory \<open>Reaper\<close> treats a pass as one atomic
  step; here the pass is cut at the points where another thread can act between two
  of its statements. Its program counter is \<open>rphase\<close>:
  \<^item> \<open>R_Mark pos n pending offs\<close>: the marking loop over
    \<^verbatim>\<open>registered_nodes.items()\<close>, at item \<open>pos\<close> of a dictionary that had \<open>n\<close>
    entries when the iteration began; \<open>pending\<close> is an item read and found stale whose
    assignment has not happened yet;
  \<^item> \<open>R_Collect pos n to_remove\<close>: the loop over \<^verbatim>\<open>file_locations.items()\<close> that
    collects the orphaned names (the owner comprehension of one entry is one step);
  \<^item> \<open>R_Delete names\<close>: the \<^verbatim>\<open>del file_locations[fname]\<close> loop;
  \<^item> \<open>R_Crashed msg\<close>: an exception ended the \<^verbatim>\<open>while True\<close> loop (the
    \<^verbatim>\<open>except Exception\<close> of lines 126--129 prints it and \<^verbatim>\<open>serve_controller\<close>
    returns), so no pass ever runs again.
  Python's dictionary iterator raises \<^verbatim>\<open>RuntimeError\<close> when it is advanced after the
  dictionary's size changed, and \<^verbatim>\<open>del d[k]\<close> raises \<^verbatim>\<open>KeyError\<close> for a missing
  key; both are branches of \<open>reaper_step\<close>. Handlers are atomic steps of
  \<open>istep\<close> (their own fan-out only touches peers and is left out here).
  The lemmas show that a pass with no handler in between computes exactly
  \<open>controller_pass\<close> (the atomic model is a refinement of the real loop when nothing
  interleaves), that a heartbeat arriving between the reaper's read of a stale record
  and its write is lost, and that a registration during the marking loop or a deletion
  during the eviction crashes the reaper for good.
\<close>

datatype rphase =
    R_Idle
  | R_Mark nat nat "(node_id \<times> node_entry) option" "node_id list"
  | R_Collect nat nat "string list"
  | R_Delete "string list"
  | R_Crashed string

record rstate =
  rtables :: controller
  rphase :: rphase
  rnow :: real
  rclock :: real

definition size_changed :: string where
  "size_changed = ''RuntimeError: dictionary changed size during iteration''"

definition key_error :: string where
  "key_error = ''KeyError''"

definition reaper_step :: "rstate \<Rightarrow> rstate" where
  "reaper_step s =
     (let c = rtables s; regs = registered_nodes c; files = file_locations c in
      case rphase s of
        R_Idle \<Rightarrow> s\<lparr>rphase := R_Mark 0 (length regs) None [], rnow := rclock s\<rparr>
      | R_Mark pos n None offs \<Rightarrow>
          (if length regs \<noteq> n then s\<lparr>rphase := R_Crashed size_changed\<rparr>
           else if n \<le> pos then s\<lparr>rphase := R_Collect 0 (length files) []\<rparr>
           else (let (nid, e) = regs ! pos in
                 if online e \<and> rnow s - real_of_int (last_seen e) > 15
                 then s\<lparr>rphase := R_Mark pos n (Some (nid, e)) offs\<rparr>
                 else s\<lparr>rphase := R_Mark (Suc pos) n None offs\<rparr>))
      | R_Mark pos n (Some (nid, e)) offs \<Rightarrow>
          s\<lparr>rtables := c\<lparr>registered_nodes := dict_set nid (e\<lparr>online := False\<rparr>) regs\<rparr>,
            rphase := R_Mark (Suc pos) n None (offs @ [nid])\<rparr>
      | R_Collect pos n acc \<Rightarrow>
          (if length files \<noteq> n then s\<lparr>rphase := R_Crashed size_changed\<rparr>
           else if n \<le> pos then s\<lparr>rphase := R_Delete acc\<rparr>
           else (let (fname, info) = files ! pos in
                 s\<lparr>rphase := R_Collect (Suc pos) n
                     (if online_owners regs (owners info) = [] then acc @ [fname] else acc)\<rparr>))
      | R_Delete [] \<Rightarrow> s\<lparr>rphase := R_Idle\<rparr>
      | R_Delete (fname # rest) \<Rightarrow>
          (if fname \<notin> fst ` set files then s\<lparr>rphase := R_Crashed key_error\<rparr>
           else s\<lparr>rtables := c\<lparr>file_locations := dict_del fname files\<rparr>, rphase := R_Delete rest\<rparr>)
      | R_Crashed msg \<Rightarrow> s)"

inductive istep :: "rstate \<Rightarrow> rstate \<Rightarrow> bool" where
  handler: "istep s (s\<lparr>rtables := fst (snd (handle req \<lfloor>rclock s\<rfloor> (rtables s)))\<rparr>)"
| reaper: "istep s (reaper_step s)"
| tick: "0 \<le> d \<Longrightarrow> istep s (s\<lparr>rclock := rclock s + d\<rparr>)"

definition crashed :: "rstate \<Rightarrow> bool" where
  "crashed s \<longleftrightarrow> (\<exists>msg. rphase s = R_Crashed msg)"

text \<open>
  \<^verbatim>\<open>AnnounceFile\<close> cut where the reaper can act inside it: \<open>announce_head\<close> is
  lines 38--43 (the registration test, and a new entry with no owner for an unknown
  name), \<open>announce_tail\<close> lines 44--45 (reading the entry again to add the owner and
  the time; a missing key raises \<^verbatim>\<open>KeyError\<close>, which gRPC returns to the caller as
  an error). The two lines of the tail are one step here, and the fan-out after them
  is left out.
\<close>

definition announce_head ::
  "node_id \<Rightarrow> string \<Rightarrow> int \<Rightarrow> string \<Rightarrow> timestamp \<Rightarrow> controller \<Rightarrow> response option \<times> controller" where
  "announce_head rid addr p fname now c =
     (if rid \<notin> fst ` set (registered_nodes c) then (Some R_NodeNotRegistered, c)
      else if fname \<notin> fst ` set (file_locations c)
      then (None, c\<lparr>file_locations := dict_set fname \<lparr>owners = [], upload_time = now\<rparr> (file_locations c)\<rparr>)
      else (None, c))"

definition announce_tail ::
  "node_id \<Rightarrow> string \<Rightarrow> int \<Rightarrow> string \<Rightarrow> timestamp \<Rightarrow> controller \<Rightarrow> string + controller" where
  "announce_tail rid addr p fname now c =
     (case map_of (file_locations c) fname of
        None \<Rightarrow> Inl key_error
      | Some e \<Rightarrow> Inr (c\<lparr>file_locations :=
          dict_set fname (e\<lparr>owners := List.insert (rid, addr, p) (owners e), upload_time := now\<rparr>)
            (file_locations c)\<rparr>))"

subsection \<open>A pass with nothing in between\<close>

lemma orphan_files_append:
  "orphan_files regs (xs @ ys) = orphan_files regs xs @ orphan_files regs ys"
  by (induction xs) auto

lemma funpow_add_apply: "(f ^^ (a + b)) x = (f ^^ a) ((f ^^ b) x)"
  by (simp add: funpow_add)

lemma funpow_Suc_apply: "(f ^^ Suc n) x = (f ^^ n) (f x)"
  by (simp add: funpow_Suc_right del: funpow.simps)

lemma funpow_one_apply: "((f :: 'a \<Rightarrow> 'a) ^^ 1) x = f x"
  using funpow_Suc_apply [where f=f and n=0 and x=x] by (simp only: One_nat_def funpow_0)

lemma mark_phase:
  assumes wf: "dict_wf regs0" and le: "pos \<le> length regs0"
  shows "\<exists>k. (reaper_step ^^ k)
            \<lparr>rtables = c\<lparr>registered_nodes := map (reap_entry now) (take pos regs0) @ drop pos regs0\<rparr>,
             rphase = R_Mark pos (length regs0) None (map fst (filter (\<lambda>(nid, e). stale now e) (take pos regs0))),
             rnow = now, rclock = clk\<rparr> =
          \<lparr>rtables = c\<lparr>registered_nodes := map (reap_entry now) regs0\<rparr>,
             rphase = R_Mark (length regs0) (length regs0) None (map fst (filter (\<lambda>(nid, e). stale now e) regs0)),
             rnow = now, rclock = clk\<rparr>"
  using le
proof (induction "length regs0 - pos" arbitrary: pos)
  case 0
  then have "pos = length regs0" by simp
  then show ?case by (intro exI [of _ 0]) simp
next
  case (Suc d)
  then have lt: "pos < length regs0" by simp
  obtain nid e where ne: "regs0 ! pos = (nid, e)" by fastforce
  have drop: "drop pos regs0 = (nid, e) # drop (Suc pos) regs0" using lt ne by (metis Cons_nth_drop_Suc)
  have take: "take (Suc pos) regs0 = take pos regs0 @ [(nid, e)]" using lt ne by (simp add: take_Suc_conv_app_nth)
  have fresh: "nid \<notin> fst ` set (map (reap_entry now) (take pos regs0))"
  proof -
    have "distinct (map fst (take pos regs0 @ drop pos regs0))" using wf by simp
    then show ?thesis using drop by auto
  qed
  have len: "length (map (reap_entry now) (take pos regs0) @ drop pos regs0) = length regs0"
    using lt by simp
  have nth: "(map (reap_entry now) (take pos regs0) @ drop pos regs0) ! pos = (nid, e)"
    using lt drop by (simp add: nth_append)
  have d: "d = length regs0 - Suc pos" using Suc.hyps(2) by arith
  have le': "Suc pos \<le> length regs0" using lt by simp
  obtain k where k: "(reaper_step ^^ k)
            \<lparr>rtables = c\<lparr>registered_nodes := map (reap_entry now) (take (Suc pos) regs0) @ drop (Suc pos) regs0\<rparr>,
             rphase = R_Mark (Suc pos) (length regs0) None (map fst (filter (\<lambda>(nid, e). stale now e) (take (Suc pos) regs0))),
             rnow = now, rclock = clk\<rparr> =
          \<lparr>rtables = c\<lparr>registered_nodes := map (reap_entry now) regs0\<rparr>,
             rphase = R_Mark (length regs0) (length regs0) None (map fst (filter (\<lambda>(nid, e). stale now e) regs0)),
             rnow = now, rclock = clk\<rparr>"
    using Suc.hyps(1) [OF d le'] by blast
  let ?R = "map (reap_entry now) (take pos regs0) @ drop pos regs0"
  let ?O = "map fst (filter (\<lambda>(nid, e). stale now e) (take pos regs0))"
  let ?S = "\<lambda>ph regs. \<lparr>rtables = c\<lparr>registered_nodes := regs\<rparr>, rphase = ph, rnow = now, rclock = clk\<rparr>"
  show ?case
  proof (cases "stale now e")
    case True
    have set: "dict_set nid (e\<lparr>online := False\<rparr>) ?R =
               map (reap_entry now) (take (Suc pos) regs0) @ drop (Suc pos) regs0"
      using fresh True unfolding drop take by (simp add: dict_set_middle reap_entry_def)
    have s1: "reaper_step (?S (R_Mark pos (length regs0) None ?O) ?R) =
              ?S (R_Mark pos (length regs0) (Some (nid, e)) ?O) ?R"
      using True len nth lt by (simp add: reaper_step_def stale_def Let_def)
    have s2: "reaper_step (?S (R_Mark pos (length regs0) (Some (nid, e)) ?O) ?R) =
              ?S (R_Mark (Suc pos) (length regs0) None (?O @ [nid]))
                 (map (reap_entry now) (take (Suc pos) regs0) @ drop (Suc pos) regs0)"
      using set by (simp add: reaper_step_def Let_def)
    have o: "?O @ [nid] = map fst (filter (\<lambda>(nid, e). stale now e) (take (Suc pos) regs0))"
      using True take by simp
    show ?thesis
      by (intro exI [of _ "Suc (Suc k)"]) (simp only: funpow_Suc_apply s1 s2 o k)
  next
    case False
    have same: "?R = map (reap_entry now) (take (Suc pos) regs0) @ drop (Suc pos) regs0"
      using False unfolding drop take by (simp add: reap_entry_def)
    have s1: "reaper_step (?S (R_Mark pos (length regs0) None ?O) ?R) =
              ?S (R_Mark (Suc pos) (length regs0) None ?O) ?R"
      using False len nth lt by (simp add: reaper_step_def stale_def Let_def)
    have o: "?O = map fst (filter (\<lambda>(nid, e). stale now e) (take (Suc pos) regs0))"
      using False take by simp
    show ?thesis
      using k by (intro exI [of _ "Suc k"]) (simp only: funpow_Suc_apply s1 flip: same o)
  qed
qed

lemma collect_phase:
  assumes le: "pos \<le> length files"
  shows "\<exists>k. (reaper_step ^^ k)
            \<lparr>rtables = \<lparr>registered_nodes = regs, file_locations = files\<rparr>,
             rphase = R_Collect pos (length files) (orphan_files regs (take pos files)),
             rnow = now, rclock = clk\<rparr> =
          \<lparr>rtables = \<lparr>registered_nodes = regs, file_locations = files\<rparr>,
             rphase = R_Collect (length files) (length files) (orphan_files regs files),
             rnow = now, rclock = clk\<rparr>"
  using le
proof (induction "length files - pos" arbitrary: pos)
  case 0
  then have "pos = length files" by simp
  then show ?case by (intro exI [of _ 0]) simp
next
  case (Suc d)
  then have lt: "pos < length files" by simp
  obtain fname info where fi: "files ! pos = (fname, info)" by fastforce
  have take: "take (Suc pos) files = take pos files @ [(fname, info)]"
    using lt fi by (simp add: take_Suc_conv_app_nth)
  have d: "d = length files - Suc pos" using Suc.hyps(2) by arith
  have le': "Suc pos \<le> length files" using lt by simp
  obtain k where k: "(reaper_step ^^ k)
            \<lparr>rtables = \<lparr>registered_nodes = regs, file_locations = files\<rparr>,
             rphase = R_Collect (Suc pos) (length files) (orphan_files regs (take (Suc pos) files)),
             rnow = now, rclock = clk\<rparr> =
          \<lparr>rtables = \<lparr>registered_nodes = regs, file_locations = files\<rparr>,
             rphase = R_Collect (length files) (length files) (orphan_files regs files),
             rnow = now, rclock = clk\<rparr>"
    using Suc.hyps(1) [OF d le'] by blast
  have s1: "reaper_step \<lparr>rtables = \<lparr>registered_nodes = regs, file_locations = files\<rparr>,
             rphase = R_Collect pos (length files) (orphan_files regs (take pos files)),
             rnow = now, rclock = clk\<rparr> =
          \<lparr>rtables = \<lparr>registered_nodes = regs, file_locations = files\<rparr>,
             rphase = R_Collect (Suc pos) (length files) (orphan_files regs (take (Suc pos) files)),
             rnow = now, rclock = clk\<rparr>"
    using lt fi by (simp add: reaper_step_def take orphan_files_append)
  show ?case
    by (intro exI [of _ "Suc k"]) (simp only: funpow_Suc_apply s1 k)
qed

lemma delete_phase:
  assumes "dict_wf files" and "distinct names" and "set names \<subseteq> fst ` set files"
  shows "\<exists>k. (reaper_step ^^ k)
            \<lparr>rtables = \<lparr>registered_nodes = regs, file_locations = files\<rparr>,
             rphase = R_Delete names, rnow = now, rclock = clk\<rparr> =
          \<lparr>rtables = \<lparr>registered_nodes = regs, file_locations = fold dict_del names files\<rparr>,
             rphase = R_Idle, rnow = now, rclock = clk\<rparr>"
  using assms
proof (induction names arbitrary: files)
  case Nil
  have "reaper_step \<lparr>rtables = \<lparr>registered_nodes = regs, file_locations = files\<rparr>,
             rphase = R_Delete [], rnow = now, rclock = clk\<rparr> =
        \<lparr>rtables = \<lparr>registered_nodes = regs, file_locations = fold dict_del [] files\<rparr>,
             rphase = R_Idle, rnow = now, rclock = clk\<rparr>"
    by (simp add: reaper_step_def)
  then show ?case by (intro exI [of _ 1]) simp
next
  case (Cons f rest)
  have wf': "dict_wf (dict_del f files)" using Cons.prems(1) by simp
  have sub': "set rest \<subseteq> fst ` set (dict_del f files)" using Cons.prems by auto
  obtain k where k: "(reaper_step ^^ k)
            \<lparr>rtables = \<lparr>registered_nodes = regs, file_locations = dict_del f files\<rparr>,
             rphase = R_Delete rest, rnow = now, rclock = clk\<rparr> =
          \<lparr>rtables = \<lparr>registered_nodes = regs, file_locations = fold dict_del rest (dict_del f files)\<rparr>,
             rphase = R_Idle, rnow = now, rclock = clk\<rparr>"
    using Cons.IH [OF wf' _ sub'] Cons.prems(2) by auto
  have s1: "reaper_step \<lparr>rtables = \<lparr>registered_nodes = regs, file_locations = files\<rparr>,
             rphase = R_Delete (f # rest), rnow = now, rclock = clk\<rparr> =
          \<lparr>rtables = \<lparr>registered_nodes = regs, file_locations = dict_del f files\<rparr>,
             rphase = R_Delete rest, rnow = now, rclock = clk\<rparr>"
    using Cons.prems(3) by (simp add: reaper_step_def)
  show ?case
    by (intro exI [of _ "Suc k"]) (simp only: funpow_Suc_apply s1 k fold_Cons comp_def)
qed

lemma controller_pass_unfold:
  "dict_wf (registered_nodes c) \<Longrightarrow>
   controller_pass now c =
     \<lparr>registered_nodes = map (reap_entry now) (registered_nodes c),
      file_locations = fold dict_del (orphan_files (map (reap_entry now) (registered_nodes c)) (file_locations c))
                         (file_locations c)\<rparr>"
  by (simp add: controller_pass_def reaper_pass_def reap_nodes_eq evict_orphans_def split_def Let_def)

lemma controller_update_regs:
  "(c :: controller)\<lparr>registered_nodes := r\<rparr> = \<lparr>registered_nodes = r, file_locations = file_locations c\<rparr>"
  by (cases c) simp

lemma length_dict_set_new:
  "k \<notin> fst ` set d \<Longrightarrow> length (dict_set k v d) = Suc (length d)"
  by (induction d) auto

lemma istep_keeps_crash:
  "istep s s' \<Longrightarrow> rphase s = R_Crashed msg \<Longrightarrow> rphase s' = R_Crashed msg"
  by (induction rule: istep.induct) (simp_all add: reaper_step_def Let_def)

lemma isteps_keep_crash:
  "istep\<^sup>*\<^sup>* s s' \<Longrightarrow> rphase s = R_Crashed msg \<Longrightarrow> rphase s' = R_Crashed msg"
  by (induction rule: rtranclp_induct) (auto dest: istep_keeps_crash)

lemma istep_trace4:
  "istep a b \<Longrightarrow> istep b c \<Longrightarrow> istep c d \<Longrightarrow> istep d e \<Longrightarrow> istep\<^sup>*\<^sup>* a e"
  by (meson rtranclp.rtrancl_into_rtrancl r_into_rtranclp)

lemma rclock_reaper_step: "rclock (reaper_step s) = rclock s"
  by (simp add: reaper_step_def Let_def split_def split: rphase.split option.split list.split)

lemma reaches_trans:
  fixes f :: "'a \<Rightarrow> 'a"
  assumes "\<exists>k. (f ^^ k) a = b" and "\<exists>k. (f ^^ k) b = d"
  shows "\<exists>k. (f ^^ k) a = d"
proof -
  obtain k1 k2 where "(f ^^ k1) a = b" and "(f ^^ k2) b = d" using assms by blast
  then have "(f ^^ (k2 + k1)) a = d" by (simp only: funpow_add_apply)
  then show ?thesis by blast
qed

lemma reaches_step:
  fixes f :: "'a \<Rightarrow> 'a"
  assumes "f a = b"
  shows "\<exists>k. (f ^^ k) a = b"
proof
  show "(f ^^ 1) a = b" using assms funpow_one_apply [of f a] by simp
qed

text \<open>The first half of a pass: the clock read and the marking loop.\<close>

lemma mark_from_idle:
  assumes wf_r: "dict_wf (registered_nodes c)"
  shows "\<exists>k. (reaper_step ^^ k) \<lparr>rtables = c, rphase = R_Idle, rnow = now0, rclock = t\<rparr> =
    \<lparr>rtables = \<lparr>registered_nodes = map (reap_entry t) (registered_nodes c), file_locations = file_locations c\<rparr>,
     rphase = R_Collect 0 (length (file_locations c)) (orphan_files (map (reap_entry t) (registered_nodes c))
                (take 0 (file_locations c))), rnow = t, rclock = t\<rparr>"
proof -
  let ?regs = "registered_nodes c"
  let ?start = "\<lparr>rtables = c\<lparr>registered_nodes := map (reap_entry t) (take 0 ?regs) @ drop 0 ?regs\<rparr>,
       rphase = R_Mark 0 (length ?regs) None (map fst (filter (\<lambda>(nid, e). stale t e) (take 0 ?regs))),
       rnow = t, rclock = t\<rparr>"
  let ?marked = "\<lparr>rtables = c\<lparr>registered_nodes := map (reap_entry t) ?regs\<rparr>,
       rphase = R_Mark (length ?regs) (length ?regs) None (map fst (filter (\<lambda>(nid, e). stale t e) ?regs)),
       rnow = t, rclock = t\<rparr>"
  have s0: "reaper_step \<lparr>rtables = c, rphase = R_Idle, rnow = now0, rclock = t\<rparr> = ?start"
    by (simp add: reaper_step_def)
  have k1: "\<exists>k. (reaper_step ^^ k) ?start = ?marked"
    using mark_phase [OF wf_r, where pos=0 and c=c and now=t and clk=t] by auto
  have s1: "reaper_step ?marked =
    \<lparr>rtables = \<lparr>registered_nodes = map (reap_entry t) ?regs, file_locations = file_locations c\<rparr>,
     rphase = R_Collect 0 (length (file_locations c)) (orphan_files (map (reap_entry t) ?regs)
                (take 0 (file_locations c))), rnow = t, rclock = t\<rparr>"
    by (simp add: reaper_step_def controller_update_regs)
  show ?thesis by (rule reaches_trans [of reaper_step, OF reaches_step [of reaper_step, OF s0] reaches_trans [of reaper_step, OF k1 reaches_step [of reaper_step, OF s1]]])
qed

text \<open>The second half: the collecting loop and the deletion loop.\<close>

lemma collect_to_idle:
  assumes wf_f: "dict_wf files"
  shows "\<exists>k. (reaper_step ^^ k)
    \<lparr>rtables = \<lparr>registered_nodes = regs, file_locations = files\<rparr>,
     rphase = R_Collect 0 (length files) (orphan_files regs (take 0 files)), rnow = t, rclock = t\<rparr> =
    \<lparr>rtables = \<lparr>registered_nodes = regs, file_locations = fold dict_del (orphan_files regs files) files\<rparr>,
     rphase = R_Idle, rnow = t, rclock = t\<rparr>"
proof -
  let ?orph = "orphan_files regs files"
  let ?collected = "\<lparr>rtables = \<lparr>registered_nodes = regs, file_locations = files\<rparr>,
       rphase = R_Collect (length files) (length files) ?orph, rnow = t, rclock = t\<rparr>"
  have dist: "distinct ?orph" using wf_f by (simp add: orphan_files_eq distinct_map_filter)
  have sub: "set ?orph \<subseteq> fst ` set files" by (auto simp: orphan_files_eq)
  have k2: "\<exists>k. (reaper_step ^^ k)
      \<lparr>rtables = \<lparr>registered_nodes = regs, file_locations = files\<rparr>,
       rphase = R_Collect 0 (length files) (orphan_files regs (take 0 files)), rnow = t, rclock = t\<rparr> = ?collected"
    using collect_phase [where pos=0 and files=files and regs=regs and now=t and clk=t] by auto
  have s2: "reaper_step ?collected =
      \<lparr>rtables = \<lparr>registered_nodes = regs, file_locations = files\<rparr>, rphase = R_Delete ?orph, rnow = t, rclock = t\<rparr>"
    by (simp add: reaper_step_def Let_def)
  show ?thesis
    by (rule reaches_trans [of reaper_step, OF k2 reaches_trans [of reaper_step, OF reaches_step [of reaper_step, OF s2]
          delete_phase [OF wf_f dist sub, where regs=regs and now=t and clk=t]]])
qed

subsection \<open>Properties of the interleaved reaper\<close>

text \<open>
  C27. Refinement of the atomic pass: started from its idle state on well-formed
  tables, the statement-level reaper, with no handler running in between, reaches its
  idle state again after finitely many steps, with exactly the tables that the atomic
  \<open>controller_pass\<close> computes at the clock read when the pass began.
\<close>

theorem reaper_refines_pass:
  assumes wf_r: "dict_wf (registered_nodes c)" and wf_f: "dict_wf (file_locations c)"
  shows "\<exists>k. (reaper_step ^^ k) \<lparr>rtables = c, rphase = R_Idle, rnow = now0, rclock = t\<rparr> =
             \<lparr>rtables = controller_pass t c, rphase = R_Idle, rnow = t, rclock = t\<rparr>"
  using reaches_trans [of reaper_step, OF mark_from_idle [OF wf_r] collect_to_idle [OF wf_f]]
  by (simp only: controller_pass_unfold [OF wf_r])

theorem reaper_refines_pass_witness:
  "\<exists>k. (reaper_step ^^ k) \<lparr>rtables = \<lparr>registered_nodes = ex_regs, file_locations = ex_files\<rparr>,
                             rphase = R_Idle, rnow = 0, rclock = 200\<rparr> =
       \<lparr>rtables = \<lparr>registered_nodes = [(''vm1'', ex_vm1\<lparr>online := False\<rparr>),
                     (''vm2'', \<lparr>address = ''127.0.0.1'', port = 5002, online = False, last_seen = 80\<rparr>)],
                   file_locations = []\<rparr>,
        rphase = R_Idle, rnow = 200, rclock = 200\<rparr>"
proof -
  have "controller_pass 200 \<lparr>registered_nodes = ex_regs, file_locations = ex_files\<rparr> =
          \<lparr>registered_nodes = [(''vm1'', ex_vm1\<lparr>online := False\<rparr>),
                     (''vm2'', \<lparr>address = ''127.0.0.1'', port = 5002, online = False, last_seen = 80\<rparr>)],
           file_locations = []\<rparr>"
    by (simp add: controller_pass_unfold reap_entry_def stale_def node_online_def online_owners_def)
  moreover have "\<exists>k. (reaper_step ^^ k) \<lparr>rtables = \<lparr>registered_nodes = ex_regs, file_locations = ex_files\<rparr>,
                             rphase = R_Idle, rnow = 0, rclock = 200\<rparr> =
       \<lparr>rtables = controller_pass 200 \<lparr>registered_nodes = ex_regs, file_locations = ex_files\<rparr>,
        rphase = R_Idle, rnow = 200, rclock = 200\<rparr>"
    by (rule reaper_refines_pass) simp_all
  ultimately show ?thesis by simp
qed

text \<open>
  C28. Lost heartbeat: when the reaper has read a stale record of \<open>nid\<close> and not yet
  written it back, a \<^verbatim>\<open>Heartbeat\<close> handled in between is overwritten: the reaper
  writes the record it read, offline and with the old \<open>last_seen\<close>, over the
  heartbeat's fresh one, so a node that has just proved it is alive ends offline (and
  its files are evicted later in the same pass).
\<close>

theorem heartbeat_lost:
  assumes "rphase s = R_Mark pos n (Some (nid, e)) offs"
  shows "map_of (registered_nodes (rtables (reaper_step
            (s\<lparr>rtables := fst (snd (handle (Req_Heartbeat nid a p) now (rtables s)))\<rparr>)))) nid =
           Some (e\<lparr>online := False\<rparr>) \<and>
         rphase (reaper_step (s\<lparr>rtables := fst (snd (handle (Req_Heartbeat nid a p) now (rtables s)))\<rparr>)) =
           R_Mark (Suc pos) n None (offs @ [nid])"
  using assms by (simp add: reaper_step_def Let_def split_def)

abbreviation ex_rstate :: rstate where
  "ex_rstate \<equiv> \<lparr>rtables = \<lparr>registered_nodes = ex_regs, file_locations = ex_files\<rparr>,
                 rphase = R_Idle, rnow = 0, rclock = 200\<rparr>"

theorem heartbeat_lost_witness:
  "\<exists>s'. istep\<^sup>*\<^sup>* ex_rstate s' \<and>
        map_of (registered_nodes (rtables s')) ''vm1'' = Some (ex_vm1\<lparr>online := False\<rparr>) \<and>
        rclock s' = 200"
proof -
  let ?T = "\<lparr>registered_nodes = ex_regs, file_locations = ex_files\<rparr>"
  let ?s1 = "\<lparr>rtables = ?T, rphase = R_Mark 0 2 None [], rnow = 200, rclock = 200\<rparr>"
  let ?s2 = "\<lparr>rtables = ?T, rphase = R_Mark 0 2 (Some (''vm1'', ex_vm1)) [], rnow = 200, rclock = 200\<rparr>"
  let ?s3 = "?s2\<lparr>rtables := fst (snd (handle (Req_Heartbeat ''vm1'' ''127.0.0.1'' 5001) \<lfloor>rclock ?s2\<rfloor> (rtables ?s2)))\<rparr>"
  have e1: "reaper_step ex_rstate = ?s1" by (simp add: reaper_step_def)
  have e2: "reaper_step ?s1 = ?s2" by (simp add: reaper_step_def)
  have t1: "istep ex_rstate ?s1" using istep.reaper [of ex_rstate] by (simp only: e1)
  have t2: "istep ?s1 ?s2" using istep.reaper [of ?s1] by (simp only: e2)
  have t3: "istep ?s2 ?s3" by (rule istep.handler)
  have t4: "istep ?s3 (reaper_step ?s3)" by (rule istep.reaper)
  have "istep\<^sup>*\<^sup>* ex_rstate (reaper_step ?s3)"
    by (rule istep_trace4 [OF t1 t2 t3 t4])
  moreover have "map_of (registered_nodes (rtables (reaper_step ?s3))) ''vm1'' = Some (ex_vm1\<lparr>online := False\<rparr>)"
    using heartbeat_lost [of ?s2 0 2 "''vm1''" ex_vm1 "[]" "''127.0.0.1''" 5001 "\<lfloor>rclock ?s2\<rfloor>"] by simp
  moreover have "rclock (reaper_step ?s3) = 200" by (simp only: rclock_reaper_step) simp
  ultimately show ?thesis by blast
qed

text \<open>
  C29. The reaper dies for good: registering a new node while the marking loop runs
  makes its next iteration step raise \<^verbatim>\<open>RuntimeError\<close>; deleting, between the
  collection and the deletion, a file the reaper is about to delete makes its
  \<^verbatim>\<open>del\<close> raise \<^verbatim>\<open>KeyError\<close>; either exception leaves the \<^verbatim>\<open>while\<close> loop, and
  in every later state the reaper is still crashed, so no node is ever timed out again.
\<close>

theorem reaper_crash:
  "(rphase s = R_Mark pos (length (registered_nodes (rtables s))) None offs \<and>
    nid \<notin> fst ` set (registered_nodes (rtables s)) \<longrightarrow>
      rphase (reaper_step (s\<lparr>rtables := fst (snd (handle (Req_RegisterNode nid a p) now (rtables s)))\<rparr>)) =
        R_Crashed size_changed) \<and>
   (rphase s = R_Delete (f # rest) \<and> dict_wf (file_locations (rtables s)) \<longrightarrow>
      rphase (reaper_step (s\<lparr>rtables := fst (snd (handle (Req_DeleteFile f) now (rtables s)))\<rparr>)) =
        R_Crashed key_error) \<and>
   (istep\<^sup>*\<^sup>* s s' \<and> rphase s = R_Crashed msg \<longrightarrow> rphase s' = R_Crashed msg)"
proof (intro conjI impI)
  assume h: "rphase s = R_Mark pos (length (registered_nodes (rtables s))) None offs \<and>
             nid \<notin> fst ` set (registered_nodes (rtables s))"
  then show "rphase (reaper_step (s\<lparr>rtables := fst (snd (handle (Req_RegisterNode nid a p) now (rtables s)))\<rparr>)) =
        R_Crashed size_changed"
    by (simp add: reaper_step_def Let_def split_def RegisterNode_def length_dict_set_new)
next
  assume h: "rphase s = R_Delete (f # rest) \<and> dict_wf (file_locations (rtables s))"
  then show "rphase (reaper_step (s\<lparr>rtables := fst (snd (handle (Req_DeleteFile f) now (rtables s)))\<rparr>)) =
        R_Crashed key_error"
    by (simp add: reaper_step_def Let_def split_def DeleteFile_def)
next
  assume "istep\<^sup>*\<^sup>* s s' \<and> rphase s = R_Crashed msg"
  then show "rphase s' = R_Crashed msg" using isteps_keep_crash by blast
qed

theorem reaper_crash_witness:
  "rphase (reaper_step ((reaper_step ex_rstate)\<lparr>rtables :=
       fst (snd (handle (Req_RegisterNode ''vm3'' ''127.0.0.1'' 5003) 200 (rtables (reaper_step ex_rstate))))\<rparr>)) =
     R_Crashed size_changed"
proof -
  have "rphase (reaper_step ex_rstate) = R_Mark 0 (length (registered_nodes (rtables (reaper_step ex_rstate)))) None [] \<and>
        ''vm3'' \<notin> fst ` set (registered_nodes (rtables (reaper_step ex_rstate)))"
    by (simp add: reaper_step_def)
  then show ?thesis using reaper_crash [of "reaper_step ex_rstate" 0 "[]" "''vm3''"] by blast
qed

text \<open>
  C30. A reaper pass inside \<^verbatim>\<open>AnnounceFile\<close> loses the announcement: when a registered
  node announces a name the directory does not hold, the handler first creates the
  entry with no owner and then adds the owner. With nothing in between the two halves
  compute exactly the atomic \<^verbatim>\<open>AnnounceFile\<close>; but a reaper pass between them finds
  the fresh entry without an online owner and evicts it, whatever the registry says,
  and the handler then raises \<^verbatim>\<open>KeyError\<close>: the directory write succeeded and the
  announcement still fails, and the name is not in the directory.
\<close>

theorem announce_reaped_midway:
  assumes "dict_wf (registered_nodes c)" and "dict_wf (file_locations c)"
    and "rid \<in> fst ` set (registered_nodes c)" and "fname \<notin> fst ` set (file_locations c)"
  shows "fst (announce_head rid addr p fname now c) = None \<and>
         announce_tail rid addr p fname now (snd (announce_head rid addr p fname now c)) =
           Inr (fst (snd (AnnounceFile rid addr p fname now c))) \<and>
         fname \<notin> fst ` set (file_locations (controller_pass t (snd (announce_head rid addr p fname now c)))) \<and>
         announce_tail rid addr p fname now (controller_pass t (snd (announce_head rid addr p fname now c))) =
           Inl key_error"
proof -
  let ?v = "\<lparr>owners = [], upload_time = now\<rparr> :: file_entry"
  let ?ch = "c\<lparr>file_locations := dict_set fname ?v (file_locations c)\<rparr>"
  have h: "announce_head rid addr p fname now c = (None, ?ch)"
    using assms(3,4) by (simp add: announce_head_def)
  have none: "map_of (file_locations c) fname = None" using assms(4) by (simp add: map_of_eq_None_iff)
  have atomic: "announce_tail rid addr p fname now ?ch = Inr (fst (snd (AnnounceFile rid addr p fname now c)))"
    using assms(3) none by (simp add: announce_tail_def AnnounceFile_def announce_entry_def Let_def)
  have wf': "dict_wf (file_locations ?ch)" using assms(2) by simp
  let ?regs' = "fst (reap_nodes t (registered_nodes c))"
  have pass: "file_locations (controller_pass t ?ch) =
      filter (\<lambda>(f, info). has_online_owner ?regs' info) (dict_set fname ?v (file_locations c))"
    using reaper_pass_eq [OF _ wf', of "registered_nodes c" t] assms(1)
    by (simp add: controller_pass_def split_def)
  have gone: "fname \<notin> fst ` set (file_locations (controller_pass t ?ch))"
  proof
    assume "fname \<in> fst ` set (file_locations (controller_pass t ?ch))"
    then obtain x where x: "(fname, x) \<in> set (dict_set fname ?v (file_locations c))"
      and on: "has_online_owner ?regs' x"
      unfolding pass by auto
    have "(fname, x) \<in> insert (fname, ?v) (set (file_locations c))"
      by (rule subsetD [OF set_dict_set_subset x])
    then have "x = ?v" using assms(4) by force
    then show False using on by (simp add: has_online_owner_def)
  qed
  then have "map_of (file_locations (controller_pass t ?ch)) fname = None"
    by (simp add: map_of_eq_None_iff)
  then have "announce_tail rid addr p fname now (controller_pass t ?ch) = Inl key_error"
    by (simp add: announce_tail_def)
  with h atomic gone show ?thesis by simp
qed

theorem announce_reaped_midway_witness:
  "announce_tail ''vm1'' ''127.0.0.1'' 5001 ''new.txt'' 100
     (controller_pass 100 (snd (announce_head ''vm1'' ''127.0.0.1'' 5001 ''new.txt'' 100
        \<lparr>registered_nodes = [(''vm1'', ex_vm1)], file_locations = []\<rparr>))) = Inl key_error"
proof -
  have "dict_wf (registered_nodes \<lparr>registered_nodes = [(''vm1'', ex_vm1)], file_locations = ([] :: directory)\<rparr>)"
    and "dict_wf (file_locations \<lparr>registered_nodes = [(''vm1'', ex_vm1)], file_locations = ([] :: directory)\<rparr>)"
    and "''vm1'' \<in> fst ` set (registered_nodes \<lparr>registered_nodes = [(''vm1'', ex_vm1)], file_locations = ([] :: directory)\<rparr>)"
    and "''new.txt'' \<notin> fst ` set (file_locations \<lparr>registered_nodes = [(''vm1'', ex_vm1)], file_locations = ([] :: directory)\<rparr>)"
    by simp_all
  from announce_reaped_midway [OF this, of "''127.0.0.1''" 5001 100 100]
  show ?thesis by blast
qed

end
