(* ===== verification/FixImports.thy ===== *)
theory FixImports
  imports Prelude
begin

text \<open>
  The build helper \<^verbatim>\<open>fix_imports.py\<close>: it rewrites the absolute import of the
  generated gRPC stub \<^verbatim>\<open>proto/storage_pb2_grpc.py\<close> into a relative one with
  Python's \<^verbatim>\<open>str.replace\<close>. \<open>py_replace\<close> is \<^verbatim>\<open>str.replace(old, new)\<close>: every
  non-overlapping occurrence of \<open>old\<close>, scanned from the left, is replaced; for an
  empty \<open>old\<close> Python inserts \<open>new\<close> before every character and at the end. Its
  recursion drops the matched prefix, so it is a \<open>function\<close> with a termination
  proof on the length of the text. The file system is a map from paths to contents;
  \<open>fix_proto_imports\<close> returns the function's Boolean result with the new file
  system, and the missing file is its error branch.
  The lemmas show that a text without the absolute import is left as it is, that the
  generated line is rewritten to the relative import, and that the helper is not
  idempotent: a second run rewrites the relative import again.
\<close>

function replace_nonempty :: "string \<Rightarrow> string \<Rightarrow> string \<Rightarrow> string" where
  "replace_nonempty old new [] = []"
| "replace_nonempty old new (c # cs) =
     (if old \<noteq> [] \<and> take (length old) (c # cs) = old
      then new @ replace_nonempty old new (drop (length old) (c # cs))
      else c # replace_nonempty old new cs)"
  by pat_completeness auto
termination
  by (relation "measure (\<lambda>(old, new, s). length s)") auto

definition py_replace :: "string \<Rightarrow> string \<Rightarrow> string \<Rightarrow> string" where
  "py_replace old new s =
     (if old = [] then new @ concat (map (\<lambda>c. c # new) s) else replace_nonempty old new s)"

type_synonym files = "string \<rightharpoonup> string"

definition grpc_file :: string where
  "grpc_file = ''proto/storage_pb2_grpc.py''"

definition old_import :: string where
  "old_import = ''import storage_pb2 as storage__pb2''"

definition new_import :: string where
  "new_import = ''from . import storage_pb2 as storage__pb2''"

definition fix_proto_imports :: "files \<Rightarrow> bool \<times> files" where
  "fix_proto_imports fs =
     (case fs grpc_file of
        None \<Rightarrow> (False, fs)
      | Some content \<Rightarrow> (True, fs(grpc_file \<mapsto> py_replace old_import new_import content)))"

subsection \<open>Lemmas\<close>

lemma replace_nonempty_no_match:
  "\<not> (\<exists>a b. s = a @ old @ b) \<Longrightarrow> replace_nonempty old new s = s"
proof (induction old new s rule: replace_nonempty.induct)
  case (1 old new)
  then show ?case by simp
next
  case (2 old new c cs)
  have np: "\<not> (old \<noteq> [] \<and> take (length old) (c # cs) = old)"
  proof
    assume "old \<noteq> [] \<and> take (length old) (c # cs) = old"
    then have "c # cs = old @ drop (length old) (c # cs)" by (metis append_take_drop_id)
    then show False using "2.prems" by (metis append_Nil)
  qed
  have "\<not> (\<exists>a b. cs = a @ old @ b)"
  proof
    assume "\<exists>a b. cs = a @ old @ b"
    then obtain a b where "cs = a @ old @ b" by blast
    then have "c # cs = (c # a) @ old @ b" by simp
    then show False using "2.prems" by blast
  qed
  then have rec: "replace_nonempty old new cs = cs" using "2.IH"(2) [OF np] by blast
  have "replace_nonempty old new (c # cs) = c # replace_nonempty old new cs"
    by (simp only: replace_nonempty.simps(2) np if_False)
  then show ?case using rec by simp
qed

lemma replace_nonempty_prefix:
  "old \<noteq> [] \<Longrightarrow> replace_nonempty old new (old @ rest) = new @ replace_nonempty old new rest"
  by (cases old) simp_all

lemma new_import_eq: "new_import = ''from . '' @ old_import"
  by (simp add: new_import_def old_import_def)

lemma replace_old_import_line:
  assumes "\<not> (\<exists>a b. rest = a @ old_import @ b)"
  shows "py_replace old_import new_import (old_import @ rest) = new_import @ rest"
proof -
  have "old_import \<noteq> []" by (simp add: old_import_def)
  then show ?thesis
    using replace_nonempty_no_match [OF assms] replace_nonempty_prefix
    by (simp add: py_replace_def)
qed

lemma replace_new_import_line:
  assumes "\<not> (\<exists>a b. rest = a @ old_import @ b)"
  shows "py_replace old_import new_import (new_import @ rest) = ''from . '' @ new_import @ rest"
proof -
  have "py_replace old_import new_import (new_import @ rest) =
        ''from . '' @ py_replace old_import new_import (old_import @ rest)"
    by (simp add: py_replace_def new_import_eq) (simp add: old_import_def)
  then show ?thesis using replace_old_import_line [OF assms] by simp
qed

subsection \<open>Properties of the import fixer\<close>

text \<open>
  C31. The branches of \<^verbatim>\<open>fix_proto_imports\<close>: without the generated stub it
  reports failure and writes nothing; a stub without the absolute import is written
  back unchanged; a stub that begins with the absolute import, with no other
  occurrence of it, gets exactly that line replaced by the relative import.
\<close>

theorem fix_proto_imports_branches:
  "(fs grpc_file = None \<longrightarrow> fix_proto_imports fs = (False, fs)) \<and>
   (fs grpc_file = Some content \<and> \<not> (\<exists>a b. content = a @ old_import @ b) \<longrightarrow>
      fix_proto_imports fs = (True, fs)) \<and>
   (fs grpc_file = Some (old_import @ rest) \<and> \<not> (\<exists>a b. rest = a @ old_import @ b) \<longrightarrow>
      fix_proto_imports fs = (True, fs(grpc_file \<mapsto> new_import @ rest)))"
proof (intro conjI impI)
  assume "fs grpc_file = None"
  then show "fix_proto_imports fs = (False, fs)" by (simp add: fix_proto_imports_def)
next
  assume h: "fs grpc_file = Some content \<and> \<not> (\<exists>a b. content = a @ old_import @ b)"
  have "old_import \<noteq> []" by (simp add: old_import_def)
  then have "py_replace old_import new_import content = content"
    using replace_nonempty_no_match h by (simp add: py_replace_def)
  then show "fix_proto_imports fs = (True, fs)"
    using h by (auto simp: fix_proto_imports_def fun_upd_idem)
next
  assume h: "fs grpc_file = Some (old_import @ rest) \<and> \<not> (\<exists>a b. rest = a @ old_import @ b)"
  then show "fix_proto_imports fs = (True, fs(grpc_file \<mapsto> new_import @ rest))"
    using replace_old_import_line by (simp add: fix_proto_imports_def)
qed

theorem fix_proto_imports_branches_witness:
  "fix_proto_imports Map.empty = (False, Map.empty) \<and>
   fix_proto_imports [grpc_file \<mapsto> old_import @ [CHR 0x0A]] =
     (True, [grpc_file \<mapsto> ''from . import storage_pb2 as storage__pb2'' @ [CHR 0x0A]])"
proof
  show "fix_proto_imports Map.empty = (False, Map.empty)"
    using fix_proto_imports_branches [of "Map.empty"] by simp
  have "\<not> (\<exists>a b. [CHR 0x0A] = a @ old_import @ b)"
    by (auto simp: old_import_def append_eq_Cons_conv Cons_eq_append_conv)
  then show "fix_proto_imports [grpc_file \<mapsto> old_import @ [CHR 0x0A]] =
     (True, [grpc_file \<mapsto> ''from . import storage_pb2 as storage__pb2'' @ [CHR 0x0A]])"
    using fix_proto_imports_branches [of "[grpc_file \<mapsto> old_import @ [CHR 0x0A]]" _ "[CHR 0x0A]"]
    by (simp add: new_import_def)
qed

text \<open>
  C32. The fixer is not idempotent: the relative import it writes contains the
  absolute import it looks for, so running it a second time on the stub it has
  fixed turns the line into \<^verbatim>\<open>from . from . import storage_pb2 as storage__pb2\<close>,
  which is a syntax error.
\<close>

theorem fix_proto_imports_twice:
  assumes "fs grpc_file = Some (old_import @ rest)" and "\<not> (\<exists>a b. rest = a @ old_import @ b)"
  shows "fix_proto_imports (snd (fix_proto_imports fs)) =
           (True, fs(grpc_file \<mapsto> ''from . '' @ new_import @ rest)) \<and>
         snd (fix_proto_imports (snd (fix_proto_imports fs))) \<noteq> snd (fix_proto_imports fs)"
proof -
  have once: "fix_proto_imports fs = (True, fs(grpc_file \<mapsto> new_import @ rest))"
    using assms replace_old_import_line by (simp add: fix_proto_imports_def)
  have twice: "fix_proto_imports (fs(grpc_file \<mapsto> new_import @ rest)) =
      (True, fs(grpc_file \<mapsto> ''from . '' @ new_import @ rest))"
    using replace_new_import_line [OF assms(2)] by (simp add: fix_proto_imports_def)
  have "fs(grpc_file \<mapsto> ''from . '' @ new_import @ rest) \<noteq> fs(grpc_file \<mapsto> new_import @ rest)"
  proof
    assume "fs(grpc_file \<mapsto> ''from . '' @ new_import @ rest) = fs(grpc_file \<mapsto> new_import @ rest)"
    then have "length (''from . '' @ new_import @ rest) = length (new_import @ rest)"
      by (metis fun_upd_same option.inject)
    then show False by simp
  qed
  then show ?thesis using once twice by simp
qed

theorem fix_proto_imports_twice_witness:
  "snd (fix_proto_imports (snd (fix_proto_imports [grpc_file \<mapsto> old_import]))) grpc_file =
     Some ''from . from . import storage_pb2 as storage__pb2''"
proof -
  have "\<not> (\<exists>a b. ([] :: string) = a @ old_import @ b)" by (simp add: old_import_def)
  from conjunct1 [OF fix_proto_imports_twice [of "[grpc_file \<mapsto> old_import]" "[]", OF _ this]]
  show ?thesis by (simp add: new_import_def)
qed

end
