(* ===== verification/Spec2Isabelle.thy ===== *)
theory Spec2Isabelle
  imports ControllerMain Interleaving FixImports
begin

text \<open>
  \<^bold>\<open>A verification development for the distributed file-storage simulation of
  \<^verbatim>\<open>src/vm_simulation1\<close>.\<close>

  \<^bold>\<open>The program.\<close> One controller process (\<^verbatim>\<open>controller.py\<close>) keeps two module-level
  dictionaries, \<^verbatim>\<open>registered_nodes\<close> (id \<open>\<mapsto>\<close> address, port, online, last seen) and
  \<^verbatim>\<open>file_locations\<close> (file name \<open>\<mapsto>\<close> owner triples and upload time). Its gRPC servicer
  \<^verbatim>\<open>StorageController\<close> answers nine RPCs on a thread pool, and \<^verbatim>\<open>AnnounceFile\<close>
  calls every other online node's \<^verbatim>\<open>NotifyDuplicate\<close>. The main thread of
  \<^verbatim>\<open>serve_controller\<close> runs the reaper: every 5 s it marks nodes silent for more than
  15 s offline and evicts files with no online owner. A Flask console
  (\<^verbatim>\<open>dashboard.py\<close>) writes the same dictionaries directly. Each node process
  (\<^verbatim>\<open>node.py\<close>) serves \<^verbatim>\<open>NotifyDuplicate\<close> and \<^verbatim>\<open>DownloadFile\<close> from its working
  directory, registers, heartbeats every 5 s and runs an operator terminal whose
  commands call the controller and other nodes. \<^verbatim>\<open>main.py\<close> parses the command
  line and starts one of the two processes; \<^verbatim>\<open>fix_imports.py\<close> patches the generated
  stub.

  \<^bold>\<open>Theories and correspondence.\<close>
  \<^item> \<open>Prelude\<close>: Python dictionaries as insertion-ordered association lists
    (\<open>dict_set\<close> is \<^verbatim>\<open>d[k] = v\<close>, \<open>dict_del\<close> is \<^verbatim>\<open>del d[k]\<close>) with their map
    abstraction; the wire responses as the datatype \<open>response\<close>.
  \<^item> \<open>Registry\<close>: \<^verbatim>\<open>registered_nodes\<close> and the handlers \<^verbatim>\<open>RegisterNode\<close>,
    \<^verbatim>\<open>Heartbeat\<close>, \<^verbatim>\<open>SetOffline\<close> (\<^verbatim>\<open>controller.py\<close> 9, 14--34).
  \<^item> \<open>Directory\<close>: \<^verbatim>\<open>file_locations\<close>, the directory write of \<^verbatim>\<open>AnnounceFile\<close>,
    \<^verbatim>\<open>GetFileLocations\<close>, \<^verbatim>\<open>ListFiles\<close>, \<^verbatim>\<open>DeleteFile\<close> and the two stubs (40--95).
  \<^item> \<open>Reaper\<close>: one atomic pass of the \<^verbatim>\<open>while True\<close> loop (105--125).
    \<open>Interleaving\<close>: the same loop statement by statement (\<open>reaper_step\<close>),
    interleaved with atomic handlers (\<open>istep\<close>), with the \<^verbatim>\<open>RuntimeError\<close> and
    \<^verbatim>\<open>KeyError\<close> that end it (126--129).
  \<^item> \<open>NodeService\<close>: the effective \<^verbatim>\<open>NotifyDuplicate\<close> and \<^verbatim>\<open>DownloadFile\<close>
    (\<^verbatim>\<open>node.py\<close> 31--46) on a node's files. \<open>FanOut\<close>: the notification loop of
    \<^verbatim>\<open>AnnounceFile\<close> (47--56) through links that are up, down or hung.
  \<^item> \<open>Controller\<close>: the two tables as a record, \<open>handle\<close> dispatching the nine
    RPCs, and the system step relation \<open>sys_step\<close> (requests with their fan-out,
    reaper passes, time, peer services starting, stopping and being edited) with its
    reachable states.
  \<^item> \<open>Dashboard\<close>: the console's register, upload and download endpoints
    (\<^verbatim>\<open>dashboard.py\<close> 100--140) and \<open>dash_step\<close>, which adds them to the system.
    \<open>Console\<close>: the page's forms with their string fields and the routing
    (\<open>dash_submit\<close>), and the two tables of the index page (39--96).
  \<^item> \<open>TermParse\<close>: the terminal's \<^verbatim>\<open>strip().split()\<close>, \<^verbatim>\<open>lower()\<close> and command
    dispatch (\<^verbatim>\<open>node.py\<close> 92--217). \<open>NodeTerminal\<close>: \<^verbatim>\<open>run_node\<close>: start-up
    with the peer service's bind and its failure (\<open>serve_node_file_service\<close>),
    heartbeat, every command, blocking stub calls (\<open>rpc_call\<close>), and
    \<open>world_step\<close>, which runs terminals, heartbeats, exits, interrupts
    (\<open>node_shutdown\<close>, lines 220--224) and the system's events together.
  \<^item> \<open>Bootstrap\<close>: \<^verbatim>\<open>argparse\<close> as \<^verbatim>\<open>main.py\<close> configures it, and the dispatch.
    \<open>FixImports\<close>: \<^verbatim>\<open>str.replace\<close> and \<^verbatim>\<open>fix_proto_imports\<close>.
  \<^item> \<open>ControllerMain\<close>: the controller process: module objects in \<^verbatim>\<open>sys.modules\<close>
    and a heap of table objects, the launches \<^verbatim>\<open>python controller.py\<close> and
    \<^verbatim>\<open>main.py --controller\<close>, \<^verbatim>\<open>start_dashboard\<close>, the bind and the exits of
    \<^verbatim>\<open>serve_controller\<close> (\<^verbatim>\<open>controller.py\<close> 1--12, 96--145), and \<open>proc_step\<close>
    running handlers, reaper passes and console submissions on the tables each
    thread imported.

  \<^bold>\<open>What is proved\<close> (claim ids in brackets).
  \<^item> Directory: visibility follows liveness [C1]; announcing is idempotent on the
    owner set [C2].
  \<^item> Reaper: eviction in the same pass [C3]; a timeout is reported once [C4]; the
    marking loop that writes into the dictionary it iterates refines a pointwise map
    [C5]; the effective timeout lies between 14 and 15 s [C6].
  \<^item> Peer service and fan-out: notifications only ghost [C7]; the fan-out overwrites
    whatever an up peer held under \<^verbatim>\<open>Replicated_<name>\<close> [C8]; it reaches
    exactly the other online nodes [C9]; the loop returns iff no link hangs [C10].
  \<^item> Control service: the well-formedness invariant holds in every reachable
    state [C11]; the registration guard [C12]; registration is idempotent [C13];
    \<^verbatim>\<open>SetOffline\<close> followed by \<^verbatim>\<open>Heartbeat\<close> hides exactly the node's locations and
    then restores every reader's answer [C14]; the read-only handlers and the stubs
    [C15]; node records are never removed [C16].
  \<^item> Console: its upload equals \<^verbatim>\<open>AnnounceFile\<close> for a registered owner [C17],
    breaks the invariant for an unregistered one [C18], and its download ignores
    liveness [C19].
  \<^item> Terminal: command lines round-trip through \<^verbatim>\<open>split()\<close> [C20]; a download
    writes the bytes an online owner serves [C21]; upload success and error branches
    [C22, C23]; \<^verbatim>\<open>exit\<close> takes the node out of the readers [C24]; exactly which
    commands can hang the terminal [C25]; Ctrl-C stops the peer service but leaves
    the node's locations in the readers' answers, where a download fails [C26].
  \<^item> Interleaving: the statement-level pass refines the atomic one [C27]; a
    heartbeat in the middle of a pass is lost [C28]; a registration or deletion at
    the wrong moment kills the reaper for good [C29]; a pass between the two
    statements of \<^verbatim>\<open>AnnounceFile\<close> that touch a new entry makes it raise
    \<^verbatim>\<open>KeyError\<close> [C30].
  \<^item> Start-up and the console process: the fixer's branches [C31] and its
    non-idempotence [C32]; the console page shows both tables whole, and
    \<^verbatim>\<open>ListFiles\<close> is the part of it with an owner shown online [C33]; the console
    writes the service's tables only when started through \<^verbatim>\<open>main.py\<close>, a copy of
    its own under \<^verbatim>\<open>python controller.py\<close> [C34].

  \<^bold>\<open>Time, termination and blocking.\<close> Handlers stamp whole seconds (\<open>timestamp =
  int\<close>, \<^verbatim>\<open>strftime\<close>); the reaper compares a real clock (\<^verbatim>\<open>time.time()\<close>) with them.
  No definition uses fuel. Loops over a list are structural recursion or folds; the
  two that are not structural (\<open>replace_nonempty\<close>, \<open>parse_loop\<close>) are
  \<open>function\<close>s with a measure. The statement-level reaper is a step function; C27
  proves that a pass returns to idle after finitely many steps, by composing the
  step counts of its three loops. A call that may never return, because the source
  sets no timeout, returns an option: \<open>notify_peers\<close>, \<open>rpc_call\<close> and a terminal command
  give \<open>None\<close> exactly when a link hangs (C10, C25).

  \<^bold>\<open>Not modelled.\<close>
  \<^item> The gRPC transport: calls are function calls, a peer's failure is a link state,
    and the controller is always reachable, so an \<^verbatim>\<open>RpcError\<close> of a controller call
    that would end \<^verbatim>\<open>run_node\<close> or the heartbeat thread is not modelled.
  \<^item> Handlers are atomic with respect to each other; only the reaper is split into
    statements.
  \<^item> Printing, colours, \<^verbatim>\<open>time.sleep\<close> (passes and commands may happen at any
    time instead), and the page's HTML markup, style sheet and flash display (its
    tables are modelled at the level of their cells).
  \<^item> What the interpreter does after \<^verbatim>\<open>serve_controller\<close> returns: the process
    model stops there; the gRPC server's own threads are not modelled.
  \<^item> File-system errors.
  \<^item> Characters above code point 255.
  \<^item> The distribution of \<^verbatim>\<open>random.choice\<close>: it is an index parameter.
  \<^item> The generated \<^verbatim>\<open>proto\<close> package, which is not in the sources.
  \<^item> The first \<^verbatim>\<open>NotifyDuplicate\<close> of \<^verbatim>\<open>node.py\<close> (lines 23--29): the second
    definition in the class body replaces it, so it is never called.
  \<^item> Port sharing: \<open>serve_node_file_service\<close> fails with \<open>BindFailed\<close> on an endpoint
    where a peer service of the model is serving, as the source's message
    expects. gRPC sets \<^verbatim>\<open>SO_REUSEPORT\<close> on Linux, so there a second server on the
    port may start and share the incoming calls with the first; the model does not
    have two servers on one endpoint, and no claim depends on a bind failing.
  \<^item> Sharing of a working directory: every node has its own file map, whereas
    nodes started in one directory share the files there (and a node then reads
    the placeholder another node's notification wrote).
\<close>

end
